(* ===== verification/JS_Prelude.thy ===== *)
theory JS_Prelude
  imports Complex_Main
begin

text \<open>
  Shared vocabulary of the development. JavaScript evaluation steps that may
  throw are values of a sum type \<open>'e + 'a\<close> (\<open>Inl\<close> the exception), sequenced by
  \<open>js_bind\<close>, which is ECMA-262's \<open>?\<close> (ReturnIfAbrupt). Decimal digit strings
  (\<open>nat_to_dec\<close>, \<open>dec_to_nat\<close>) are used both by the number conversions and by
  array-index property keys. The collection \<open>js_simps\<close> gathers the evaluation
  rules that the component proofs hand to \<open>simp\<close>.
\<close>

named_theorems js_simps "evaluation rules of the JavaScript model"

subsection \<open>Abrupt completions\<close>

fun js_bind :: "'e + 'a \<Rightarrow> ('a \<Rightarrow> 'e + 'b) \<Rightarrow> 'e + 'b" where
  "js_bind (Inl e) f = Inl e"
| "js_bind (Inr a) f = f a"

lemma js_bind_Inr_iff [simp]:
  "js_bind m f = Inr b \<longleftrightarrow> (\<exists>a. m = Inr a \<and> f a = Inr b)"
  by (cases m) auto

lemma js_bind_Inl_iff:
  "js_bind m f = Inl e \<longleftrightarrow> m = Inl e \<or> (\<exists>a. m = Inr a \<and> f a = Inl e)"
  by (cases m) auto

lemma js_bind_assoc: "js_bind (js_bind m f) g = js_bind m (\<lambda>a. js_bind (f a) g)"
  by (cases m) auto

lemma js_bind_cong [fundef_cong]:
  "m = m' \<Longrightarrow> (\<And>a. m' = Inr a \<Longrightarrow> f a = g a) \<Longrightarrow> js_bind m f = js_bind m' g"
  by (cases m') auto

subsection \<open>Decimal digits\<close>

definition is_digit :: "char \<Rightarrow> bool" where
  "is_digit c \<longleftrightarrow> (48::nat) \<le> of_char c \<and> of_char c \<le> (57::nat)"

definition digit_val :: "char \<Rightarrow> nat" where
  "digit_val c = of_char c - 48"

definition digit_char :: "nat \<Rightarrow> char" where
  "digit_char d = char_of (48 + d)"

fun nat_to_dec :: "nat \<Rightarrow> string" where
  "nat_to_dec n =
     (if n < 10 then [digit_char n] else nat_to_dec (n div 10) @ [digit_char (n mod 10)])"

definition dec_to_nat :: "string \<Rightarrow> nat" where
  "dec_to_nat s = foldl (\<lambda>acc c. 10 * acc + digit_val c) 0 s"

declare nat_to_dec.simps [simp del]

lemma digit_val_char [simp]: "d < 10 \<Longrightarrow> digit_val (digit_char d) = d"
  by (simp add: digit_val_def digit_char_def)

lemma digit_char_simps [simp]:
  "digit_char 0 = CHR ''0''" "digit_char 1 = CHR ''1''" "digit_char 2 = CHR ''2''"
  "digit_char 3 = CHR ''3''" "digit_char 4 = CHR ''4''" "digit_char 5 = CHR ''5''"
  "digit_char 6 = CHR ''6''" "digit_char 7 = CHR ''7''" "digit_char 8 = CHR ''8''"
  "digit_char 9 = CHR ''9''"
  unfolding digit_char_def by code_simp+

lemma is_digit_char [simp]: "d < 10 \<Longrightarrow> is_digit (digit_char d)"
  by (simp add: is_digit_def digit_char_def)

lemma dec_to_nat_snoc [simp]:
  "dec_to_nat (s @ [c]) = 10 * dec_to_nat s + digit_val c"
  by (simp add: dec_to_nat_def)

lemma dec_to_nat_Nil [simp]: "dec_to_nat [] = 0"
  by (simp add: dec_to_nat_def)

lemma dec_to_nat_single [simp]: "dec_to_nat [c] = digit_val c"
  by (simp add: dec_to_nat_def)

lemma dec_to_nat_nat_to_dec [simp]: "dec_to_nat (nat_to_dec n) = n"
proof (induction n rule: nat_to_dec.induct)
  case (1 n)
  then show ?case
    by (subst nat_to_dec.simps) simp
qed

lemma nat_to_dec_digits: "list_all is_digit (nat_to_dec n)"
proof (induction n rule: nat_to_dec.induct)
  case (1 n)
  then show ?case
    by (subst nat_to_dec.simps) simp
qed

lemma nat_to_dec_not_Nil [simp]: "nat_to_dec n \<noteq> []"
  by (subst nat_to_dec.simps) simp

lemma length_nat_to_dec_le: "length (nat_to_dec n) \<le> Suc n"
proof (induction n rule: nat_to_dec.induct)
  case (1 n)
  then show ?case
    by (subst nat_to_dec.simps) auto
qed

subsection \<open>Association lists\<close>

text \<open>Own-property lookup in an object is \<open>map_of\<close> on its property list.\<close>

lemma map_of_Some_in_keys: "map_of ps k = Some v \<Longrightarrow> k \<in> fst ` set ps"
  by (induction ps) (auto split: if_splits)

end
