(* ===== verification/JS_Numbers.thy ===== *)
theory JS_Numbers
  imports JS_Prelude
begin

text \<open>
  JavaScript numbers and the ECMA-262 operations on them that the visual's code
  reaches: \<open>Number::toString\<close> (radix 10), \<open>StringToNumber\<close>,
  \<open>Number::lessThan\<close>, \<open>Number::equal\<close> and \<open>Number::add\<close>. A finite number is
  an exact rational: the model keeps the decimal value the host sends and does
  not round to binary64 nor overflow to \<open>Infinity\<close>; \<open>-0\<close> is \<open>0\<close>.
  \<open>Number::toString\<close> is exact on every rational with a finite decimal
  expansion (the shortest decimal form of every double is one); on others it
  prints the expansion truncated after the denominator's powers of 2 and 5.
\<close>

datatype jsnum = NaN | Infinity | NegInfinity | Fin rat

subsection \<open>Number::toString\<close>

function pmult :: "nat \<Rightarrow> nat \<Rightarrow> nat" where
  "pmult p n = (if 1 < p \<and> 0 < n \<and> n mod p = 0 then Suc (pmult p (n div p)) else 0)"
  by pat_completeness auto
termination
  by (relation "measure (\<lambda>(p, n). n)") auto

function strip10 :: "nat \<Rightarrow> nat \<times> nat" where
  "strip10 m = (if 0 < m \<and> m mod 10 = 0
                then (case strip10 (m div 10) of (s, t) \<Rightarrow> (s, Suc t))
                else (m, 0))"
  by pat_completeness auto
termination
  by (relation "measure id") auto

declare pmult.simps [simp del] strip10.simps [simp del]

definition exp_suffix :: "int \<Rightarrow> string" where
  "exp_suffix e = ''e'' @ (if 0 \<le> e then ''+'' else ''-'') @ nat_to_dec (nat \<bar>e\<bar>)"

text \<open>
  Steps 6 to 10 of \<open>Number::toString\<close>: \<open>ds\<close> are the \<open>k\<close> digits of \<open>s\<close> and
  the value is \<open>s \<times> 10^(n - k)\<close>.
\<close>

definition format_decimal :: "string \<Rightarrow> int \<Rightarrow> string" where
  "format_decimal ds n =
     (let k = int (length ds) in
      if k \<le> n \<and> n \<le> 21 then ds @ replicate (nat (n - k)) (CHR ''0'')
      else if 0 < n \<and> n \<le> 21 then take (nat n) ds @ ''.'' @ drop (nat n) ds
      else if -6 < n \<and> n \<le> 0 then ''0.'' @ replicate (nat (- n)) (CHR ''0'') @ ds
      else if k = 1 then ds @ exp_suffix (n - 1)
      else [hd ds] @ ''.'' @ tl ds @ exp_suffix (n - 1))"

definition pos_rat_to_string :: "rat \<Rightarrow> string" where
  "pos_rat_to_string q =
     (case quotient_of q of (a, b) \<Rightarrow>
        let e = max (pmult 2 (nat b)) (pmult 5 (nat b));
            m = nat a * 10 ^ e div nat b
        in case strip10 m of (s, t) \<Rightarrow>
             let ds = nat_to_dec s in format_decimal ds (int (length ds) + int t - int e))"

fun number_to_string :: "jsnum \<Rightarrow> string" where
  "number_to_string NaN = ''NaN''"
| "number_to_string Infinity = ''Infinity''"
| "number_to_string NegInfinity = ''-Infinity''"
| "number_to_string (Fin q) =
     (if q = 0 then ''0''
      else if q < 0 then ''-'' @ pos_rat_to_string (- q)
      else pos_rat_to_string q)"

subsection \<open>StringToNumber\<close>

text \<open>
  \<open>StrWhiteSpaceChar\<close> restricted to 8-bit characters: TAB, LF, VT, FF, CR,
  SP and NBSP.
\<close>

definition is_str_ws :: "char \<Rightarrow> bool" where
  "is_str_ws c \<longleftrightarrow> of_char c \<in> set [9, 10, 11, 12, 13, 32, 160 :: nat]"

definition trim_str_ws :: "string \<Rightarrow> string" where
  "trim_str_ws s = rev (dropWhile is_str_ws (rev (dropWhile is_str_ws s)))"

definition pow10_int :: "int \<Rightarrow> rat" where
  "pow10_int e = (if 0 \<le> e then 10 ^ nat e else 1 / 10 ^ nat (- e))"

definition digits_int :: "string \<Rightarrow> int option" where
  "digits_int s = (if s \<noteq> [] \<and> list_all is_digit s then Some (int (dec_to_nat s)) else None)"

fun parse_exponent :: "string \<Rightarrow> int option" where
  "parse_exponent [] = None"
| "parse_exponent (c # cs) =
     (if c = CHR ''+'' then digits_int cs
      else if c = CHR ''-'' then map_option uminus (digits_int cs)
      else digits_int (c # cs))"

text \<open>
  \<open>StrUnsignedDecimalLiteral\<close>: \<open>Infinity\<close>, or digits with an optional
  fraction and an optional exponent, at least one digit before the exponent.
\<close>

definition parse_unsigned_decimal :: "string \<Rightarrow> jsnum option" where
  "parse_unsigned_decimal s =
     (if s = ''Infinity'' then Some Infinity
      else
        let ip = takeWhile is_digit s; r1 = dropWhile is_digit s;
            (fp, r2) = (case r1 of
                          [] \<Rightarrow> ([], [])
                        | c # cs \<Rightarrow> if c = CHR ''.'' then (takeWhile is_digit cs, dropWhile is_digit cs)
                                    else ([], r1));
            ex = (case r2 of
                    [] \<Rightarrow> Some 0
                  | c # cs \<Rightarrow> if c = CHR ''e'' \<or> c = CHR ''E'' then parse_exponent cs else None)
        in if ip = [] \<and> fp = [] then None
           else map_option (\<lambda>x. Fin (of_nat (dec_to_nat (ip @ fp)) * pow10_int (x - int (length fp)))) ex)"

fun num_neg :: "jsnum \<Rightarrow> jsnum" where
  "num_neg NaN = NaN"
| "num_neg Infinity = NegInfinity"
| "num_neg NegInfinity = Infinity"
| "num_neg (Fin q) = Fin (- q)"

definition parse_decimal :: "string \<Rightarrow> jsnum option" where
  "parse_decimal s =
     (case s of
        [] \<Rightarrow> None
      | c # cs \<Rightarrow> if c = CHR ''+'' then parse_unsigned_decimal cs
                  else if c = CHR ''-'' then map_option num_neg (parse_unsigned_decimal cs)
                  else parse_unsigned_decimal s)"

text \<open>\<open>NonDecimalIntegerLiteral\<close>: \<open>0b\<close>, \<open>0o\<close> and \<open>0x\<close> literals, unsigned.\<close>

definition radix_digit :: "nat \<Rightarrow> char \<Rightarrow> nat option" where
  "radix_digit r c =
     (let n = of_char c :: nat;
          d = (if 48 \<le> n \<and> n \<le> 57 then Some (n - 48)
               else if 97 \<le> n \<and> n \<le> 102 then Some (n - 87)
               else if 65 \<le> n \<and> n \<le> 70 then Some (n - 55) else None)
      in case d of Some v \<Rightarrow> if v < r then Some v else None | None \<Rightarrow> None)"

fun radix_value :: "nat \<Rightarrow> nat \<Rightarrow> string \<Rightarrow> nat option" where
  "radix_value r acc [] = Some acc"
| "radix_value r acc (c # cs) =
     (case radix_digit r c of None \<Rightarrow> None | Some d \<Rightarrow> radix_value r (r * acc + d) cs)"

definition radix_prefix :: "char \<Rightarrow> nat option" where
  "radix_prefix c =
     (if c = CHR ''b'' \<or> c = CHR ''B'' then Some 2
      else if c = CHR ''o'' \<or> c = CHR ''O'' then Some 8
      else if c = CHR ''x'' \<or> c = CHR ''X'' then Some 16 else None)"

definition parse_nondecimal :: "string \<Rightarrow> jsnum option" where
  "parse_nondecimal s =
     (case s of
        z # c # ds \<Rightarrow>
          if z = CHR ''0'' \<and> ds \<noteq> [] then
            (case radix_prefix c of
               None \<Rightarrow> None
             | Some r \<Rightarrow> map_option (\<lambda>v. Fin (of_nat v)) (radix_value r 0 ds))
          else None
      | _ \<Rightarrow> None)"

definition string_to_number :: "string \<Rightarrow> jsnum" where
  "string_to_number s =
     (let t = trim_str_ws s in
      if t = [] then Fin 0
      else case parse_nondecimal t of
             Some n \<Rightarrow> n
           | None \<Rightarrow> (case parse_decimal t of Some n \<Rightarrow> n | None \<Rightarrow> NaN))"

subsection \<open>Comparison, equality, addition\<close>

text \<open>\<open>Number::lessThan\<close>: \<open>None\<close> is the spec's \<open>undefined\<close> (a NaN operand).\<close>

fun num_less :: "jsnum \<Rightarrow> jsnum \<Rightarrow> bool option" where
  "num_less NaN y = None"
| "num_less x NaN = None"
| "num_less (Fin a) (Fin b) = Some (a < b)"
| "num_less Infinity y = Some False"
| "num_less x Infinity = Some True"
| "num_less x NegInfinity = Some False"
| "num_less NegInfinity y = Some True"

fun num_eq :: "jsnum \<Rightarrow> jsnum \<Rightarrow> bool" where
  "num_eq NaN y = False"
| "num_eq x NaN = False"
| "num_eq x y = (x = y)"

fun num_add :: "jsnum \<Rightarrow> jsnum \<Rightarrow> jsnum" where
  "num_add NaN y = NaN"
| "num_add x NaN = NaN"
| "num_add Infinity NegInfinity = NaN"
| "num_add NegInfinity Infinity = NaN"
| "num_add Infinity y = Infinity"
| "num_add x Infinity = Infinity"
| "num_add NegInfinity y = NegInfinity"
| "num_add x NegInfinity = NegInfinity"
| "num_add (Fin a) (Fin b) = Fin (a + b)"

definition num_is_nan :: "jsnum \<Rightarrow> bool" where
  "num_is_nan n \<longleftrightarrow> n = NaN"

subsection \<open>Lemmas\<close>

lemma num_less_Fin [js_simps]: "num_less (Fin a) (Fin b) = Some (a < b)"
  by simp

lemma num_less_NaN_right [simp]: "num_less x NaN = None"
  by (cases x) auto

lemma num_less_None_iff: "num_less x y = None \<longleftrightarrow> x = NaN \<or> y = NaN"
  by (cases x; cases y) auto

text \<open>Two strict comparisons of a number with bounds \<open>lo \<le> hi\<close> never both hold.\<close>

lemma num_less_bounds_exclusive:
  assumes "num_less x (Fin lo) = Some True" and "num_less (Fin hi) x = Some True"
    and "lo \<le> hi"
  shows False
  using assms by (cases x) auto

lemma string_to_number_empty [simp]: "string_to_number [] = Fin 0"
  by (simp add: string_to_number_def trim_str_ws_def)

text \<open>
  \<open>Number::toString\<close> of a natural number below \<open>10^21\<close> is its decimal
  digits: no exponent, no fraction.
\<close>

lemma strip10_spec: "strip10 m = (s, t) \<Longrightarrow> m = s * 10 ^ t \<and> (0 < m \<longrightarrow> 0 < s)"
proof (induction m arbitrary: s t rule: strip10.induct)
  case (1 m)
  show ?case
  proof (cases "0 < m \<and> m mod 10 = 0")
    case True
    obtain s' t' where r: "strip10 (m div 10) = (s', t')" by (cases "strip10 (m div 10)")
    with True "1.prems" have st: "s = s'" "t = Suc t'" by (subst (asm) strip10.simps, simp)+
    from "1.IH" [OF True r] True have d: "m div 10 = s' * 10 ^ t'" "0 < s'"
      by auto
    have "m = m div 10 * 10" using True div_mult_mod_eq [of m 10] by simp
    with d st show ?thesis by (simp add: ac_simps)
  next
    case False
    with "1.prems" show ?thesis by (subst (asm) strip10.simps) auto
  qed
qed

lemma pmult_one [simp]: "pmult p (Suc 0) = 0"
  by (subst pmult.simps) simp

lemma nat_to_dec_times10: "0 < m \<Longrightarrow> nat_to_dec (m * 10) = nat_to_dec m @ ''0''"
  by (subst nat_to_dec.simps) simp

lemma nat_to_dec_pow10:
  "0 < s \<Longrightarrow> nat_to_dec (s * 10 ^ t) = nat_to_dec s @ replicate t (CHR ''0'')"
proof (induction t)
  case (Suc t)
  have e: "s * 10 ^ Suc t = (s * 10 ^ t) * 10" by simp
  have "nat_to_dec (s * 10 ^ Suc t) = nat_to_dec (s * 10 ^ t) @ ''0''"
    unfolding e using Suc.prems by (simp add: nat_to_dec_times10)
  with Suc show ?case by (simp add: replicate_append_same)
qed simp

lemma length_nat_to_dec_bound: "0 < k \<Longrightarrow> n < 10 ^ k \<Longrightarrow> length (nat_to_dec n) \<le> k"
proof (induction n arbitrary: k rule: nat_to_dec.induct)
  case (1 n)
  show ?case
  proof (cases "n < 10")
    case False
    then obtain k' where k: "k = Suc k'" "0 < k'"
      using "1.prems" by (cases k; cases "k - 1") (auto simp: not_less)
    have "n div 10 < 10 ^ k'" using "1.prems" k by (simp add: div_less_iff_less_mult mult.commute)
    with "1.IH" False k show ?thesis by (subst nat_to_dec.simps) simp
  qed (use "1.prems" in \<open>subst nat_to_dec.simps, simp\<close>)
qed

lemma pos_rat_to_string_nat:
  assumes "0 < n" "n < 10 ^ 21"
  shows "pos_rat_to_string (of_nat n) = nat_to_dec n"
proof -
  have q: "quotient_of (of_nat n :: rat) = (int n, 1)"
    by (rule quotient_of_rat_of_nat)
  obtain s t where st: "strip10 n = (s, t)" by (cases "strip10 n")
  from strip10_spec [OF st] assms have n: "n = s * 10 ^ t" "0 < s" by auto
  have ds: "nat_to_dec n = nat_to_dec s @ replicate t (CHR ''0'')"
    using n by (simp add: nat_to_dec_pow10)
  have "length (nat_to_dec n) \<le> 21" using assms by (simp add: length_nat_to_dec_bound)
  then have "int (length (nat_to_dec s)) + int t \<le> 21" using ds by simp
  then have f: "format_decimal (nat_to_dec s) (int (length (nat_to_dec s)) + int t) = nat_to_dec n"
    by (simp add: format_decimal_def ds Let_def)
  have "pos_rat_to_string (of_nat n) = format_decimal (nat_to_dec s) (int (length (nat_to_dec s)) + int t)"
    by (simp add: pos_rat_to_string_def q st Let_def)
  with f show ?thesis by simp
qed

lemma nat_to_dec_zero: "nat_to_dec 0 = ''0''"
  by (subst nat_to_dec.simps) simp

lemma number_to_string_nat:
  assumes "n < 10 ^ 21"
  shows "number_to_string (Fin (of_nat n)) = nat_to_dec n"
proof (cases "n = 0")
  case True
  then show ?thesis by (simp add: nat_to_dec_zero)
next
  case False
  with assms show ?thesis by (simp add: pos_rat_to_string_nat)
qed

text \<open>StringToNumber reads those digits back.\<close>

lemma digit_not_ws: "is_digit c \<Longrightarrow> \<not> is_str_ws c"
  by (auto simp: is_digit_def is_str_ws_def)

lemma trim_str_ws_digits: "list_all is_digit s \<Longrightarrow> trim_str_ws s = s"
proof -
  assume d: "list_all is_digit s"
  have dw: "list_all is_digit xs \<Longrightarrow> dropWhile is_str_ws xs = xs" for xs
    by (cases xs) (auto simp: digit_not_ws)
  from d show ?thesis by (simp add: trim_str_ws_def dw)
qed

lemma digit_not_radix_prefix: "is_digit c \<Longrightarrow> radix_prefix c = None"
  by (auto simp: is_digit_def radix_prefix_def)

lemma parse_nondecimal_digits: "list_all is_digit s \<Longrightarrow> parse_nondecimal s = None"
  by (auto simp: parse_nondecimal_def digit_not_radix_prefix split: list.split)

lemma parse_unsigned_decimal_digits:
  assumes "s \<noteq> []" "list_all is_digit s"
  shows "parse_unsigned_decimal s = Some (Fin (of_nat (dec_to_nat s)))"
proof -
  have tw: "takeWhile is_digit s = s" and dw: "dropWhile is_digit s = []"
    using assms(2) by (simp_all add: list_all_iff)
  have "s \<noteq> ''Infinity''" using assms(2) by (auto simp: is_digit_def)
  with assms(1) show ?thesis by (simp add: parse_unsigned_decimal_def pow10_int_def Let_def tw dw)
qed

lemma parse_decimal_digits:
  assumes "s \<noteq> []" "list_all is_digit s"
  shows "parse_decimal s = Some (Fin (of_nat (dec_to_nat s)))"
proof (cases s)
  case (Cons c cs)
  with assms(2) have "c \<noteq> CHR ''+''" "c \<noteq> CHR ''-''" by (auto simp: is_digit_def)
  with Cons assms show ?thesis by (simp add: parse_decimal_def parse_unsigned_decimal_digits)
qed (use assms in simp)

lemma string_to_number_nat_to_dec: "string_to_number (nat_to_dec n) = Fin (of_nat n)"
  using nat_to_dec_digits [of n]
  by (simp add: string_to_number_def trim_str_ws_digits parse_nondecimal_digits parse_decimal_digits)
end
