(* ===== verification/JS_Values.thy ===== *)
theory JS_Values
  imports JS_Numbers
begin

text \<open>
  The JavaScript values the visual handles and the ECMA-262 abstract operations
  its code invokes implicitly: \<open>ToBoolean\<close> (truthiness), \<open>ToPrimitive\<close>,
  \<open>ToString\<close>, \<open>ToNumber\<close>, \<open>IsStrictlyEqual\<close> (\<open>===\<close>),
  \<open>IsLooselyEqual\<close> (\<open>==\<close>), \<open>IsLessThan\<close> (\<open><\<close>, \<open>>\<close>), property reads
  (\<open>o.p\<close>, \<open>o[k]\<close>) and the \<open>+\<close> operator.

  Objects and arrays carry an identity (a \<open>nat\<close>, the address of the object)
  so that \<open>===\<close> on objects compares references, as JavaScript does; their
  contents are immutable in this development because the visual never writes
  into host data. An object's own properties are an association list; the host
  hands over plain data objects, so the model has no function values: an own
  property named \<open>toString\<close> or \<open>valueOf\<close> is therefore never callable, and
  \<open>ToPrimitive\<close> of an object with an own \<open>toString\<close> throws, as in JavaScript.
  Names inherited from \<open>Object.prototype\<close> or \<open>Array.prototype\<close> (such as
  \<open>constructor\<close>) read as \<open>undefined\<close>; no property name the visual reads is
  one of them.
\<close>

datatype js_error =
    TypeError_ReadNullish   \<comment> \<open>reading a property of \<open>undefined\<close> or \<open>null\<close>\<close>
  | TypeError_ToPrimitive   \<comment> \<open>"Cannot convert object to primitive value"\<close>
  | TypeError_NotCallable   \<comment> \<open>calling a value that is not a function\<close>
  | TypeError_WriteNullish  \<comment> \<open>setting a property of \<open>undefined\<close> or \<open>null\<close>\<close>

datatype jsval =
    JUndefined
  | JNull
  | JBool bool
  | JNumber jsnum
  | JString string
  | JObject nat "(string \<times> jsval) list"
  | JArray nat "jsval list"

subsection \<open>Types and truthiness\<close>

text \<open>\<open>Type(x)\<close>: arrays are objects.\<close>

fun js_type :: "jsval \<Rightarrow> nat" where
  "js_type JUndefined = 0"
| "js_type JNull = 1"
| "js_type (JBool _) = 2"
| "js_type (JNumber _) = 3"
| "js_type (JString _) = 4"
| "js_type (JObject _ _) = 5"
| "js_type (JArray _ _) = 5"

definition is_nullish :: "jsval \<Rightarrow> bool" where
  "is_nullish v \<longleftrightarrow> v = JUndefined \<or> v = JNull"

definition is_object :: "jsval \<Rightarrow> bool" where
  "is_object v \<longleftrightarrow> js_type v = 5"

text \<open>\<open>ToBoolean\<close>.\<close>

fun truthy :: "jsval \<Rightarrow> bool" where
  "truthy JUndefined = False"
| "truthy JNull = False"
| "truthy (JBool b) = b"
| "truthy (JNumber n) = (n \<noteq> NaN \<and> n \<noteq> Fin 0)"
| "truthy (JString s) = (s \<noteq> [])"
| "truthy (JObject _ _) = True"
| "truthy (JArray _ _) = True"

subsection \<open>ToString and ToPrimitive\<close>

text \<open>
  \<open>ToString\<close>; on an array it is \<open>Array.prototype.join\<close> with \<open>","\<close>, which
  writes \<open>undefined\<close> and \<open>null\<close> elements as the empty string.
\<close>

fun comma_join :: "string list \<Rightarrow> string" where
  "comma_join [] = []"
| "comma_join [s] = s"
| "comma_join (s # ss) = s @ '','' @ comma_join ss"

fun js_to_string :: "jsval \<Rightarrow> js_error + string"
  and join_elems :: "jsval list \<Rightarrow> js_error + string list" where
  "js_to_string JUndefined = Inr ''undefined''"
| "js_to_string JNull = Inr ''null''"
| "js_to_string (JBool b) = Inr (if b then ''true'' else ''false'')"
| "js_to_string (JNumber n) = Inr (number_to_string n)"
| "js_to_string (JString s) = Inr s"
| "js_to_string (JObject _ ps) =
     (if map_of ps ''toString'' = None then Inr ''[object Object]'' else Inl TypeError_ToPrimitive)"
| "js_to_string (JArray _ xs) = js_bind (join_elems xs) (\<lambda>ss. Inr (comma_join ss))"
| "join_elems [] = Inr []"
| "join_elems (x # xs) =
     js_bind (if x = JUndefined \<or> x = JNull then Inr [] else js_to_string x)
       (\<lambda>s. js_bind (join_elems xs) (\<lambda>ss. Inr (s # ss)))"

text \<open>
  \<open>ToPrimitive\<close> (hint number or default; for the objects of this model both
  hints give the same result): an object becomes the string its \<open>toString\<close>
  gives.
\<close>

definition to_primitive :: "jsval \<Rightarrow> js_error + jsval" where
  "to_primitive v = (if is_object v then js_bind (js_to_string v) (\<lambda>s. Inr (JString s)) else Inr v)"

text \<open>\<open>ToNumber\<close> of a primitive value, and of any value.\<close>

fun prim_to_number :: "jsval \<Rightarrow> jsnum" where
  "prim_to_number JUndefined = NaN"
| "prim_to_number JNull = Fin 0"
| "prim_to_number (JBool b) = Fin (if b then 1 else 0)"
| "prim_to_number (JNumber n) = n"
| "prim_to_number (JString s) = string_to_number s"
| "prim_to_number (JObject _ _) = NaN"
| "prim_to_number (JArray _ _) = NaN"

definition js_to_number :: "jsval \<Rightarrow> js_error + jsnum" where
  "js_to_number v = js_bind (to_primitive v) (\<lambda>p. Inr (prim_to_number p))"

subsection \<open>Equality\<close>

text \<open>\<open>IsStrictlyEqual\<close> (\<open>===\<close>).\<close>

fun js_strict_eq :: "jsval \<Rightarrow> jsval \<Rightarrow> bool" where
  "js_strict_eq JUndefined JUndefined = True"
| "js_strict_eq JNull JNull = True"
| "js_strict_eq (JBool a) (JBool b) = (a = b)"
| "js_strict_eq (JNumber a) (JNumber b) = num_eq a b"
| "js_strict_eq (JString a) (JString b) = (a = b)"
| "js_strict_eq (JObject i _) (JObject j _) = (i = j)"
| "js_strict_eq (JArray i _) (JArray j _) = (i = j)"
| "js_strict_eq _ _ = False"

definition is_string :: "jsval \<Rightarrow> bool" where
  "is_string v \<longleftrightarrow> js_type v = 4"

definition is_number :: "jsval \<Rightarrow> bool" where
  "is_number v \<longleftrightarrow> js_type v = 3"

definition is_bool :: "jsval \<Rightarrow> bool" where
  "is_bool v \<longleftrightarrow> js_type v = 2"

fun eq_rank :: "jsval \<Rightarrow> nat" where
  "eq_rank (JBool _) = 1"
| "eq_rank (JObject _ _) = 2"
| "eq_rank (JArray _ _) = 2"
| "eq_rank _ = 0"

lemma to_primitive_rank: "is_object v \<Longrightarrow> to_primitive v = Inr p \<Longrightarrow> eq_rank p = 0"
  by (auto simp: to_primitive_def)

lemma eq_rank_bool: "is_bool x \<Longrightarrow> eq_rank x = 1"
  by (cases x) (auto simp: is_bool_def)

lemma eq_rank_object: "is_object x \<Longrightarrow> eq_rank x = 2"
  by (cases x) (auto simp: is_object_def)

text \<open>\<open>IsLooselyEqual\<close> (\<open>==\<close>), its steps in the order of ECMA-262.\<close>

function js_loose_eq :: "jsval \<Rightarrow> jsval \<Rightarrow> js_error + bool" where
  "js_loose_eq x y =
     (if js_type x = js_type y then Inr (js_strict_eq x y)
      else if is_nullish x \<and> is_nullish y then Inr True
      else if is_number x \<and> is_string y then Inr (num_eq (prim_to_number x) (prim_to_number y))
      else if is_string x \<and> is_number y then Inr (num_eq (prim_to_number x) (prim_to_number y))
      else if is_bool x then js_loose_eq (JNumber (prim_to_number x)) y
      else if is_bool y then js_loose_eq x (JNumber (prim_to_number y))
      else if (is_string x \<or> is_number x) \<and> is_object y then
        js_bind (to_primitive y) (\<lambda>p. js_loose_eq x p)
      else if is_object x \<and> (is_string y \<or> is_number y) then
        js_bind (to_primitive x) (\<lambda>p. js_loose_eq p y)
      else Inr False)"
  by pat_completeness auto
termination
  by (relation "measure (\<lambda>(x, y). eq_rank x + eq_rank y)")
     (auto dest: to_primitive_rank simp: eq_rank_bool eq_rank_object)

declare js_loose_eq.simps [simp del]

subsection \<open>Relational comparison\<close>

text \<open>\<open>IsLessThan\<close> on two strings: by code units, a proper prefix is less.\<close>

fun string_less :: "string \<Rightarrow> string \<Rightarrow> bool" where
  "string_less [] [] = False"
| "string_less [] (_ # _) = True"
| "string_less (_ # _) [] = False"
| "string_less (a # as) (b # bs) =
     (if a = b then string_less as bs else (of_char a :: nat) < of_char b)"

text \<open>\<open>IsLessThan\<close> on primitive values; \<open>None\<close> is the spec's \<open>undefined\<close>.\<close>

definition prim_less :: "jsval \<Rightarrow> jsval \<Rightarrow> bool option" where
  "prim_less px py =
     (case (px, py) of
        (JString a, JString b) \<Rightarrow> Some (string_less a b)
      | _ \<Rightarrow> num_less (prim_to_number px) (prim_to_number py))"

text \<open>
  \<open>x < y\<close> and \<open>x > y\<close>: both convert \<open>x\<close> before \<open>y\<close>; an undefined
  comparison is \<open>false\<close>.
\<close>

definition js_lt :: "jsval \<Rightarrow> jsval \<Rightarrow> js_error + bool" where
  "js_lt x y = js_bind (to_primitive x) (\<lambda>px. js_bind (to_primitive y) (\<lambda>py.
     Inr (prim_less px py = Some True)))"

definition js_gt :: "jsval \<Rightarrow> jsval \<Rightarrow> js_error + bool" where
  "js_gt x y = js_bind (to_primitive x) (\<lambda>px. js_bind (to_primitive y) (\<lambda>py.
     Inr (prim_less py px = Some True)))"

subsection \<open>Property access\<close>

text \<open>\<open>CanonicalNumericIndexString\<close> for array indices.\<close>

definition array_index :: "string \<Rightarrow> nat option" where
  "array_index k =
     (if k \<noteq> [] \<and> list_all is_digit k \<and> nat_to_dec (dec_to_nat k) = k
      then Some (dec_to_nat k) else None)"

text \<open>\<open>o.k\<close>: a read from \<open>undefined\<close> or \<open>null\<close> throws a \<open>TypeError\<close>.\<close>

fun get_prop :: "jsval \<Rightarrow> string \<Rightarrow> js_error + jsval" where
  "get_prop JUndefined k = Inl TypeError_ReadNullish"
| "get_prop JNull k = Inl TypeError_ReadNullish"
| "get_prop (JBool _) k = Inr JUndefined"
| "get_prop (JNumber _) k = Inr JUndefined"
| "get_prop (JString s) k =
     Inr (if k = ''length'' then JNumber (Fin (of_nat (length s)))
          else case array_index k of
                 Some n \<Rightarrow> if n < length s then JString [s ! n] else JUndefined
               | None \<Rightarrow> JUndefined)"
| "get_prop (JObject _ ps) k = Inr (case map_of ps k of Some v \<Rightarrow> v | None \<Rightarrow> JUndefined)"
| "get_prop (JArray _ xs) k =
     Inr (if k = ''length'' then JNumber (Fin (of_nat (length xs)))
          else case array_index k of
                 Some n \<Rightarrow> if n < length xs then xs ! n else JUndefined
               | None \<Rightarrow> JUndefined)"

text \<open>\<open>o[k]\<close>: the base is checked before the key is converted by \<open>ToPropertyKey\<close>.\<close>

definition get_member :: "jsval \<Rightarrow> jsval \<Rightarrow> js_error + jsval" where
  "get_member base key =
     (if is_nullish base then Inl TypeError_ReadNullish
      else js_bind (js_to_string key) (\<lambda>k. get_prop base k))"

subsection \<open>The \<open>+\<close> operator\<close>

definition js_add :: "jsval \<Rightarrow> jsval \<Rightarrow> js_error + jsval" where
  "js_add l r =
     js_bind (to_primitive l) (\<lambda>lp. js_bind (to_primitive r) (\<lambda>rp.
       if is_string lp \<or> is_string rp then
         js_bind (js_to_string lp) (\<lambda>ls. js_bind (js_to_string rp) (\<lambda>rs. Inr (JString (ls @ rs))))
       else Inr (JNumber (num_add (prim_to_number lp) (prim_to_number rp)))))"

subsection \<open>Lemmas\<close>

lemma truthy_not_nullish: "truthy v \<Longrightarrow> \<not> is_nullish v"
  by (auto simp: is_nullish_def)

lemma nullish_not_truthy: "is_nullish v \<Longrightarrow> \<not> truthy v"
  using truthy_not_nullish by blast

lemma strict_eq_string [simp]: "js_strict_eq v (JString s) \<longleftrightarrow> v = JString s"
  by (cases v) auto

lemma nullish_cases [simp]:
  "is_nullish JUndefined" "is_nullish JNull"
  "\<not> is_nullish (JBool b)" "\<not> is_nullish (JNumber n)" "\<not> is_nullish (JString s)"
  "\<not> is_nullish (JObject i ps)" "\<not> is_nullish (JArray i xs)"
  by (simp_all add: is_nullish_def)

lemma get_prop_Inl_iff: "get_prop v k = Inl e \<longleftrightarrow> is_nullish v \<and> e = TypeError_ReadNullish"
  by (cases v) (auto simp: is_nullish_def)

lemma get_prop_nullish: "is_nullish v \<Longrightarrow> get_prop v k = Inl TypeError_ReadNullish"
  by (cases v) (auto simp: is_nullish_def)

lemma get_prop_defined: "\<not> is_nullish v \<Longrightarrow> \<exists>w. get_prop v k = Inr w"
  by (cases v) (auto simp: is_nullish_def)

lemma get_prop_object [simp, js_simps]:
  "get_prop (JObject i ps) k = Inr (case map_of ps k of Some v \<Rightarrow> v | None \<Rightarrow> JUndefined)"
  by simp

lemma to_primitive_prim [simp, js_simps]:
  "to_primitive JUndefined = Inr JUndefined" "to_primitive JNull = Inr JNull"
  "to_primitive (JBool b) = Inr (JBool b)" "to_primitive (JNumber n) = Inr (JNumber n)"
  "to_primitive (JString s) = Inr (JString s)"
  by (simp_all add: to_primitive_def is_object_def)

lemma strict_eq_undefined [simp]: "js_strict_eq v JUndefined \<longleftrightarrow> v = JUndefined"
  by (cases v) auto

lemma js_lt_numbers [simp, js_simps]:
  "js_lt (JNumber a) (JNumber b) = Inr (num_less a b = Some True)"
  by (simp add: js_lt_def prim_less_def)

lemma js_gt_numbers [simp, js_simps]:
  "js_gt (JNumber a) (JNumber b) = Inr (num_less b a = Some True)"
  by (simp add: js_gt_def prim_less_def)

text \<open>\<open>v == null\<close> holds exactly for \<open>undefined\<close> and \<open>null\<close>, and never throws.\<close>

lemma loose_eq_null [simp]: "js_loose_eq v JNull = Inr (is_nullish v)"
proof (cases v)
  case (JBool b)
  have "js_loose_eq (JNumber (Fin (if b then 1 else 0))) JNull = Inr False"
    by (simp add: js_loose_eq.simps is_bool_def is_string_def is_number_def is_object_def)
  with JBool show ?thesis
    by (simp add: js_loose_eq.simps [of "JBool b"] is_bool_def is_string_def is_number_def)
qed (simp_all add: js_loose_eq.simps is_bool_def is_string_def is_number_def is_object_def)

text \<open>On two strings, \<open>==\<close> is string equality.\<close>

lemma loose_eq_strings [simp, js_simps]: "js_loose_eq (JString a) (JString b) = Inr (a = b)"
  by (simp add: js_loose_eq.simps)

lemma loose_eq_object_string:
  "is_object x \<Longrightarrow> js_loose_eq x (JString s) = js_bind (to_primitive x) (\<lambda>p. js_loose_eq p (JString s))"
  by (subst js_loose_eq.simps) (cases x; simp add: is_object_def is_string_def is_number_def is_bool_def)

lemma js_to_string_string [simp]: "js_to_string (JString s) = Inr s"
  by simp

lemma js_to_number_prim [simp, js_simps]:
  "\<not> is_object v \<Longrightarrow> js_to_number v = Inr (prim_to_number v)"
  by (simp add: js_to_number_def to_primitive_def)

lemma js_to_number_simps [simp, js_simps]:
  "js_to_number (JNumber n) = Inr n" "js_to_number JUndefined = Inr NaN"
  "js_to_number JNull = Inr (Fin 0)" "js_to_number (JString s) = Inr (string_to_number s)"
  "js_to_number (JBool b) = Inr (Fin (if b then 1 else 0))"
  by (simp_all add: js_to_number_def)

text \<open>A comparison with a number goes through \<open>ToNumber\<close> of the other operand.\<close>

lemma js_lt_num_right:
  "js_lt a (JNumber m) = js_bind (js_to_number a) (\<lambda>n. Inr (num_less n m = Some True))"
  by (cases "to_primitive a")
     (auto simp: js_lt_def js_to_number_def prim_less_def split: jsval.splits)

lemma js_gt_num_right:
  "js_gt a (JNumber m) = js_bind (js_to_number a) (\<lambda>n. Inr (num_less m n = Some True))"
  by (cases "to_primitive a")
     (auto simp: js_gt_def js_to_number_def prim_less_def split: jsval.splits)

lemma truthy_get_prop: "truthy v \<Longrightarrow> \<exists>w. get_prop v k = Inr w"
  using get_prop_defined truthy_not_nullish by blast

lemma loose_eq_bools [simp, js_simps]: "js_loose_eq (JBool a) (JBool b) = Inr (a = b)"
  by (simp add: js_loose_eq.simps)

lemma array_index_nat_to_dec [simp]: "array_index (nat_to_dec n) = Some n"
  by (simp add: array_index_def nat_to_dec_digits)

lemma nat_to_dec_not_length [simp]: "nat_to_dec n \<noteq> ''length''"
  using nat_to_dec_digits [of n] by (auto simp: is_digit_def)

lemma js_to_string_nat:
  "n < 10 ^ 21 \<Longrightarrow> js_to_string (JNumber (Fin (of_nat n))) = Inr (nat_to_dec n)"
  by (simp only: js_to_string.simps number_to_string_nat)

lemma get_member_array_nat:
  "n < 10 ^ 21 \<Longrightarrow>
   get_member (JArray a xs) (JNumber (Fin (of_nat n))) = Inr (if n < length xs then xs ! n else JUndefined)"
  by (simp add: get_member_def js_to_string_nat del: js_to_string.simps)

end
