(* ===== verification/JS_Heap.thy ===== *)
theory JS_Heap
  imports JS_Values "HOL-Library.AList"
begin

text \<open>
  A store of JavaScript objects, for the code whose meaning depends on aliasing:
  the module wrappers of \<open>visual.js\<close>, where three scripts meet only through the
  objects they find in the global object. A heap is a list of objects addressed
  by their position; object 0 is the global object. An object has its own
  properties (an association list) and, for a function object, the name of the
  source function it runs. Values are those the wrappers store: \<open>undefined\<close>,
  \<open>null\<close>, booleans, strings and references. Reading a property of a boolean or
  a string gives \<open>undefined\<close> (no name the wrappers read is a property of
  \<open>Boolean.prototype\<close> or \<open>String.prototype\<close>); writing one is ignored, as in
  sloppy mode, which the bundle runs in.
\<close>

datatype hval = HUndefined | HNull | HBool bool | HStr string | HRef nat

record jsobj =
  props :: "(string \<times> hval) list"
  fcode :: "string option"

type_synonym heap = "jsobj list"

definition empty_obj :: jsobj where
  "empty_obj = \<lparr>props = [], fcode = None\<rparr>"

definition obj_at :: "heap \<Rightarrow> nat \<Rightarrow> jsobj" where
  "obj_at h r = (if r < length h then h ! r else empty_obj)"

fun h_truthy :: "hval \<Rightarrow> bool" where
  "h_truthy HUndefined = False"
| "h_truthy HNull = False"
| "h_truthy (HBool b) = b"
| "h_truthy (HStr s) = (s \<noteq> [])"
| "h_truthy (HRef _) = True"

definition prop_of :: "jsobj \<Rightarrow> string \<Rightarrow> hval" where
  "prop_of ob f = (case map_of (props ob) f of Some v \<Rightarrow> v | None \<Rightarrow> HUndefined)"

text \<open>\<open>v.f\<close> and \<open>v.f = x\<close>.\<close>

fun get_field :: "hval \<Rightarrow> string \<Rightarrow> heap \<Rightarrow> js_error + hval" where
  "get_field HUndefined f h = Inl TypeError_ReadNullish"
| "get_field HNull f h = Inl TypeError_ReadNullish"
| "get_field (HRef r) f h = Inr (prop_of (obj_at h r) f)"
| "get_field _ f h = Inr HUndefined"

fun set_field :: "hval \<Rightarrow> string \<Rightarrow> hval \<Rightarrow> heap \<Rightarrow> js_error + heap" where
  "set_field HUndefined f x h = Inl TypeError_WriteNullish"
| "set_field HNull f x h = Inl TypeError_WriteNullish"
| "set_field (HRef r) f x h = Inr (h[r := (obj_at h r)\<lparr>props := AList.update f x (props (obj_at h r))\<rparr>])"
| "set_field _ f x h = Inr h"

text \<open>A new object: \<open>{}\<close>, or a function object running \<open>c\<close>.\<close>

definition alloc :: "string option \<Rightarrow> heap \<Rightarrow> nat \<times> heap" where
  "alloc c h = (length h, h @ [\<lparr>props = [], fcode = c\<rparr>])"

text \<open>Reading \<open>p.n1.n2...\<close>; the code of the function a property holds.\<close>

primrec read_path :: "hval \<Rightarrow> string list \<Rightarrow> heap \<Rightarrow> js_error + hval" where
  "read_path p [] h = Inr p"
| "read_path p (n # ns) h = js_bind (get_field p n h) (\<lambda>v. read_path v ns h)"

definition fun_at :: "heap \<Rightarrow> hval \<Rightarrow> string \<Rightarrow> string option" where
  "fun_at h v name = (case get_field v name h of Inr (HRef f) \<Rightarrow> fcode (obj_at h f) | _ \<Rightarrow> None)"

text \<open>Every reference held by a property points into the heap, and the global object exists.\<close>

fun ref_ok :: "heap \<Rightarrow> hval \<Rightarrow> bool" where
  "ref_ok h (HRef r) = (r < length h)"
| "ref_ok h _ = True"

definition heap_wf :: "heap \<Rightarrow> bool" where
  "heap_wf h \<longleftrightarrow> 0 < length h \<and> list_all (\<lambda>ob. list_all (\<lambda>y. ref_ok h (snd y)) (props ob)) h"

text \<open>
  A namespace path that \<open>x = p.n || (p.n = {})\<close> can enter: at each step the
  property holds an object, or a falsy value that the idiom replaces by a new
  object (whose properties are then all undefined).
\<close>

primrec path_clear :: "hval \<Rightarrow> string list \<Rightarrow> heap \<Rightarrow> bool" where
  "path_clear p [] h = True"
| "path_clear p (n # ns) h =
     (case get_field p n h of
        Inr (HRef q) \<Rightarrow> path_clear (HRef q) ns h
      | Inr v \<Rightarrow> \<not> h_truthy v
      | Inl _ \<Rightarrow> False)"

text \<open>
  \<open>h'\<close> extends \<open>h\<close> and writes only properties named in \<open>W\<close>: objects are
  only appended, functions keep their code, and every property with a name outside
  \<open>W\<close> reads the same, on old objects and (as undefined) on new ones.
\<close>

definition heap_ext :: "string set \<Rightarrow> heap \<Rightarrow> heap \<Rightarrow> bool" where
  "heap_ext W h h' \<longleftrightarrow>
     length h \<le> length h' \<and> (\<forall>s < length h. fcode (obj_at h' s) = fcode (obj_at h s)) \<and>
     (\<forall>r n. n \<notin> W \<longrightarrow> prop_of (obj_at h' r) n = prop_of (obj_at h r) n)"

text \<open>
  \<open>h'\<close> keeps every property that held a truthy value on an object of \<open>h\<close>,
  unless its name is in \<open>E\<close>: the idiom \<open>p.x || (p.x = {})\<close> writes only falsy
  slots, and assignments to objects allocated after \<open>h\<close> touch no object of \<open>h\<close>.
\<close>

definition heap_keep :: "string set \<Rightarrow> heap \<Rightarrow> heap \<Rightarrow> bool" where
  "heap_keep E h h' \<longleftrightarrow> length h \<le> length h' \<and>
     (\<forall>r < length h. \<forall>n. n \<notin> E \<longrightarrow> h_truthy (prop_of (obj_at h r) n) \<longrightarrow>
        prop_of (obj_at h' r) n = prop_of (obj_at h r) n)"

subsection \<open>Lemmas\<close>

lemma length_set_field: "set_field p f x h = Inr h' \<Longrightarrow> length h' = length h"
  by (cases p) auto

lemma obj_at_set_field:
  "set_field (HRef r) f x h = Inr h' \<Longrightarrow>
   obj_at h' s = (if s = r \<and> r < length h then (obj_at h r)\<lparr>props := AList.update f x (props (obj_at h r))\<rparr>
                  else obj_at h s)"
  by (auto simp: obj_at_def)

lemma get_field_set_field:
  "set_field p f x h = Inr h' \<Longrightarrow> n \<noteq> f \<Longrightarrow> get_field q n h' = get_field q n h"
  by (cases p; cases q) (auto simp: obj_at_def prop_of_def update_conv nth_list_update)

lemma get_field_set_same:
  "r < length h \<Longrightarrow> set_field (HRef r) f x h = Inr h' \<Longrightarrow> get_field (HRef r) f h' = Inr x"
  by (auto simp: obj_at_def prop_of_def update_conv)

lemma fcode_set_field: "set_field p f x h = Inr h' \<Longrightarrow> fcode (obj_at h' s) = fcode (obj_at h s)"
  by (cases p) (auto simp: obj_at_def nth_list_update)

lemma read_path_set_field:
  "set_field p f x h = Inr h' \<Longrightarrow> f \<notin> set ns \<Longrightarrow> read_path q ns h' = read_path q ns h"
  by (induction ns arbitrary: q) (auto simp: get_field_set_field)

lemma obj_at_alloc: "alloc c h = (r, h') \<Longrightarrow> obj_at h' s = (if s = r then \<lparr>props = [], fcode = c\<rparr> else obj_at h s)"
  by (auto simp: alloc_def obj_at_def nth_append empty_obj_def)

lemma get_field_alloc:
  "alloc c h = (r, h') \<Longrightarrow> ref_ok h q \<Longrightarrow> get_field q n h' = get_field q n h"
  by (cases q) (auto simp: alloc_def obj_at_def nth_append)

lemma ref_ok_mono: "ref_ok h v \<Longrightarrow> length h \<le> length h' \<Longrightarrow> ref_ok h' v"
  by (cases v) auto

lemma ref_ok_cong: "length h' = length h \<Longrightarrow> ref_ok h' v = ref_ok h v"
  by (cases v) auto

lemma set_update_insert: "set (AList.update k v al) \<subseteq> insert (k, v) (set al)"
  by (induction al) auto

lemma heap_wf_props: "heap_wf h \<Longrightarrow> y \<in> set (props (obj_at h r)) \<Longrightarrow> ref_ok h (snd y)"
proof -
  assume wf: "heap_wf h" and y: "y \<in> set (props (obj_at h r))"
  then have "r < length h" by (auto simp: obj_at_def empty_obj_def split: if_splits)
  then have "obj_at h r \<in> set h" by (simp add: obj_at_def)
  with wf y show ?thesis by (simp add: heap_wf_def list_all_iff)
qed

lemma get_field_ref_ok: "heap_wf h \<Longrightarrow> get_field q n h = Inr v \<Longrightarrow> ref_ok h v"
proof (cases q)
  case (HRef r)
  assume wf: "heap_wf h" and g: "get_field q n h = Inr v"
  show ?thesis
  proof (cases "map_of (props (obj_at h r)) n")
    case (Some w)
    then have "(n, w) \<in> set (props (obj_at h r))" by (rule map_of_SomeD)
    with wf g Some HRef show ?thesis using heap_wf_props by (fastforce simp: prop_of_def)
  qed (use g HRef in \<open>simp add: prop_of_def\<close>)
qed auto

lemma heap_ext_refl [intro]: "heap_ext W h h"
  by (simp add: heap_ext_def)

lemma heap_ext_trans:
  "heap_ext W1 h h1 \<Longrightarrow> heap_ext W2 h1 h2 \<Longrightarrow> heap_ext (W1 \<union> W2) h h2"
  by (auto simp: heap_ext_def)

lemma heap_ext_mono: "heap_ext W h h' \<Longrightarrow> W \<subseteq> W' \<Longrightarrow> heap_ext W' h h'"
  by (auto simp: heap_ext_def)

lemma heap_ext_alloc: "alloc c h = (r, h') \<Longrightarrow> heap_ext {} h h'"
  by (auto simp: heap_ext_def alloc_def obj_at_def empty_obj_def prop_of_def nth_append)

lemma heap_ext_set_field: "set_field p f x h = Inr h' \<Longrightarrow> heap_ext {f} h h'"
  by (cases p)
     (auto simp: heap_ext_def obj_at_def prop_of_def update_conv nth_list_update fcode_set_field)

lemma get_field_ext: "heap_ext W h h' \<Longrightarrow> n \<notin> W \<Longrightarrow> get_field x n h' = get_field x n h"
  by (cases x) (auto simp: heap_ext_def)

lemma read_path_ext:
  "heap_ext W h h' \<Longrightarrow> set ns \<inter> W = {} \<Longrightarrow> read_path p ns h' = read_path p ns h"
  by (induction ns arbitrary: p) (auto simp: get_field_ext)

lemma path_clear_ext:
  "heap_ext W h h' \<Longrightarrow> set ns \<inter> W = {} \<Longrightarrow> path_clear p ns h' = path_clear p ns h"
  by (induction ns arbitrary: p) (auto simp: get_field_ext split: sum.split hval.split)

lemma fun_at_ext:
  assumes "heap_wf h" "heap_ext W h h'" "n \<notin> W"
  shows "fun_at h' x n = fun_at h x n"
proof (cases "get_field x n h")
  case (Inr v)
  have "ref_ok h v" using assms(1) Inr by (rule get_field_ref_ok)
  with Inr assms(2,3) show ?thesis
    by (auto simp: fun_at_def get_field_ext heap_ext_def split: hval.split)
qed (use assms in \<open>simp add: fun_at_def get_field_ext\<close>)

lemma heap_wf_alloc:
  assumes "heap_wf h" "alloc c h = (r, h')"
  shows "heap_wf h'"
proof -
  have h': "h' = h @ [\<lparr>props = [], fcode = c\<rparr>]" using assms(2) by (simp add: alloc_def)
  have "ref_ok h' (snd y)" if "ob \<in> set h'" "y \<in> set (props ob)" for ob y
  proof -
    from that h' have "ob \<in> set h" by auto
    with assms(1) that(2) have "ref_ok h (snd y)" by (simp add: heap_wf_def list_all_iff)
    moreover have "length h \<le> length h'" using h' by simp
    ultimately show ?thesis by (rule ref_ok_mono)
  qed
  then show ?thesis using h' by (simp add: heap_wf_def list_all_iff)
qed

lemma heap_wf_set_field:
  assumes "heap_wf h" "ref_ok h x" "set_field p f x h = Inr h'"
  shows "heap_wf h'"
proof (cases p)
  case (HRef r)
  define ob' where "ob' = (obj_at h r)\<lparr>props := AList.update f x (props (obj_at h r))\<rparr>"
  have h': "h' = h[r := ob']" using assms(3) HRef by (simp add: ob'_def)
  have len: "length h' = length h" using h' by simp
  have "\<forall>ob \<in> set h'. \<forall>y \<in> set (props ob). ref_ok h' (snd y)"
  proof (intro ballI)
    fix ob y assume that: "ob \<in> set h'" "y \<in> set (props ob)"
    have "ob \<in> set h \<or> ob = ob'" using that(1) h' set_update_subset_insert by fastforce
    then show "ref_ok h' (snd y)" unfolding ref_ok_cong [OF len]
    proof
      assume "ob \<in> set h"
      with assms(1) that(2) show "ref_ok h (snd y)" by (simp add: heap_wf_def list_all_iff)
    next
      assume "ob = ob'"
      with that(2) have "y = (f, x) \<or> y \<in> set (props (obj_at h r))"
        using set_update_insert by (fastforce simp: ob'_def)
      then show "ref_ok h (snd y)"
        by (elim disjE) (simp add: assms(2), rule heap_wf_props [OF assms(1)])
    qed
  qed
  then show ?thesis using assms(1) len by (simp add: heap_wf_def list_all_iff)
qed (use assms in auto)

lemma read_path_ref_ok: "heap_wf h \<Longrightarrow> ref_ok h p \<Longrightarrow> read_path p ns h = Inr v \<Longrightarrow> ref_ok h v"
  by (induction ns arbitrary: p) (auto dest: get_field_ref_ok)

lemma read_path_append:
  "read_path p (xs @ ys) h = js_bind (read_path p xs h) (\<lambda>v. read_path v ys h)"
  by (induction xs arbitrary: p) (simp_all add: js_bind_assoc)

lemma read_path_undefined: "read_path HUndefined ns h = Inr v \<Longrightarrow> v = HUndefined \<and> ns = []"
  by (cases ns) auto

lemma read_path_truthy: "read_path v xs h = Inr (HRef q) \<Longrightarrow> h_truthy v"
  by (cases v; cases xs) (auto dest: read_path_undefined)

lemma path_clear_append:
  "path_clear p (xs @ ys) h \<Longrightarrow> read_path p xs h = Inr (HRef q) \<Longrightarrow> path_clear (HRef q) ys h"
  by (induction xs arbitrary: p) (auto split: sum.splits hval.splits dest: read_path_truthy)

text \<open>An object allocated after \<open>h\<close> has, in a later heap, only the properties that were written.\<close>

lemma prop_fresh:
  "heap_ext W h h' \<Longrightarrow> length h \<le> q \<Longrightarrow> n \<notin> W \<Longrightarrow> prop_of (obj_at h' q) n = HUndefined"
  by (auto simp: heap_ext_def obj_at_def empty_obj_def prop_of_def dest: spec [of _ q])

lemma get_field_fresh:
  "heap_ext W h h' \<Longrightarrow> length h \<le> q \<Longrightarrow> n \<notin> W \<Longrightarrow> get_field (HRef q) n h' = Inr HUndefined"
  by (simp add: prop_fresh)

lemma read_path_fresh:
  assumes "heap_ext W h h'" "length h \<le> q" "m \<notin> W"
  shows "read_path (HRef q) (m # ms) h' \<noteq> Inr (HRef p)"
  using get_field_fresh [OF assms] read_path_undefined by auto

lemma path_clear_fresh:
  assumes "heap_ext W h h'" "length h \<le> q" "set ms \<inter> W = {}"
  shows "path_clear (HRef q) ms h'"
proof (cases ms)
  case (Cons m ms')
  with assms show ?thesis by (simp add: prop_fresh)
qed simp

lemma get_field_set_other:
  "set_field (HRef r) f x h = Inr h' \<Longrightarrow> s \<noteq> r \<Longrightarrow> get_field (HRef s) n h' = get_field (HRef s) n h"
  by (auto simp: obj_at_def)

lemma read_path_Cons_ref: "read_path v (m # ms) h = Inr (HRef q) \<Longrightarrow> \<exists>b. v = HRef b"
  by (cases v) (auto dest: read_path_undefined)

lemma prop_of_update: "prop_of (ob\<lparr>props := AList.update f x (props ob)\<rparr>) n = (if n = f then x else prop_of ob n)"
  by (simp add: prop_of_def update_conv)

lemma heap_keep_refl: "heap_keep E h h"
  by (simp add: heap_keep_def)

lemma heap_keep_trans: "heap_keep E1 h h1 \<Longrightarrow> heap_keep E2 h1 h2 \<Longrightarrow> heap_keep (E1 \<union> E2) h h2"
  unfolding heap_keep_def by (metis UnCI order_trans order_less_le_trans)

lemma heap_keep_of_ext: "heap_ext W h h' \<Longrightarrow> heap_keep W h h'"
  by (simp add: heap_ext_def heap_keep_def)

lemma heap_keep_set_fresh:
  assumes k: "heap_keep E h h1" and s: "set_field (HRef r) n x h1 = Inr h2" and r: "length h \<le> r"
  shows "heap_keep E h h2"
proof -
  have len: "length h2 = length h1" using s by (rule length_set_field)
  have ob: "obj_at h2 t = obj_at h1 t" if "t < length h" for t
    using obj_at_set_field [OF s, of t] that r by simp
  show ?thesis using k unfolding heap_keep_def len by (simp add: ob)
qed

lemma heap_keep_set_falsy:
  assumes s: "set_field (HRef r) n x h = Inr h'" and f: "\<not> h_truthy (prop_of (obj_at h r) n)"
  shows "heap_keep {} h h'"
proof -
  have len: "length h' = length h" using s by (rule length_set_field)
  have "prop_of (obj_at h' t) m = (if t = r \<and> r < length h \<and> m = n then x else prop_of (obj_at h t) m)" for t m
    using obj_at_set_field [OF s, of t] by (simp add: prop_of_update)
  then show ?thesis using f unfolding heap_keep_def len by auto
qed

lemma heap_keep_alloc: "alloc c h = (r, h') \<Longrightarrow> heap_keep E h1 h \<Longrightarrow> heap_keep E h1 h'"
  using heap_keep_trans [OF _ heap_keep_of_ext [OF heap_ext_alloc]] by fastforce

end
