(* ===== verification/Object_Utils.thy ===== *)
theory Object_Utils
  imports JS_Values
begin

text \<open>
  The property-lookup helpers of the visual (\<open>objectEnumerationUtility\<close>,
  shipped in \<open>src/.tmp/drop/visual.js\<close>, lines 18--160): \<open>getValue\<close>,
  \<open>getValueMinMax\<close>, \<open>getValueNumberMinMax\<close>, \<open>ifStringReturnString\<close>,
  \<open>ifStringReturnStringClustersMethod\<close>, \<open>inMinMax\<close>,
  \<open>getCategoricalObjectValue\<close> and \<open>getFillValue\<close>. Each is a function from
  JavaScript values to \<open>js_error + jsval\<close>: the \<open>Inl\<close> branch is the exception
  the JavaScript function would throw. Object and property names are the
  string literals the callers pass (\<open>ToPropertyKey\<close> of a string is the string).

  The lemmas show: the three \<open>getValue\<close>-style lookups are one nested lookup
  (\<open>js_path\<close>) with a default; \<open>getValue\<close> never throws and never returns
  \<open>undefined\<close> for a defined default; \<open>inMinMax\<close> is the clamp
  \<open>max lo (min hi a)\<close> on numbers and lets \<open>NaN\<close>-valued inputs through;
  \<open>getValueMinMax\<close> and \<open>getValueNumberMinMax\<close> agree whenever the bounds are
  numbers in order; \<open>getFillValue\<close> throws on a \<open>null\<close> fill.
\<close>

subsection \<open>The helpers\<close>

definition getValue :: "jsval \<Rightarrow> string \<Rightarrow> string \<Rightarrow> jsval \<Rightarrow> js_error + jsval" where
  "getValue objects objectName propertyName defaultValue =
     (if truthy objects then
        js_bind (get_prop objects objectName) (\<lambda>object.
          if truthy object then
            js_bind (get_prop object propertyName) (\<lambda>property.
              if \<not> js_strict_eq property JUndefined then Inr property else Inr defaultValue)
          else Inr defaultValue)
      else Inr defaultValue)"

definition getValueMinMax ::
  "jsval \<Rightarrow> string \<Rightarrow> string \<Rightarrow> jsval \<Rightarrow> jsval \<Rightarrow> jsval \<Rightarrow> js_error + jsval" where
  "getValueMinMax objects objectName propertyName defaultValue minVal maxVal =
     (if truthy objects then
        js_bind (get_prop objects objectName) (\<lambda>object.
          if truthy object then
            js_bind (get_prop object propertyName) (\<lambda>property.
              js_bind (js_lt property minVal) (\<lambda>below.
                if below then Inr minVal
                else js_bind (js_gt property maxVal) (\<lambda>above.
                  if above then Inr maxVal
                  else if \<not> js_strict_eq property JUndefined then Inr property
                  else Inr defaultValue)))
          else Inr defaultValue)
      else Inr defaultValue)"

definition getValueNumberMinMax ::
  "jsval \<Rightarrow> string \<Rightarrow> string \<Rightarrow> jsval \<Rightarrow> jsval \<Rightarrow> jsval \<Rightarrow> js_error + jsval" where
  "getValueNumberMinMax objects objectName propertyName defaultValue minValue maxValue =
     (if truthy objects then
        js_bind (get_prop objects objectName) (\<lambda>object.
          if truthy object then
            js_bind (get_prop object propertyName) (\<lambda>property.
              if \<not> js_strict_eq property JUndefined then
                js_bind (js_gt property maxValue) (\<lambda>above.
                  if above then Inr maxValue
                  else js_bind (js_lt property minValue) (\<lambda>below.
                    if below then Inr minValue else Inr property))
              else Inr defaultValue)
          else Inr defaultValue)
      else Inr defaultValue)"

text \<open>
  \<open>a && b && c\<close> in an \<open>if\<close>: evaluated left to right, stopping at the first
  falsy operand; \<open>!=\<close> is the negation of \<open>==\<close>.
\<close>

definition ifStringReturnString ::
  "jsval \<Rightarrow> jsval \<Rightarrow> jsval \<Rightarrow> jsval \<Rightarrow> jsval \<Rightarrow> jsval \<Rightarrow> js_error + jsval" where
  "ifStringReturnString inVal contrVal contrVal2Compare outValIfCondTrue logic applyNow =
     js_bind
       (if truthy applyNow then
          js_bind (js_loose_eq contrVal contrVal2Compare) (\<lambda>eq.
            if eq then js_loose_eq logic (JBool True) else Inr False)
        else Inr False) (\<lambda>c1.
     if c1 then Inr outValIfCondTrue
     else js_bind
       (if truthy applyNow then
          js_bind (js_loose_eq contrVal contrVal2Compare) (\<lambda>eq.
            if \<not> eq then js_loose_eq logic (JBool False) else Inr False)
        else Inr False) (\<lambda>c2.
     if c2 then Inr outValIfCondTrue else Inr inVal))"

definition ifStringReturnStringClustersMethod :: "jsval \<Rightarrow> jsval \<Rightarrow> js_error + jsval" where
  "ifStringReturnStringClustersMethod numClustersMethods numOfClusters =
     js_bind (js_loose_eq numOfClusters (JString ''auto'')) (\<lambda>isAuto.
       if \<not> isAuto then Inr (JString ''None'')
       else js_bind (js_loose_eq numOfClusters (JString ''auto'')) (\<lambda>isAuto2.
         js_bind (if isAuto2 then js_loose_eq numClustersMethods (JString ''None'') else Inr False)
           (\<lambda>c. if c then Inr (JString ''fast'') else Inr numClustersMethods)))"

definition inMinMax :: "jsval \<Rightarrow> jsval \<Rightarrow> jsval \<Rightarrow> js_error + jsval" where
  "inMinMax a mi ma =
     js_bind (js_lt a mi) (\<lambda>below.
       if below then Inr mi
       else js_bind (js_gt a ma) (\<lambda>above. if above then Inr ma else Inr a))"

definition getCategoricalObjectValue ::
  "jsval \<Rightarrow> jsval \<Rightarrow> string \<Rightarrow> string \<Rightarrow> jsval \<Rightarrow> js_error + jsval" where
  "getCategoricalObjectValue category index objectName propertyName defaultValue =
     js_bind (get_prop category ''objects'') (\<lambda>categoryObjects.
       if truthy categoryObjects then
         js_bind (get_member categoryObjects index) (\<lambda>categoryObject.
           if truthy categoryObject then
             js_bind (get_prop categoryObject objectName) (\<lambda>object.
               if truthy object then
                 js_bind (get_prop object propertyName) (\<lambda>property.
                   if \<not> js_strict_eq property JUndefined then Inr property else Inr defaultValue)
               else Inr defaultValue)
           else Inr defaultValue)
       else Inr defaultValue)"

definition getFillValue :: "jsval \<Rightarrow> string \<Rightarrow> string \<Rightarrow> jsval \<Rightarrow> js_error + jsval" where
  "getFillValue objects objectName propertyName defaultValue =
     (if truthy objects then
        js_bind (get_prop objects objectName) (\<lambda>object.
          if truthy object then
            js_bind (get_prop object propertyName) (\<lambda>fill.
              js_bind
                (if \<not> js_strict_eq fill JUndefined then
                   js_bind (get_prop fill ''solid'') (\<lambda>solid.
                     if \<not> js_strict_eq solid JUndefined then
                       js_bind (get_prop fill ''solid'') (\<lambda>solid'.
                         js_bind (get_prop solid' ''color'') (\<lambda>color.
                           Inr (\<not> js_strict_eq color JUndefined)))
                     else Inr False)
                 else Inr False) (\<lambda>present.
              if present then
                js_bind (get_prop fill ''solid'') (\<lambda>solid. get_prop solid ''color'')
              else Inr defaultValue))
          else Inr defaultValue)
      else Inr defaultValue)"

subsection \<open>Nested lookup\<close>

text \<open>
  The contract the lookup helpers share: follow a path of property names from
  a value, each link truthy, and find a value that is not \<open>undefined\<close>.
\<close>

fun js_path :: "jsval \<Rightarrow> string list \<Rightarrow> jsval option" where
  "js_path v [] = (if v = JUndefined then None else Some v)"
| "js_path v (k # ks) =
     (if truthy v then (case get_prop v k of Inr w \<Rightarrow> js_path w ks | Inl _ \<Rightarrow> None) else None)"

lemma js_path_defined: "js_path v ks = Some w \<Longrightarrow> w \<noteq> JUndefined"
  by (induction v ks rule: js_path.induct) (auto split: if_splits sum.splits)

lemma getValue_path:
  "getValue objects g p d = Inr (case js_path objects [g, p] of Some v \<Rightarrow> v | None \<Rightarrow> d)"
proof (cases "truthy objects")
  case True
  then obtain object where obj: "get_prop objects g = Inr object"
    using truthy_get_prop by blast
  show ?thesis
  proof (cases "truthy object")
    case True
    then obtain property where "get_prop object p = Inr property"
      using truthy_get_prop by blast
    with \<open>truthy objects\<close> obj True show ?thesis
      by (simp add: getValue_def)
  next
    case False
    with \<open>truthy objects\<close> obj show ?thesis
      by (simp add: getValue_def)
  qed
qed (simp add: getValue_def)

lemma getValue_defined:
  "d \<noteq> JUndefined \<Longrightarrow> getValue objects g p d = Inr v \<Longrightarrow> v \<noteq> JUndefined"
  using js_path_defined [of objects "[g, p]"]
  by (auto simp: getValue_path simp del: js_path.simps split: option.splits)

subsection \<open>Clamping\<close>

lemma inMinMax_via_number:
  "inMinMax a (JNumber lo) (JNumber hi) =
     js_bind (js_to_number a) (\<lambda>n.
       if num_less n lo = Some True then Inr (JNumber lo)
       else if num_less hi n = Some True then Inr (JNumber hi) else Inr a)"
  by (cases "js_to_number a") (simp_all add: inMinMax_def js_lt_num_right js_gt_num_right)

lemma inMinMax_numbers:
  "inMinMax (JNumber (Fin a)) (JNumber (Fin lo)) (JNumber (Fin hi)) =
     Inr (if a < lo then JNumber (Fin lo) else if hi < a then JNumber (Fin hi) else JNumber (Fin a))"
  by (simp add: inMinMax_def)

text \<open>
  The two range-checked lookups agree on each property value when the bounds are
  numbers in order: the order of their three tests only matters when a value is
  both below the minimum and above the maximum.
\<close>

lemma minmax_property_eq:
  assumes "lo \<le> hi"
  shows "js_bind (js_lt v (JNumber (Fin lo))) (\<lambda>below. if below then Inr (JNumber (Fin lo))
           else js_bind (js_gt v (JNumber (Fin hi))) (\<lambda>above. if above then Inr (JNumber (Fin hi))
             else if \<not> js_strict_eq v JUndefined then Inr v else Inr d))
       = (if \<not> js_strict_eq v JUndefined then
            js_bind (js_gt v (JNumber (Fin hi))) (\<lambda>above. if above then Inr (JNumber (Fin hi))
              else js_bind (js_lt v (JNumber (Fin lo))) (\<lambda>below.
                if below then Inr (JNumber (Fin lo)) else Inr v))
          else Inr d)"
proof (cases "v = JUndefined")
  case False
  show ?thesis
  proof (cases "js_to_number v")
    case (Inr n)
    with False assms show ?thesis
      by (cases n) (auto simp: js_lt_num_right js_gt_num_right)
  qed (use False in \<open>simp add: js_lt_num_right js_gt_num_right\<close>)
qed (simp add: js_lt_num_right js_gt_num_right)

lemma inMinMax_bounds:
  assumes "inMinMax a (JNumber (Fin lo)) (JNumber (Fin hi)) = Inr (JNumber (Fin v))" "lo \<le> hi"
  shows "lo \<le> v \<and> v \<le> hi"
proof (cases "js_to_number a")
  case (Inr n)
  with assms show ?thesis
    by (cases n) (auto simp: inMinMax_via_number split: if_splits)
qed (use assms in \<open>simp add: inMinMax_via_number\<close>)

subsection \<open>Properties\<close>

text \<open>C15: The clamp: on numbers with ordered bounds \<open>inMinMax\<close> returns \<open>max lo (min hi a)\<close>.\<close>
lemma inMinMax_clamp:
  "lo \<le> hi \<Longrightarrow>
   inMinMax (JNumber (Fin a)) (JNumber (Fin lo)) (JNumber (Fin hi)) = Inr (JNumber (Fin (max lo (min hi a))))"
  by (auto simp: inMinMax_numbers max_def min_def)

lemma inMinMax_clamp_witness:
  "inMinMax (JNumber (Fin 99)) (JNumber (Fin 1)) (JNumber (Fin 50)) = Inr (JNumber (Fin 50))"
  using inMinMax_clamp [of 1 50 99] by simp

text \<open>C17: A value whose \<open>ToNumber\<close> is \<open>NaN\<close> (a non-numeric string, \<open>undefined\<close>, an object) passes through \<open>inMinMax\<close> unchanged: both comparisons are false.\<close>
lemma inMinMax_NaN_passthrough:
  "js_to_number a = Inr NaN \<Longrightarrow> inMinMax a (JNumber lo) (JNumber hi) = Inr a"
  by (simp add: inMinMax_def js_lt_num_right js_gt_num_right)

lemma inMinMax_NaN_passthrough_witness:
  "inMinMax (JString ''abc'') (JNumber (Fin 1)) (JNumber (Fin 50)) = Inr (JString ''abc'')"
  by (rule inMinMax_NaN_passthrough) code_simp

text \<open>C18: With numeric bounds in order, \<open>getValueMinMax\<close> and \<open>getValueNumberMinMax\<close> return the same result on every input, exceptions included.\<close>
lemma getValueMinMax_agrees:
  assumes "lo \<le> hi"
  shows "getValueMinMax objects g p d (JNumber (Fin lo)) (JNumber (Fin hi)) =
     getValueNumberMinMax objects g p d (JNumber (Fin lo)) (JNumber (Fin hi))"
  unfolding getValueMinMax_def getValueNumberMinMax_def minmax_property_eq [OF assms] ..

lemma getValueMinMax_agrees_witness:
  "getValueMinMax (JObject 0 [(''g'', JObject 1 [(''p'', JNumber (Fin 5))])]) ''g'' ''p'' JNull
     (JNumber (Fin 1)) (JNumber (Fin 3)) = Inr (JNumber (Fin 3))"
proof -
  have "getValueNumberMinMax (JObject 0 [(''g'', JObject 1 [(''p'', JNumber (Fin 5))])]) ''g'' ''p'' JNull
     (JNumber (Fin 1)) (JNumber (Fin 3)) = Inr (JNumber (Fin 3))"
    by (simp add: getValueNumberMinMax_def)
  with getValueMinMax_agrees [of 1 3] show ?thesis by simp
qed

lemma js_path_pair:
  "js_path objects [g, p] = Some w \<Longrightarrow>
   \<exists>object. truthy objects \<and> get_prop objects g = Inr object \<and> truthy object \<and> get_prop object p = Inr w"
  by (auto split: if_splits sum.splits)

text \<open>C19: With inverted bounds (maximum below minimum) the two helpers disagree on their order of tests: \<open>getValueMinMax\<close> tests the minimum first and returns the minimum for a value below it and the maximum otherwise, while \<open>getValueNumberMinMax\<close> tests the maximum first and returns the maximum for a value above it and the minimum otherwise; they differ exactly on the values strictly between the bounds.\<close>
lemma getValueMinMax_inverted_bounds:
  assumes "hi < lo" "js_path objects [g, p] = Some (JNumber (Fin v))"
  shows "getValueMinMax objects g p d (JNumber (Fin lo)) (JNumber (Fin hi)) =
           Inr (JNumber (Fin (if v < lo then lo else hi))) \<and>
         getValueNumberMinMax objects g p d (JNumber (Fin lo)) (JNumber (Fin hi)) =
           Inr (JNumber (Fin (if hi < v then hi else lo)))"
proof -
  obtain object where "truthy objects" "get_prop objects g = Inr object" "truthy object"
    "get_prop object p = Inr (JNumber (Fin v))"
    using js_path_pair [OF assms(2)] by blast
  with assms(1) show ?thesis
    by (auto simp: getValueMinMax_def getValueNumberMinMax_def)
qed

lemma getValueMinMax_inverted_bounds_witness:
  "getValueMinMax (JObject 0 [(''g'', JObject 1 [(''p'', JNumber (Fin 5))])]) ''g'' ''p'' JNull
     (JNumber (Fin 10)) (JNumber (Fin 1)) = Inr (JNumber (Fin 10)) \<and>
   getValueNumberMinMax (JObject 0 [(''g'', JObject 1 [(''p'', JNumber (Fin 5))])]) ''g'' ''p'' JNull
     (JNumber (Fin 10)) (JNumber (Fin 1)) = Inr (JNumber (Fin 1))"
  using getValueMinMax_inverted_bounds [of 1 10 "JObject 0 [(''g'', JObject 1 [(''p'', JNumber (Fin 5))])]"
      "''g''" "''p''" 5 JNull] by simp

text \<open>C20: \<open>getValue\<close> never throws, whatever the objects are, and returns a defined value when the default is defined.\<close>
lemma getValue_never_throws:
  "\<exists>v. getValue objects g p d = Inr v \<and> (d \<noteq> JUndefined \<longrightarrow> v \<noteq> JUndefined)"
  using getValue_defined by (simp add: getValue_path)

lemma getValue_never_throws_witness:
  "\<exists>v. getValue (JObject 0 [(''g'', JObject 1 [(''p'', JUndefined)])]) ''g'' ''p'' (JBool True) = Inr v \<and>
       (JBool True \<noteq> JUndefined \<longrightarrow> v \<noteq> JUndefined)"
  by (rule getValue_never_throws)

text \<open>C21: \<open>getFillValue\<close> throws a TypeError when the fill property is \<open>null\<close>: it reads \<open>fill.solid\<close>.\<close>
lemma getFillValue_null_fill_throws:
  "truthy objects \<Longrightarrow> get_prop objects g = Inr obj \<Longrightarrow> truthy obj \<Longrightarrow> get_prop obj p = Inr JNull \<Longrightarrow>
   getFillValue objects g p d = Inl TypeError_ReadNullish"
  by (simp add: getFillValue_def)

lemma getFillValue_null_fill_throws_witness:
  "getFillValue (JObject 0 [(''g'', JObject 1 [(''fill'', JNull)])]) ''g'' ''fill'' (JString ''red'') =
     Inl TypeError_ReadNullish"
  using getFillValue_null_fill_throws [of "JObject 0 [(''g'', JObject 1 [(''fill'', JNull)])]" "''g''"
      "JObject 1 [(''fill'', JNull)]" "''fill''" "JString ''red''"]
  by simp

text \<open>C22: \<open>getFillValue\<close> returns \<open>fill.solid.color\<close> when it is defined and the default when it is \<open>undefined\<close>.\<close>
lemma getFillValue_color:
  assumes "truthy objects" "get_prop objects g = Inr obj" "truthy obj" "get_prop obj p = Inr fill"
    "get_prop fill ''solid'' = Inr solid" "solid \<noteq> JUndefined" "get_prop solid ''color'' = Inr c"
  shows "getFillValue objects g p d = Inr (if c = JUndefined then d else c)"
proof -
  have "fill \<noteq> JUndefined" using assms(5) by (cases fill) auto
  with assms show ?thesis by (simp add: getFillValue_def)
qed

lemma getFillValue_color_witness:
  "getFillValue (JObject 0 [(''g'', JObject 1 [(''fill'', JObject 2 [(''solid'', JObject 3 [(''color'', JString ''#01B8AA'')])])])])
     ''g'' ''fill'' (JString ''red'') = Inr (JString ''#01B8AA'')"
  using getFillValue_color [of "JObject 0 [(''g'', JObject 1 [(''fill'', JObject 2 [(''solid'', JObject 3 [(''color'', JString ''#01B8AA'')])])])]"
      "''g''" "JObject 1 [(''fill'', JObject 2 [(''solid'', JObject 3 [(''color'', JString ''#01B8AA'')])])]"
      "''fill''" "JObject 2 [(''solid'', JObject 3 [(''color'', JString ''#01B8AA'')])]"
      "JObject 3 [(''color'', JString ''#01B8AA'')]" "JString ''#01B8AA''" "JString ''red''"]
  by simp

text \<open>C23: On strings, \<open>ifStringReturnStringClustersMethod\<close> returns \<open>None\<close> unless the number of clusters is \<open>auto\<close>, then \<open>fast\<close> for the method \<open>None\<close> and the method itself otherwise.\<close>
lemma ifStringReturnStringClustersMethod_strings:
  "ifStringReturnStringClustersMethod (JString m) (JString n) =
     Inr (JString (if n \<noteq> ''auto'' then ''None'' else if m = ''None'' then ''fast'' else m))"
  by (simp add: ifStringReturnStringClustersMethod_def)

text \<open>C24: On strings and booleans, \<open>ifStringReturnString\<close> returns the replacement exactly when \<open>applyNow\<close> holds and the string comparison agrees with \<open>logic\<close>.\<close>
lemma ifStringReturnString_strings:
  "ifStringReturnString i (JString c) (JString c2) out (JBool logic) (JBool applyNow) =
     Inr (if applyNow \<and> ((c = c2) = logic) then out else i)"
  by (auto simp: ifStringReturnString_def)
text \<open>C26: \<open>getCategoricalObjectValue\<close> on an array of category objects, indexed by a
  natural number, is \<open>getValue\<close> on the entry at that index (\<open>undefined\<close> past the end):
  the same lookup, scoped to one entry, as the specification says.\<close>
lemma getCategoricalObjectValue_array:
  assumes "get_prop category ''objects'' = Inr (JArray a objs)" "n < 10 ^ 21"
  shows "getCategoricalObjectValue category (JNumber (Fin (of_nat n))) g p d =
     getValue (if n < length objs then objs ! n else JUndefined) g p d"
  using assms by (simp add: getCategoricalObjectValue_def getValue_def get_member_array_nat)

lemma getCategoricalObjectValue_array_witness:
  "getCategoricalObjectValue (JObject 0 [(''objects'', JArray 1 [JNull, JObject 2 [(''g'', JObject 3 [(''p'', JString ''x'')])]])])
     (JNumber (Fin 1)) ''g'' ''p'' (JString ''d'') = Inr (JString ''x'')"
  using getCategoricalObjectValue_array [where category = "JObject 0 [(''objects'', JArray 1 [JNull, JObject 2 [(''g'', JObject 3 [(''p'', JString ''x'')])]])]"
      and a = 1 and objs = "[JNull, JObject 2 [(''g'', JObject 3 [(''p'', JString ''x'')])]]" and n = 1
      and g = "''g''" and p = "''p''" and d = "JString ''d''"]
  by (simp add: getValue_def)

text \<open>C27: Unlike \<open>getValue\<close>, \<open>getCategoricalObjectValue\<close> throws a TypeError when the
  category is \<open>undefined\<close> or \<open>null\<close>: it reads \<open>category.objects\<close> unguarded.\<close>
lemma getCategoricalObjectValue_nullish_category:
  "is_nullish category \<Longrightarrow> getCategoricalObjectValue category index g p d = Inl TypeError_ReadNullish"
  by (simp add: getCategoricalObjectValue_def get_prop_nullish)

lemma getCategoricalObjectValue_nullish_category_witness:
  "getCategoricalObjectValue JUndefined (JNumber (Fin 0)) ''g'' ''p'' (JString ''d'') = Inl TypeError_ReadNullish"
  by (rule getCategoricalObjectValue_nullish_category) simp

end
