(* ===== verification/Host_DOM.thy ===== *)
theory Host_DOM
  imports JS_Values
begin

text \<open>
  The part of the host's DOM that the visual touches: a store of element nodes
  addressed by \<open>nat\<close>, each with its tag, its \<open>className\<close>, its child list,
  the two inline style properties the visual writes (\<open>height\<close>, \<open>width\<close>) and
  its \<open>src\<close> attribute (\<open>None\<close>: no attribute). The operations are the DOM
  calls of \<open>visual.ts\<close>: \<open>document.createElement\<close>, the \<open>className\<close>
  setter, \<open>appendChild\<close>, the \<open>style.height\<close>/\<open>style.width\<close> setters and the
  \<open>src\<close> setter. Setters of IDL string attributes receive the JavaScript value
  converted by \<open>ToString\<close>; the caller performs that conversion. The CSS
  parser's rejection of an invalid length is not modelled: a style property
  holds the text last assigned. \<open>appendChild\<close> moves the child (it is removed
  from every child list first); its hierarchy check is not modelled because
  the visual only appends freshly created nodes.
\<close>

record dom_node =
  tagName :: string
  className :: string
  childNodes :: "nat list"
  style_height :: string
  style_width :: string
  src :: "string option"

record dom =
  nodes :: "(nat \<times> dom_node) list"
  next_node :: nat

definition node_at :: "dom \<Rightarrow> nat \<Rightarrow> dom_node option" where
  "node_at d n = map_of (nodes d) n"

definition new_node :: "string \<Rightarrow> dom_node" where
  "new_node tag = \<lparr>tagName = tag, className = [], childNodes = [], style_height = [],
                   style_width = [], src = None\<rparr>"

definition update_node :: "nat \<Rightarrow> (dom_node \<Rightarrow> dom_node) \<Rightarrow> dom \<Rightarrow> dom" where
  "update_node n f d = d\<lparr>nodes := map (\<lambda>(k, nd). (k, if k = n then f nd else nd)) (nodes d)\<rparr>"

definition createElement :: "string \<Rightarrow> dom \<Rightarrow> nat \<times> dom" where
  "createElement tag d =
     (next_node d, d\<lparr>nodes := nodes d @ [(next_node d, new_node tag)], next_node := Suc (next_node d)\<rparr>)"

definition set_className :: "nat \<Rightarrow> string \<Rightarrow> dom \<Rightarrow> dom" where
  "set_className n c = update_node n (\<lambda>nd. nd\<lparr>className := c\<rparr>)"

definition detach :: "nat \<Rightarrow> dom \<Rightarrow> dom" where
  "detach child d =
     d\<lparr>nodes := map (\<lambda>(k, nd). (k, nd\<lparr>childNodes := removeAll child (childNodes nd)\<rparr>)) (nodes d)\<rparr>"

definition appendChild :: "nat \<Rightarrow> nat \<Rightarrow> dom \<Rightarrow> js_error + dom" where
  "appendChild parent child d =
     (if node_at d parent = None then Inl TypeError_ReadNullish
      else Inr (update_node parent (\<lambda>nd. nd\<lparr>childNodes := childNodes nd @ [child]\<rparr>) (detach child d)))"

definition set_style_height :: "nat \<Rightarrow> string \<Rightarrow> dom \<Rightarrow> dom" where
  "set_style_height n v = update_node n (\<lambda>nd. nd\<lparr>style_height := v\<rparr>)"

definition set_style_width :: "nat \<Rightarrow> string \<Rightarrow> dom \<Rightarrow> dom" where
  "set_style_width n v = update_node n (\<lambda>nd. nd\<lparr>style_width := v\<rparr>)"

definition set_src :: "nat \<Rightarrow> string \<Rightarrow> dom \<Rightarrow> dom" where
  "set_src n v = update_node n (\<lambda>nd. nd\<lparr>src := Some v\<rparr>)"

text \<open>Every node in the store has an address below \<open>next_node\<close>, the next one allocated.\<close>

definition dom_wf :: "dom \<Rightarrow> bool" where
  "dom_wf d \<longleftrightarrow> (\<forall>n. node_at d n \<noteq> None \<longrightarrow> n < next_node d)"

subsection \<open>Lemmas\<close>

lemma map_of_map_update:
  "map_of (map (\<lambda>(k, nd). (k, if k = n then f nd else nd)) xs) m =
     (if m = n then map_option f (map_of xs n) else map_of xs m)"
  by (induction xs) auto

lemma map_of_map_all:
  "map_of (map (\<lambda>(k, nd). (k, g nd)) xs) m = map_option g (map_of xs m)"
  by (induction xs) auto

lemma node_at_update_node [simp]:
  "node_at (update_node n f d) m = (if m = n then map_option f (node_at d n) else node_at d m)"
  by (simp add: update_node_def node_at_def map_of_map_update)

lemma node_at_detach [simp]:
  "node_at (detach c d) m = map_option (\<lambda>nd. nd\<lparr>childNodes := removeAll c (childNodes nd)\<rparr>) (node_at d m)"
  by (simp add: detach_def node_at_def map_of_map_all)

lemma next_node_update_node [simp]: "next_node (update_node n f d) = next_node d"
  by (simp add: update_node_def)

lemma next_node_detach [simp]: "next_node (detach c d) = next_node d"
  by (simp add: detach_def)

lemma node_at_createElement:
  "createElement tag d = (n, d') \<Longrightarrow>
   node_at d' m = (case node_at d m of None \<Rightarrow> if m = n then Some (new_node tag) else None | Some x \<Rightarrow> Some x)"
  by (auto simp: createElement_def node_at_def map_add_def split: option.split)

lemma node_at_alloc [simp]:
  "node_at (d\<lparr>nodes := nodes d @ [(k, x)], next_node := m\<rparr>) n =
     (case node_at d n of None \<Rightarrow> if n = k then Some x else None | Some y \<Rightarrow> Some y)"
  by (auto simp: node_at_def map_add_def split: option.split)

lemma createElement_fresh:
  "dom_wf d \<Longrightarrow> createElement tag d = (n, d') \<Longrightarrow> node_at d n = None"
  by (auto simp: createElement_def dom_wf_def)

lemma createElement_wf: "dom_wf d \<Longrightarrow> createElement tag d = (n, d') \<Longrightarrow> dom_wf d'"
  unfolding dom_wf_def
  by (auto simp: node_at_createElement less_Suc_eq createElement_def split: option.splits if_splits)

lemma update_node_wf [simp]: "dom_wf (update_node n f d) = dom_wf d"
  by (auto simp: dom_wf_def)

lemma detach_wf [simp]: "dom_wf (detach c d) = dom_wf d"
  by (auto simp: dom_wf_def)

lemma dom_wf_alloc:
  "dom_wf d \<Longrightarrow> dom_wf (d\<lparr>nodes := nodes d @ [(next_node d, x)], next_node := Suc (next_node d)\<rparr>)"
  by (auto simp: dom_wf_def less_Suc_eq split: option.splits if_splits)

lemma appendChild_wf: "appendChild p c d = Inr d' \<Longrightarrow> dom_wf d' = dom_wf d"
  by (auto simp: appendChild_def split: if_splits)

lemmas dom_setters_def = set_className_def set_style_height_def set_style_width_def set_src_def

end
