(* ===== verification/Visual.thy ===== *)
theory Visual
  imports Object_Utils Host_DOM
begin

text \<open>
  The visual adapter of \<open>src/src/visual.ts\<close>: the four settings interfaces
  (lines 29--53), the class \<open>Visual\<close> with its fields (lines 55--63), its
  constructor (66--102), \<open>update\<close> (104--160), \<open>onResizing\<close> (162--165) and
  \<open>enumerateObjectInstances\<close> (167--230). TypeScript's field types are erased at
  run time and every settings field holds whatever \<open>getValue\<close> returned, so
  each field is a \<open>jsval\<close>. The DOM nodes the visual creates are addresses in
  the store of \<open>Host_DOM\<close>.

  A method that throws after having assigned some fields leaves them assigned:
  \<open>update\<close> and \<open>onResizing\<close> therefore return the exception (or \<open>()\<close>)
  together with the state reached, and the host keeps that state.
\<close>

subsection \<open>State\<close>

record Visual_settings_model_params =
  modelType :: jsval
  targetSeasonality :: jsval
  freq :: jsval

record Visual_settings_algo_params =
  degree :: jsval
  robustToOutliers :: jsval
  percentile :: jsval

record Visual_settings_plot_params =
  plotType :: jsval
  weight :: jsval
  lineCol :: jsval
  labelsCol :: jsval
  plot_textSize :: jsval

record Visual_settings_extra_params =
  extra_show :: jsval
  extra_textSize :: jsval
  infoCol :: jsval

record Visual =
  imageDiv :: nat
  imageElement :: nat
  settings_model_params :: Visual_settings_model_params
  settings_algo_params :: Visual_settings_algo_params
  settings_plot_params :: Visual_settings_plot_params
  settings_extra_params :: Visual_settings_extra_params

text \<open>An entry of the enumeration handed to the host's property pane.\<close>

record VisualObjectInstance =
  objectName :: jsval
  properties :: "(string \<times> jsval) list"
  selector :: jsval

subsection \<open>Constructor\<close>

text \<open>\<open>options.element\<close> is the host's mount node.\<close>

definition Visual_constructor :: "nat \<Rightarrow> dom \<Rightarrow> js_error + Visual \<times> dom" where
  "Visual_constructor element d0 =
     (case createElement ''div'' d0 of (div_node, d1) \<Rightarrow>
      let d2 = set_className div_node ''rcv_autoScaleImageContainer'' d1 in
      js_bind (appendChild element div_node d2) (\<lambda>d3.
      case createElement ''img'' d3 of (img_node, d4) \<Rightarrow>
      let d5 = set_className img_node ''rcv_autoScaleImage'' d4 in
      js_bind (appendChild div_node img_node d5) (\<lambda>d6.
      Inr (\<lparr>imageDiv = div_node, imageElement = img_node,
             settings_model_params =
               \<lparr>modelType = JString ''automatic'',
                targetSeasonality = JString ''autodetect from date'',
                freq = JNumber (Fin 12)\<rparr>,
             settings_algo_params =
               \<lparr>degree = JBool False,
                robustToOutliers = JBool True,
                percentile = JNumber (Fin 50)\<rparr>,
             settings_plot_params =
               \<lparr>plotType = JString ''all'',
                weight = JNumber (Fin 10),
                lineCol = JString ''red'',
                labelsCol = JString ''orange'',
                plot_textSize = JNumber (Fin 10)\<rparr>,
             settings_extra_params =
               \<lparr>extra_show = JBool True,
                extra_textSize = JNumber (Fin 10),
                infoCol = JString ''brown''\<rparr>\<rparr>, d6))))"

subsection \<open>update\<close>

text \<open>
  Lines 105--119: the guards. \<open>Inr None\<close> is an early \<open>return\<close>,
  \<open>Inr (Some dataView)\<close> goes on with \<open>dataViews[0]\<close>.
\<close>

definition update_guard :: "jsval \<Rightarrow> js_error + jsval option" where
  "update_guard options =
     js_bind (get_prop options ''dataViews'') (\<lambda>dataViews.
     js_bind (if \<not> truthy dataViews then Inr True
              else js_bind (get_prop dataViews ''length'') (\<lambda>len.
                     Inr (js_strict_eq len (JNumber (Fin 0))))) (\<lambda>noViews.
     if noViews then Inr None
     else js_bind (js_loose_eq dataViews JNull) (\<lambda>isNull.
     if isNull then Inr None
     else js_bind (get_member dataViews (JNumber (Fin 0))) (\<lambda>dataView.
     js_bind (js_loose_eq dataView JNull) (\<lambda>viewNull.
     if viewNull then Inr None
     else js_bind (if \<not> truthy dataView then Inr True
                   else js_bind (get_prop dataView ''metadata'') (\<lambda>metadata.
                          Inr (\<not> truthy metadata))) (\<lambda>noMetadata.
     if noMetadata then Inr None else Inr (Some dataView)))))))"

text \<open>Lines 122--146: each group is read from \<open>dataView.metadata.objects\<close>.\<close>

definition read_model_params :: "jsval \<Rightarrow> js_error + Visual_settings_model_params" where
  "read_model_params objects =
     js_bind (getValue objects ''settings_model_params'' ''modelType'' (JString ''automatic'')) (\<lambda>mt.
     js_bind (getValue objects ''settings_model_params'' ''targetSeasonality''
                (JString ''autodetect from date'')) (\<lambda>ts.
     js_bind (getValue objects ''settings_model_params'' ''freq'' (JNumber (Fin 12))) (\<lambda>fr.
     Inr \<lparr>modelType = mt, targetSeasonality = ts, freq = fr\<rparr>)))"

definition read_algo_params :: "jsval \<Rightarrow> js_error + Visual_settings_algo_params" where
  "read_algo_params objects =
     js_bind (getValue objects ''settings_algo_params'' ''degree'' (JBool False)) (\<lambda>dg.
     js_bind (getValue objects ''settings_algo_params'' ''robustToOutliers'' (JBool True)) (\<lambda>ro.
     js_bind (getValue objects ''settings_algo_params'' ''percentile'' (JNumber (Fin 50))) (\<lambda>pc.
     Inr \<lparr>degree = dg, robustToOutliers = ro, percentile = pc\<rparr>)))"

definition read_plot_params :: "jsval \<Rightarrow> js_error + Visual_settings_plot_params" where
  "read_plot_params objects =
     js_bind (getValue objects ''settings_plot_params'' ''plotType'' (JString ''all'')) (\<lambda>pt.
     js_bind (getValue objects ''settings_plot_params'' ''weight'' (JNumber (Fin 10))) (\<lambda>wt.
     js_bind (getValue objects ''settings_plot_params'' ''lineCol'' (JString ''red'')) (\<lambda>lc.
     js_bind (getValue objects ''settings_plot_params'' ''labelsCol'' (JString ''orange'')) (\<lambda>lb.
     js_bind (getValue objects ''settings_plot_params'' ''textSize'' (JNumber (Fin 10))) (\<lambda>ts.
     Inr \<lparr>plotType = pt, weight = wt, lineCol = lc, labelsCol = lb, plot_textSize = ts\<rparr>)))))"

definition read_extra_params :: "jsval \<Rightarrow> js_error + Visual_settings_extra_params" where
  "read_extra_params objects =
     js_bind (getValue objects ''settings_extra_params'' ''show'' (JBool True)) (\<lambda>sh.
     js_bind (getValue objects ''settings_extra_params'' ''textSize'' (JNumber (Fin 10))) (\<lambda>ts.
     js_bind (getValue objects ''settings_extra_params'' ''infoCol'' (JString ''brown'')) (\<lambda>ic.
     Inr \<lparr>extra_show = sh, extra_textSize = ts, infoCol = ic\<rparr>)))"

text \<open>
  The four assignments in order; an exception leaves the groups assigned before
  it. \<open>dataView.metadata.objects\<close> is read once: the reads have no effect and
  give the same value each time.
\<close>

definition update_settings :: "jsval \<Rightarrow> Visual \<Rightarrow> (js_error + unit) \<times> Visual" where
  "update_settings dataView this =
     (case js_bind (get_prop dataView ''metadata'') (\<lambda>m. get_prop m ''objects'') of
        Inl e \<Rightarrow> (Inl e, this)
      | Inr objects \<Rightarrow>
      (case read_model_params objects of Inl e \<Rightarrow> (Inl e, this) | Inr mp \<Rightarrow>
       let this1 = this\<lparr>settings_model_params := mp\<rparr> in
       case read_algo_params objects of Inl e \<Rightarrow> (Inl e, this1) | Inr ap \<Rightarrow>
       let this2 = this1\<lparr>settings_algo_params := ap\<rparr> in
       case read_plot_params objects of Inl e \<Rightarrow> (Inl e, this2) | Inr pp \<Rightarrow>
       let this3 = this2\<lparr>settings_plot_params := pp\<rparr> in
       case read_extra_params objects of Inl e \<Rightarrow> (Inl e, this3) | Inr ep \<Rightarrow>
       (Inr (), this3\<lparr>settings_extra_params := ep\<rparr>)))"

text \<open>Lines 148--151: \<open>imageUrl\<close>, \<open>null\<close> when there is no payload.\<close>

definition image_url :: "jsval \<Rightarrow> js_error + jsval" where
  "image_url dataView =
     js_bind (get_prop dataView ''scriptResult'') (\<lambda>scriptResult.
       if truthy scriptResult then
         js_bind (get_prop scriptResult ''payloadBase64'') (\<lambda>payload.
           if truthy payload then js_add (JString ''data:image/png;base64,'') payload
           else Inr JNull)
       else Inr JNull)"

text \<open>
  Lines 153--157: \<open>src = imageUrl\<close> or \<open>src = null\<close>; the \<open>src\<close> setter
  converts its value with \<open>ToString\<close>.
\<close>

definition update_image :: "jsval \<Rightarrow> Visual \<Rightarrow> dom \<Rightarrow> (js_error + unit) \<times> dom" where
  "update_image dataView this d =
     (case js_bind (image_url dataView) (\<lambda>imageUrl.
             js_to_string (if truthy imageUrl then imageUrl else JNull)) of
        Inl e \<Rightarrow> (Inl e, d)
      | Inr s \<Rightarrow> (Inr (), set_src (imageElement this) s d))"

subsection \<open>onResizing\<close>

text \<open>
  Lines 162--165: \<open>finalViewport.height + 'px'\<close>, assigned, then the same for
  the width; the style setters convert with \<open>ToString\<close>.
\<close>

definition css_px :: "jsval \<Rightarrow> string \<Rightarrow> js_error + string" where
  "css_px viewport field =
     js_bind (get_prop viewport field) (\<lambda>v.
     js_bind (js_add v (JString ''px'')) js_to_string)"

definition Visual_onResizing :: "jsval \<Rightarrow> Visual \<Rightarrow> dom \<Rightarrow> (js_error + unit) \<times> dom" where
  "Visual_onResizing finalViewport this d =
     (case css_px finalViewport ''height'' of
        Inl e \<Rightarrow> (Inl e, d)
      | Inr h \<Rightarrow>
        let d1 = set_style_height (imageDiv this) h d in
        case css_px finalViewport ''width'' of
          Inl e \<Rightarrow> (Inl e, d1)
        | Inr w \<Rightarrow> (Inr (), set_style_width (imageDiv this) w d1))"

text \<open>\<open>update\<close>: guards, settings, image, then \<open>onResizing(options.viewport)\<close>.\<close>

definition Visual_update :: "jsval \<Rightarrow> Visual \<Rightarrow> dom \<Rightarrow> (js_error + unit) \<times> Visual \<times> dom" where
  "Visual_update options this d =
     (case update_guard options of
        Inl e \<Rightarrow> (Inl e, this, d)
      | Inr None \<Rightarrow> (Inr (), this, d)
      | Inr (Some dataView) \<Rightarrow>
        (case update_settings dataView this of
           (Inl e, this1) \<Rightarrow> (Inl e, this1, d)
         | (Inr _, this1) \<Rightarrow>
           (case update_image dataView this1 d of
              (Inl e, d1) \<Rightarrow> (Inl e, this1, d1)
            | (Inr _, d1) \<Rightarrow>
              (case get_prop options ''viewport'' of
                 Inl e \<Rightarrow> (Inl e, this1, d1)
               | Inr viewport \<Rightarrow>
                 (case Visual_onResizing viewport this1 d1 of (r, d2) \<Rightarrow> (r, this1, d2))))))"

subsection \<open>enumerateObjectInstances\<close>

definition enum_model_params :: "jsval \<Rightarrow> Visual_settings_model_params \<Rightarrow> js_error + VisualObjectInstance list" where
  "enum_model_params name mp =
     (let base = \<lparr>objectName = name,
                  properties = [(''modelType'', modelType mp), (''targetSeasonality'', targetSeasonality mp)],
                  selector = JNull\<rparr>
      in js_bind (js_loose_eq (targetSeasonality mp) (JString ''manual'')) (\<lambda>manual.
           if manual then
             js_bind (inMinMax (freq mp) (JNumber (Fin 1)) (JNumber (Fin 10000))) (\<lambda>f.
               Inr [base, \<lparr>objectName = name, properties = [(''freq'', f)], selector = JNull\<rparr>])
           else Inr [base]))"

definition enum_algo_params :: "jsval \<Rightarrow> Visual_settings_algo_params \<Rightarrow> js_error + VisualObjectInstance list" where
  "enum_algo_params name ap =
     js_bind (inMinMax (percentile ap) (JNumber (Fin 1)) (JNumber (Fin 100))) (\<lambda>pc.
       Inr [\<lparr>objectName = name,
             properties = [(''degree'', degree ap), (''robustToOutliers'', robustToOutliers ap),
                           (''percentile'', pc)],
             selector = JNull\<rparr>])"

definition enum_plot_params :: "jsval \<Rightarrow> Visual_settings_plot_params \<Rightarrow> js_error + VisualObjectInstance list" where
  "enum_plot_params name pp =
     js_bind (inMinMax (weight pp) (JNumber (Fin 1)) (JNumber (Fin 50))) (\<lambda>wt.
     js_bind (inMinMax (plot_textSize pp) (JNumber (Fin 8)) (JNumber (Fin 40))) (\<lambda>ts.
       Inr [\<lparr>objectName = name,
             properties = [(''plotType'', plotType pp), (''weight'', wt), (''lineCol'', lineCol pp),
                           (''labelsCol'', labelsCol pp), (''textSize'', ts)],
             selector = JNull\<rparr>]))"

definition enum_extra_params :: "jsval \<Rightarrow> Visual_settings_extra_params \<Rightarrow> js_error + VisualObjectInstance list" where
  "enum_extra_params name ep =
     js_bind (inMinMax (extra_textSize ep) (JNumber (Fin 8)) (JNumber (Fin 40))) (\<lambda>ts.
       Inr [\<lparr>objectName = name,
             properties = [(''show'', extra_show ep), (''textSize'', ts), (''infoCol'', infoCol ep)],
             selector = JNull\<rparr>])"

text \<open>The \<open>switch\<close> compares with \<open>===\<close>; no case matches: the empty list.\<close>

definition Visual_enumerateObjectInstances :: "jsval \<Rightarrow> Visual \<Rightarrow> js_error + VisualObjectInstance list" where
  "Visual_enumerateObjectInstances options this =
     js_bind (get_prop options ''objectName'') (\<lambda>name.
       if js_strict_eq name (JString ''settings_model_params'') then
         enum_model_params name (settings_model_params this)
       else if js_strict_eq name (JString ''settings_algo_params'') then
         enum_algo_params name (settings_algo_params this)
       else if js_strict_eq name (JString ''settings_plot_params'') then
         enum_plot_params name (settings_plot_params this)
       else if js_strict_eq name (JString ''settings_extra_params'') then
         enum_extra_params name (settings_extra_params this)
       else Inr [])"

subsection \<open>What update promises\<close>

text \<open>
  The contract of \<open>update\<close> on the settings: each field is the host's value at
  \<open>objects[group][property]\<close> when the group is truthy and the value is not
  \<open>undefined\<close>, and the field's default otherwise. \<open>settings_table\<close> reads a
  visual's settings under the host's group and property names (those of
  \<open>enumerateObjectInstances\<close>), \<open>defaults_table\<close> lists the defaults of the
  constructor in the same order.
\<close>

definition setting :: "jsval \<Rightarrow> string \<Rightarrow> string \<Rightarrow> jsval \<Rightarrow> jsval" where
  "setting objects g p dflt = (case js_path objects [g, p] of Some v \<Rightarrow> v | None \<Rightarrow> dflt)"

definition settings_table :: "Visual \<Rightarrow> ((string \<times> string) \<times> jsval) list" where
  "settings_table v =
     [((''settings_model_params'', ''modelType''), modelType (settings_model_params v)),
      ((''settings_model_params'', ''targetSeasonality''), targetSeasonality (settings_model_params v)),
      ((''settings_model_params'', ''freq''), freq (settings_model_params v)),
      ((''settings_algo_params'', ''degree''), degree (settings_algo_params v)),
      ((''settings_algo_params'', ''robustToOutliers''), robustToOutliers (settings_algo_params v)),
      ((''settings_algo_params'', ''percentile''), percentile (settings_algo_params v)),
      ((''settings_plot_params'', ''plotType''), plotType (settings_plot_params v)),
      ((''settings_plot_params'', ''weight''), weight (settings_plot_params v)),
      ((''settings_plot_params'', ''lineCol''), lineCol (settings_plot_params v)),
      ((''settings_plot_params'', ''labelsCol''), labelsCol (settings_plot_params v)),
      ((''settings_plot_params'', ''textSize''), plot_textSize (settings_plot_params v)),
      ((''settings_extra_params'', ''show''), extra_show (settings_extra_params v)),
      ((''settings_extra_params'', ''textSize''), extra_textSize (settings_extra_params v)),
      ((''settings_extra_params'', ''infoCol''), infoCol (settings_extra_params v))]"

definition defaults_table :: "((string \<times> string) \<times> jsval) list" where
  "defaults_table =
     [((''settings_model_params'', ''modelType''), JString ''automatic''),
      ((''settings_model_params'', ''targetSeasonality''), JString ''autodetect from date''),
      ((''settings_model_params'', ''freq''), JNumber (Fin 12)),
      ((''settings_algo_params'', ''degree''), JBool False),
      ((''settings_algo_params'', ''robustToOutliers''), JBool True),
      ((''settings_algo_params'', ''percentile''), JNumber (Fin 50)),
      ((''settings_plot_params'', ''plotType''), JString ''all''),
      ((''settings_plot_params'', ''weight''), JNumber (Fin 10)),
      ((''settings_plot_params'', ''lineCol''), JString ''red''),
      ((''settings_plot_params'', ''labelsCol''), JString ''orange''),
      ((''settings_plot_params'', ''textSize''), JNumber (Fin 10)),
      ((''settings_extra_params'', ''show''), JBool True),
      ((''settings_extra_params'', ''textSize''), JNumber (Fin 10)),
      ((''settings_extra_params'', ''infoCol''), JString ''brown'')]"

definition overlay :: "jsval \<Rightarrow> ((string \<times> string) \<times> jsval) list \<Rightarrow> ((string \<times> string) \<times> jsval) list" where
  "overlay objects tbl = map (\<lambda>((g, p), dflt). ((g, p), setting objects g p dflt)) tbl"

text \<open>The visual after a successful read of \<open>objects\<close>, group by group.\<close>

definition settings_from :: "jsval \<Rightarrow> Visual \<Rightarrow> Visual" where
  "settings_from objects this = this\<lparr>
     settings_model_params :=
       \<lparr>modelType = setting objects ''settings_model_params'' ''modelType'' (JString ''automatic''),
        targetSeasonality =
          setting objects ''settings_model_params'' ''targetSeasonality'' (JString ''autodetect from date''),
        freq = setting objects ''settings_model_params'' ''freq'' (JNumber (Fin 12))\<rparr>,
     settings_algo_params :=
       \<lparr>degree = setting objects ''settings_algo_params'' ''degree'' (JBool False),
        robustToOutliers = setting objects ''settings_algo_params'' ''robustToOutliers'' (JBool True),
        percentile = setting objects ''settings_algo_params'' ''percentile'' (JNumber (Fin 50))\<rparr>,
     settings_plot_params :=
       \<lparr>plotType = setting objects ''settings_plot_params'' ''plotType'' (JString ''all''),
        weight = setting objects ''settings_plot_params'' ''weight'' (JNumber (Fin 10)),
        lineCol = setting objects ''settings_plot_params'' ''lineCol'' (JString ''red''),
        labelsCol = setting objects ''settings_plot_params'' ''labelsCol'' (JString ''orange''),
        plot_textSize = setting objects ''settings_plot_params'' ''textSize'' (JNumber (Fin 10))\<rparr>,
     settings_extra_params :=
       \<lparr>extra_show = setting objects ''settings_extra_params'' ''show'' (JBool True),
        extra_textSize = setting objects ''settings_extra_params'' ''textSize'' (JNumber (Fin 10)),
        infoCol = setting objects ''settings_extra_params'' ''infoCol'' (JString ''brown'')\<rparr>\<rparr>"

definition settings_of :: "Visual \<Rightarrow> Visual_settings_model_params \<times> Visual_settings_algo_params \<times>
                                  Visual_settings_plot_params \<times> Visual_settings_extra_params" where
  "settings_of v = (settings_model_params v, settings_algo_params v, settings_plot_params v,
                    settings_extra_params v)"

definition has_metadata :: "jsval \<Rightarrow> bool" where
  "has_metadata dv \<longleftrightarrow> truthy dv \<and> (case get_prop dv ''metadata'' of Inr m \<Rightarrow> truthy m | Inl _ \<Rightarrow> False)"

definition node_src :: "dom \<Rightarrow> nat \<Rightarrow> string option option" where
  "node_src d n = map_option src (node_at d n)"

text \<open>
  The guards of \<open>update\<close> without the two \<open>== null\<close> tests (lines 109 and
  115): the tests before them already return on \<open>undefined\<close> and \<open>null\<close>.
\<close>

definition update_guard_reference :: "jsval \<Rightarrow> js_error + jsval option" where
  "update_guard_reference options =
     js_bind (get_prop options ''dataViews'') (\<lambda>dataViews.
     js_bind (if \<not> truthy dataViews then Inr True
              else js_bind (get_prop dataViews ''length'') (\<lambda>len.
                     Inr (js_strict_eq len (JNumber (Fin 0))))) (\<lambda>noViews.
     if noViews then Inr None
     else js_bind (get_member dataViews (JNumber (Fin 0))) (\<lambda>dataView.
     js_bind (if \<not> truthy dataView then Inr True
              else js_bind (get_prop dataView ''metadata'') (\<lambda>metadata.
                     Inr (\<not> truthy metadata))) (\<lambda>noMetadata.
     if noMetadata then Inr None else Inr (Some dataView)))))"

text \<open>
  The types the interfaces of lines 29--53 declare for the settings, as
  \<open>js_type\<close> tags (2 boolean, 3 number, 4 string), in the order of
  \<open>settings_table\<close>; a visual whose settings have them, and host objects whose
  present properties have them.
\<close>

definition declared_types :: "((string \<times> string) \<times> nat) list" where
  "declared_types =
     [((''settings_model_params'', ''modelType''), 4), ((''settings_model_params'', ''targetSeasonality''), 4),
      ((''settings_model_params'', ''freq''), 3),
      ((''settings_algo_params'', ''degree''), 2), ((''settings_algo_params'', ''robustToOutliers''), 2),
      ((''settings_algo_params'', ''percentile''), 3),
      ((''settings_plot_params'', ''plotType''), 4), ((''settings_plot_params'', ''weight''), 3),
      ((''settings_plot_params'', ''lineCol''), 4), ((''settings_plot_params'', ''labelsCol''), 4),
      ((''settings_plot_params'', ''textSize''), 3),
      ((''settings_extra_params'', ''show''), 2), ((''settings_extra_params'', ''textSize''), 3),
      ((''settings_extra_params'', ''infoCol''), 4)]"

definition settings_typed :: "Visual \<Rightarrow> bool" where
  "settings_typed v \<longleftrightarrow>
     list_all2 (\<lambda>(k, x) (k', ty). k = k' \<and> js_type x = ty) (settings_table v) declared_types"

definition objects_typed :: "jsval \<Rightarrow> bool" where
  "objects_typed objs \<longleftrightarrow>
     list_all (\<lambda>((g, p), ty). case js_path objs [g, p] of None \<Rightarrow> True | Some x \<Rightarrow> js_type x = ty)
       declared_types"

subsection \<open>Lemmas\<close>

lemma getValue_setting: "getValue objects g p d = Inr (setting objects g p d)"
  by (simp add: getValue_path setting_def)

lemma update_settings_objects:
  "get_prop dataView ''metadata'' = Inr metadata \<Longrightarrow> get_prop metadata ''objects'' = Inr objects \<Longrightarrow>
   update_settings dataView this = (Inr (), settings_from objects this)"
  by (simp add: update_settings_def read_model_params_def read_algo_params_def read_plot_params_def
                read_extra_params_def getValue_setting settings_from_def)

lemma update_guard_Some:
  assumes "update_guard options = Inr (Some dataView)"
  shows "\<exists>metadata objects. get_prop dataView ''metadata'' = Inr metadata \<and> truthy metadata \<and>
           get_prop metadata ''objects'' = Inr objects"
proof -
  from assms obtain metadata where "get_prop dataView ''metadata'' = Inr metadata" "truthy metadata"
    by (auto simp: update_guard_def split: if_splits)
  then show ?thesis
    using truthy_get_prop by blast
qed

lemma Visual_update_None: "update_guard options = Inr None \<Longrightarrow> Visual_update options this d = (Inr (), this, d)"
  by (simp add: Visual_update_def)

lemma update_result_settings:
  assumes "update_guard options = Inr (Some dv)" "get_prop dv ''metadata'' = Inr md"
    "get_prop md ''objects'' = Inr objs"
  shows "fst (snd (Visual_update options this d)) = settings_from objs this"
proof -
  have u: "update_settings dv this = (Inr (), settings_from objs this)"
    using assms(2,3) by (rule update_settings_objects)
  show ?thesis
    using assms(1) by (simp add: Visual_update_def u split: prod.split sum.split)
qed

lemma array_index_zero [simp]: "array_index ''0'' = Some 0"
  by (simp add: array_index_def is_digit_def digit_val_def nat_to_dec.simps)

lemma get_member_array_zero:
  "get_member (JArray i vs) (JNumber (Fin 0)) = Inr (case vs of [] \<Rightarrow> JUndefined | v # _ \<Rightarrow> v)"
  by (simp add: get_member_def split: list.splits)

lemma update_guard_array_Nil:
  "get_prop options ''dataViews'' = Inr (JArray i []) \<Longrightarrow> update_guard options = Inr None"
  by (simp add: update_guard_def)

lemma update_guard_array_Cons:
  assumes "get_prop options ''dataViews'' = Inr (JArray i (dv # rest))"
  shows "update_guard options = Inr (if has_metadata dv then Some dv else None)"
proof (cases "truthy dv")
  case True
  then obtain m where "get_prop dv ''metadata'' = Inr m"
    using truthy_get_prop by blast
  with True assms show ?thesis
    by (simp add: update_guard_def get_member_array_zero has_metadata_def truthy_not_nullish)
next
  case False
  with assms show ?thesis
    by (simp add: update_guard_def get_member_array_zero has_metadata_def)
qed

lemma js_add_strings [simp]: "js_add (JString a) (JString b) = Inr (JString (a @ b))"
  by (simp add: js_add_def is_string_def)

lemma image_url_payload:
  assumes "get_prop dv ''scriptResult'' = Inr sr" "truthy sr"
    "get_prop sr ''payloadBase64'' = Inr (JString p)" "p \<noteq> []"
  shows "image_url dv = Inr (JString (''data:image/png;base64,'' @ p))"
  using assms by (simp add: image_url_def)

lemma image_url_absent:
  "get_prop dv ''scriptResult'' = Inr sr \<Longrightarrow> \<not> truthy sr \<Longrightarrow> image_url dv = Inr JNull"
  by (simp add: image_url_def)

lemma update_image_url:
  "image_url dv = Inr u \<Longrightarrow> js_to_string (if truthy u then u else JNull) = Inr s \<Longrightarrow>
   update_image dv this d = (Inr (), set_src (imageElement this) s d)"
  by (simp add: update_image_def)

lemma node_src_style [simp]:
  "node_src (set_style_height m v d) n = node_src d n"
  "node_src (set_style_width m v d) n = node_src d n"
  by (auto simp: node_src_def set_style_height_def set_style_width_def option.map_comp comp_def
           intro: option.map_cong)

lemma node_src_onResizing_eq:
  "Visual_onResizing vp this d = (r, d') \<Longrightarrow> node_src d' n = node_src d n"
  by (auto simp: Visual_onResizing_def Let_def split: sum.splits)

lemma node_src_set_src [simp]:
  "node_src (set_src n s d) m = (if m = n then map_option (\<lambda>_. Some s) (node_at d n) else node_src d m)"
  by (simp add: node_src_def set_src_def option.map_comp comp_def)

lemma settings_from_nodes [simp]:
  "imageDiv (settings_from objs this) = imageDiv this"
  "imageElement (settings_from objs this) = imageElement this"
  by (simp_all add: settings_from_def)

lemma onResizing_frame:
  "n \<noteq> imageDiv this \<Longrightarrow> Visual_onResizing vp this d = (r, d') \<Longrightarrow> node_at d' n = node_at d n"
  by (auto simp: Visual_onResizing_def Let_def set_style_height_def set_style_width_def
           split: sum.splits)

lemma update_image_frame:
  "n \<noteq> imageElement this \<Longrightarrow> update_image dv this d = (r, d') \<Longrightarrow> node_at d' n = node_at d n"
  by (auto simp: update_image_def set_src_def split: sum.splits)

lemma update_node_twice [simp]: "update_node n f (update_node n g d) = update_node n (f \<circ> g) d"
  by (simp add: update_node_def comp_def case_prod_beta)

lemma css_px_number:
  "get_prop vp f = Inr (JNumber h) \<Longrightarrow> css_px vp f = Inr (number_to_string h @ ''px'')"
  by (simp add: css_px_def js_add_def is_string_def)

lemma update_image_settings_from [simp]:
  "update_image dv (settings_from objs this) d = update_image dv this d"
  unfolding update_image_def settings_from_nodes ..

lemma onResizing_settings_from [simp]:
  "Visual_onResizing vp (settings_from objs this) d = Visual_onResizing vp this d"
  unfolding Visual_onResizing_def settings_from_nodes ..

lemma update_settings_nodes:
  "update_settings dv this = (r, this1) \<Longrightarrow> imageDiv this1 = imageDiv this \<and> imageElement this1 = imageElement this"
  by (auto simp: update_settings_def Let_def split: sum.splits)

lemma Visual_update_Some:
  assumes "update_guard options = Inr (Some dv)" "get_prop dv ''metadata'' = Inr md"
    "get_prop md ''objects'' = Inr objs"
  shows "Visual_update options this d =
     (case update_image dv this d of
        (Inl e, d1) \<Rightarrow> (Inl e, settings_from objs this, d1)
      | (Inr _, d1) \<Rightarrow>
        (case get_prop options ''viewport'' of
           Inl e \<Rightarrow> (Inl e, settings_from objs this, d1)
         | Inr vp \<Rightarrow> (case Visual_onResizing vp this d1 of (r, d2) \<Rightarrow> (r, settings_from objs this, d2))))"
  using assms by (simp add: Visual_update_def update_settings_objects, unfold onResizing_settings_from) (rule refl)

lemma update_src_after_image:
  assumes "update_guard options = Inr (Some dv)" "image_url dv = Inr u"
    "js_to_string (if truthy u then u else JNull) = Inr s" "Visual_update options this d = (r, this', d')"
  shows "node_src d' (imageElement this) = node_src (set_src (imageElement this) s d) (imageElement this)"
proof -
  obtain md objs where m: "get_prop dv ''metadata'' = Inr md" "get_prop md ''objects'' = Inr objs"
    using update_guard_Some [OF assms(1)] by blast
  have i: "update_image dv this d = (Inr (), set_src (imageElement this) s d)"
    using assms(2,3) by (rule update_image_url)
  show ?thesis
  proof (cases "get_prop options ''viewport''")
    case (Inl e)
    with assms(4) show ?thesis by (simp add: Visual_update_Some [OF assms(1) m] i)
  next
    case (Inr vp)
    with assms(4) have "Visual_onResizing vp this (set_src (imageElement this) s d) = (r, d')"
      by (auto simp: Visual_update_Some [OF assms(1) m] i split: prod.splits)
    then show ?thesis by (rule node_src_onResizing_eq)
  qed
qed

lemma constructor_result:
  "Visual_constructor el d0 = Inr (v0, d1) \<Longrightarrow>
   imageDiv v0 = next_node d0 \<and> imageElement v0 = Suc (next_node d0) \<and> settings_table v0 = defaults_table"
  by (auto simp: Visual_constructor_def createElement_def settings_table_def defaults_table_def
     appendChild_def dom_setters_def split: if_splits)

lemma overlay_unset:
  "(\<And>g p. js_path objs [g, p] = None) \<Longrightarrow> overlay objs tbl = tbl"
  by (induction tbl) (auto simp: overlay_def setting_def)

lemma settings_table_settings_from:
  "settings_table (settings_from objs this) = overlay objs defaults_table"
  by (simp add: settings_table_def overlay_def defaults_table_def settings_from_def)

lemma nullish_check_inner:
  "f True = Inr None \<Longrightarrow>
   (if is_nullish v then Inr None else js_bind (if \<not> truthy v then Inr True else m) f) =
     js_bind (if \<not> truthy v then Inr True else m) f"
  by (auto simp: nullish_not_truthy)

lemma nullish_check_outer:
  "js_bind (if \<not> truthy v then Inr True else m) (\<lambda>b. if b then Inr None else if is_nullish v then Inr None else g) =
   js_bind (if \<not> truthy v then Inr True else m) (\<lambda>b. if b then Inr None else g)"
  by (cases "truthy v") (auto simp: truthy_not_nullish)

lemma overlay_typed:
  "list_all2 (\<lambda>(k, x) (k', ty). k = k' \<and> js_type x = ty) tbl tys \<Longrightarrow>
   list_all (\<lambda>((g, p), ty). case js_path objs [g, p] of None \<Rightarrow> True | Some x \<Rightarrow> js_type x = ty) tys \<Longrightarrow>
   list_all2 (\<lambda>(k, x) (k', ty). k = k' \<and> js_type x = ty) (overlay objs tbl) tys"
proof (induction tbl arbitrary: tys)
  case (Cons e tbl)
  then obtain t tys' where "tys = t # tys'" by (cases tys) auto
  with Cons show ?case
    by (cases e; cases t) (auto simp: overlay_def setting_def split: option.splits)
qed (simp add: overlay_def)

lemma settings_from_typed: "objects_typed objs \<Longrightarrow> settings_typed (settings_from objs this)"
proof -
  assume t: "objects_typed objs"
  have "list_all2 (\<lambda>(k, x) (k', ty). k = k' \<and> js_type x = ty) defaults_table declared_types"
    by (simp add: defaults_table_def declared_types_def)
  from overlay_typed [OF this] t show ?thesis
    by (simp add: settings_typed_def settings_table_settings_from objects_typed_def)
qed

end
