(* ===== verification/Visual_Properties.thy ===== *)
theory Visual_Properties
  imports Visual
begin

text \<open>
  The properties of the visual's methods (\<open>Visual\<close>): \<open>update\<close> against its
  contract on the settings, its early returns, the image source it sets, its
  exception on a missing viewport and its frame in the DOM; \<open>onResizing\<close>; the
  enumeration's instances and clamps. Each property is followed by a witness
  on example host inputs: a page with one mount node (\<open>demo_dom\<close>), the
  visual mounted on it (\<open>demo_visual\<close>, \<open>demo_dom1\<close>), and update payloads
  of the shape the host sends.
\<close>

subsection \<open>Example host inputs\<close>

text \<open>
  A host page with one mount node, and the payload of an update in the shape the
  host sends: one data view whose metadata sets two model parameters and the
  plot weight, a script result carrying the image, and a viewport.
\<close>

definition demo_dom :: dom where
  "demo_dom = \<lparr>nodes = [(0, new_node ''div'')], next_node = 1\<rparr>"

definition demo_objects :: jsval where
  "demo_objects =
     JObject 4 [(''settings_model_params'',
                 JObject 5 [(''targetSeasonality'', JString ''manual''), (''freq'', JNumber (Fin 7))]),
                (''settings_plot_params'', JObject 6 [(''weight'', JNumber (Fin 99))])]"

definition demo_dataView :: jsval where
  "demo_dataView =
     JObject 2 [(''metadata'', JObject 3 [(''objects'', demo_objects)]),
                (''scriptResult'', JObject 7 [(''payloadBase64'', JString ''AAAA'')])]"

definition demo_viewport :: jsval where
  "demo_viewport = JObject 8 [(''height'', JNumber (Fin 300)), (''width'', JNumber (Fin 200))]"

definition demo_options :: jsval where
  "demo_options = JObject 0 [(''dataViews'', JArray 1 [demo_dataView]), (''viewport'', demo_viewport)]"

definition demo_visual :: Visual where
  "demo_visual =
     \<lparr>imageDiv = 1, imageElement = 2,
      settings_model_params =
        \<lparr>modelType = JString ''automatic'', targetSeasonality = JString ''autodetect from date'',
         freq = JNumber (Fin 12)\<rparr>,
      settings_algo_params =
        \<lparr>degree = JBool False, robustToOutliers = JBool True, percentile = JNumber (Fin 50)\<rparr>,
      settings_plot_params =
        \<lparr>plotType = JString ''all'', weight = JNumber (Fin 10), lineCol = JString ''red'',
         labelsCol = JString ''orange'', plot_textSize = JNumber (Fin 10)\<rparr>,
      settings_extra_params =
        \<lparr>extra_show = JBool True, extra_textSize = JNumber (Fin 10), infoCol = JString ''brown''\<rparr>\<rparr>"

definition demo_dom1 :: dom where
  "demo_dom1 =
     \<lparr>nodes = [(0, (new_node ''div'')\<lparr>childNodes := [1]\<rparr>),
               (1, (new_node ''div'')\<lparr>className := ''rcv_autoScaleImageContainer'', childNodes := [2]\<rparr>),
               (2, (new_node ''img'')\<lparr>className := ''rcv_autoScaleImage''\<rparr>)],
      next_node = 3\<rparr>"

definition demo_noviewport_options :: jsval where
  "demo_noviewport_options =
     JObject 0 [(''dataViews'', JArray 1 [JObject 2 [(''metadata'', JObject 3 [(''objects'', JObject 4 [])])]])]"

definition demo_empty_options :: jsval where
  "demo_empty_options = JObject 0 [(''dataViews'', JArray 1 [])]"

definition clamp_bounds :: "(string \<times> string \<times> rat \<times> rat) list" where
  "clamp_bounds =
     [(''settings_model_params'', ''freq'', 1, 10000), (''settings_algo_params'', ''percentile'', 1, 100),
      (''settings_plot_params'', ''weight'', 1, 50), (''settings_plot_params'', ''textSize'', 8, 40),
      (''settings_extra_params'', ''textSize'', 8, 40)]"

definition demo_enum :: "string \<Rightarrow> jsval" where
  "demo_enum g = JObject 9 [(''objectName'', JString g)]"

definition demo_updated :: Visual where
  "demo_updated = fst (snd (Visual_update demo_options demo_visual demo_dom1))"

subsection \<open>Example evaluations\<close>

lemma demo_guard: "update_guard demo_options = Inr (Some demo_dataView)"
  by (simp add: update_guard_array_Cons demo_options_def has_metadata_def demo_dataView_def)

lemma demo_pos_rat: "pos_rat_to_string 300 = ''300''" "pos_rat_to_string 200 = ''200''"
  by code_simp+

lemma demo_metadata:
  "get_prop demo_dataView ''metadata'' = Inr (JObject 3 [(''objects'', demo_objects)])"
  "get_prop (JObject 3 [(''objects'', demo_objects)]) ''objects'' = Inr demo_objects"
  by (simp_all add: demo_dataView_def)

lemma demo_mount: "Visual_constructor 0 demo_dom = Inr (demo_visual, demo_dom1)"
  by (simp add: Visual_constructor_def demo_dom_def createElement_def appendChild_def set_className_def
     node_at_def update_node_def detach_def new_node_def demo_visual_def demo_dom1_def)

lemma demo_enum_get: "get_prop (demo_enum g) ''objectName'' = Inr (JString g)"
  by (simp add: demo_enum_def)

lemma demo_updated_settings:
  "settings_model_params demo_updated =
     \<lparr>modelType = JString ''automatic'', targetSeasonality = JString ''manual'', freq = JNumber (Fin 7)\<rparr>"
  "settings_plot_params demo_updated =
     \<lparr>plotType = JString ''all'', weight = JNumber (Fin 99), lineCol = JString ''red'',
      labelsCol = JString ''orange'', plot_textSize = JNumber (Fin 10)\<rparr>"
  using update_result_settings [OF demo_guard demo_metadata, of demo_visual demo_dom1]
  by (simp_all add: demo_updated_def settings_from_def setting_def demo_objects_def)

subsection \<open>Properties\<close>

text \<open>C6: After an update whose script result carries a non-empty base64 payload \<open>p\<close>, the image element's \<open>src\<close> is \<open>data:image/png;base64,\<close> followed by \<open>p\<close>, whether or not the later resize throws.\<close>
lemma update_image_src_payload:
  assumes "update_guard options = Inr (Some dv)" "get_prop dv ''scriptResult'' = Inr sr" "truthy sr"
    "get_prop sr ''payloadBase64'' = Inr (JString p)" "p \<noteq> []"
    "node_at d (imageElement this) \<noteq> None" "Visual_update options this d = (r, this', d')"
  shows "node_src d' (imageElement this) = Some (Some (''data:image/png;base64,'' @ p))"
  using update_src_after_image [OF assms(1) image_url_payload [OF assms(2-5)] _ assms(7)] assms(6)
  by auto

lemma update_image_src_payload_witness:
  "node_src (snd (snd (Visual_update demo_options demo_visual demo_dom1))) 2 =
     Some (Some ''data:image/png;base64,AAAA'')"
  using update_image_src_payload [OF demo_guard, where sr = "JObject 7 [(''payloadBase64'', JString ''AAAA'')]"
      and p = "''AAAA''" and this = demo_visual and d = demo_dom1
      and r = "fst (Visual_update demo_options demo_visual demo_dom1)"
      and this' = "fst (snd (Visual_update demo_options demo_visual demo_dom1))"
      and d' = "snd (snd (Visual_update demo_options demo_visual demo_dom1))"]
  by (simp add: demo_dataView_def demo_visual_def demo_dom1_def node_at_def)

text \<open>C7: After an update with no script result the image element's \<open>src\<close> is the string \<open>null\<close>: the setter converts \<open>null\<close> with ToString, it does not remove the attribute.\<close>
lemma update_image_src_null:
  assumes "update_guard options = Inr (Some dv)" "get_prop dv ''scriptResult'' = Inr sr" "\<not> truthy sr"
    "node_at d (imageElement this) \<noteq> None" "Visual_update options this d = (r, this', d')"
  shows "node_src d' (imageElement this) = Some (Some ''null'')"
  using update_src_after_image [OF assms(1) image_url_absent [OF assms(2,3)] _ assms(5)] assms(4)
  by auto

lemma update_image_src_null_witness:
  "node_src (snd (snd (Visual_update demo_noviewport_options demo_visual demo_dom1))) 2 = Some (Some ''null'')"
  using update_image_src_null [where options = demo_noviewport_options
      and dv = "JObject 2 [(''metadata'', JObject 3 [(''objects'', JObject 4 [])])]"
      and sr = JUndefined and this = demo_visual and d = demo_dom1
      and r = "fst (Visual_update demo_noviewport_options demo_visual demo_dom1)"
      and this' = "fst (snd (Visual_update demo_noviewport_options demo_visual demo_dom1))"
      and d' = "snd (snd (Visual_update demo_noviewport_options demo_visual demo_dom1))"]
  by (simp add: demo_noviewport_options_def update_guard_array_Cons has_metadata_def demo_visual_def
                demo_dom1_def node_at_def)

text \<open>C8: When the options carry no viewport, \<open>update\<close> throws a TypeError from \<open>onResizing\<close>, after it has assigned the new settings and the image source, which stay.\<close>
lemma update_viewport_missing:
  assumes "update_guard options = Inr (Some dv)" "get_prop dv ''metadata'' = Inr md"
    "get_prop md ''objects'' = Inr objs" "update_image dv this d = (Inr (), d')"
    "get_prop options ''viewport'' = Inr vp" "is_nullish vp"
  shows "Visual_update options this d = (Inl TypeError_ReadNullish, settings_from objs this, d')"
  using assms by (simp add: Visual_update_Some Visual_onResizing_def css_px_def get_prop_nullish)

lemma update_viewport_missing_witness:
  "Visual_update demo_noviewport_options demo_visual demo_dom1 =
     (Inl TypeError_ReadNullish, settings_from (JObject 4 []) demo_visual, set_src 2 ''null'' demo_dom1)"
  using update_viewport_missing [where options = demo_noviewport_options
      and dv = "JObject 2 [(''metadata'', JObject 3 [(''objects'', JObject 4 [])])]"
      and md = "JObject 3 [(''objects'', JObject 4 [])]" and objs = "JObject 4 []" and this = demo_visual
      and d = demo_dom1 and d' = "set_src 2 ''null'' demo_dom1" and vp = JUndefined]
  by (simp add: demo_noviewport_options_def update_guard_array_Cons has_metadata_def demo_visual_def
                update_image_def image_url_def)

text \<open>C1: Refinement of \<open>update\<close> on the settings: once the guards pass and \<open>dataView.metadata.objects\<close> is read, every one of the fourteen settings is the host value at \<open>objects[group][property]\<close> when the group is truthy and the value is not \<open>undefined\<close>, and the default otherwise. This holds whatever happens after the settings are assigned, including a later exception.\<close>
lemma update_settings_refinement:
  assumes "update_guard options = Inr (Some dv)" "get_prop dv ''metadata'' = Inr md"
    "get_prop md ''objects'' = Inr objs"
  shows "settings_table (fst (snd (Visual_update options this d))) = overlay objs defaults_table"
  using update_result_settings [OF assms] by (simp add: settings_table_settings_from)

lemma update_settings_refinement_witness:
  "settings_table (fst (snd (Visual_update demo_options demo_visual demo_dom1))) =
     overlay demo_objects defaults_table"
  using update_settings_refinement [OF demo_guard demo_metadata] .

text \<open>C2: The defaults of \<open>update\<close> are the constructor's: an update whose objects set no property gives the settings a freshly constructed visual has.\<close>
lemma update_defaults_consistent:
  assumes "Visual_constructor el d0 = Inr (v0, d1)"
    "update_guard options = Inr (Some dv)" "get_prop dv ''metadata'' = Inr md"
    "get_prop md ''objects'' = Inr objs" "\<And>g p. js_path objs [g, p] = None"
  shows "settings_table (fst (snd (Visual_update options this d))) = settings_table v0"
  using update_result_settings [OF assms(2-4)] constructor_result [OF assms(1)] overlay_unset [OF assms(5)]
  by (simp add: settings_table_settings_from)

lemma update_defaults_consistent_witness:
  "settings_table (fst (snd (Visual_update demo_noviewport_options demo_visual demo_dom1))) =
     settings_table demo_visual"
  using update_defaults_consistent [OF demo_mount, where options = demo_noviewport_options
      and dv = "JObject 2 [(''metadata'', JObject 3 [(''objects'', JObject 4 [])])]"
      and md = "JObject 3 [(''objects'', JObject 4 [])]" and objs = "JObject 4 []"
      and this = demo_visual and d = demo_dom1]
  by (simp add: demo_noviewport_options_def update_guard_array_Cons has_metadata_def)

text \<open>C3: \<open>update\<close> returns early, changing neither the visual nor the DOM, when \<open>dataViews\<close> is falsy, is empty, or its first view has no truthy metadata.\<close>
lemma update_early_return:
  assumes "get_prop options ''dataViews'' = Inr dvs"
    "\<not> truthy dvs \<or> dvs = JArray i [] \<or> (\<exists>dv rest. dvs = JArray i (dv # rest) \<and> \<not> has_metadata dv)"
  shows "Visual_update options this d = (Inr (), this, d)"
proof -
  from assms(2) have "update_guard options = Inr None"
  proof (elim disjE exE conjE)
    assume "\<not> truthy dvs"
    with assms(1) show ?thesis by (simp add: update_guard_def)
  next
    assume "dvs = JArray i []"
    with assms(1) show ?thesis by (simp add: update_guard_array_Nil)
  next
    fix dv rest
    assume "dvs = JArray i (dv # rest)" "\<not> has_metadata dv"
    with assms(1) show ?thesis by (simp add: update_guard_array_Cons)
  qed
  then show ?thesis by (rule Visual_update_None)
qed

lemma update_early_return_witness:
  "Visual_update demo_empty_options demo_visual demo_dom1 = (Inr (), demo_visual, demo_dom1)"
  using update_early_return [where options = demo_empty_options and dvs = "JArray 1 []" and i = 1
      and this = demo_visual and d = demo_dom1]
  by (simp add: demo_empty_options_def)

text \<open>C25: The two \<open>== null\<close> tests of \<open>update\<close> (lines 109 and 115) never decide anything: the guards behave as the guards without them.\<close>
lemma update_guard_null_checks_redundant: "update_guard options = update_guard_reference options"
  unfolding update_guard_def update_guard_reference_def
  by (simp add: nullish_check_inner nullish_check_outer cong: if_cong)

text \<open>C9: \<open>update\<close> changes no DOM node other than the visual's container and image, and never changes which nodes those are, on every path including the exceptional ones.\<close>
lemma update_frame:
  assumes "Visual_update options this d = (r, this', d')" "n \<noteq> imageDiv this" "n \<noteq> imageElement this"
  shows "node_at d' n = node_at d n \<and> imageDiv this' = imageDiv this \<and> imageElement this' = imageElement this"
  using assms
  apply (auto simp: Visual_update_def split: sum.splits option.splits prod.splits
           dest!: update_settings_nodes dest: update_image_frame [rotated] onResizing_frame [rotated])
  subgoal for dv d1 vp
    using update_image_frame [of n this' dv d "Inr ()" d1] onResizing_frame [of n this' vp d1 r d'] by simp
  done

lemma update_frame_witness:
  "node_at (snd (snd (Visual_update demo_options demo_visual demo_dom1))) 0 = node_at demo_dom1 0 \<and>
   imageDiv (fst (snd (Visual_update demo_options demo_visual demo_dom1))) = 1 \<and>
   imageElement (fst (snd (Visual_update demo_options demo_visual demo_dom1))) = 2"
  using update_frame [where options = demo_options and this = demo_visual and d = demo_dom1 and n = 0
      and r = "fst (Visual_update demo_options demo_visual demo_dom1)"
      and this' = "fst (snd (Visual_update demo_options demo_visual demo_dom1))"
      and d' = "snd (snd (Visual_update demo_options demo_visual demo_dom1))"]
  by (simp add: demo_visual_def)

text \<open>C10: \<open>onResizing\<close> with a numeric viewport sets the container's style height and width to the numbers followed by \<open>px\<close> and changes nothing else of the node.\<close>
lemma onResizing_sets_size:
  assumes "get_prop vp ''height'' = Inr (JNumber h)" "get_prop vp ''width'' = Inr (JNumber w)"
    "node_at d (imageDiv this) = Some nd"
  shows "\<exists>d'. Visual_onResizing vp this d = (Inr (), d') \<and>
     node_at d' (imageDiv this) =
       Some (nd\<lparr>style_height := number_to_string h @ ''px'', style_width := number_to_string w @ ''px''\<rparr>)"
  using assms by (simp add: Visual_onResizing_def css_px_number dom_setters_def)

lemma onResizing_sets_size_witness:
  "\<exists>d'. Visual_onResizing demo_viewport demo_visual demo_dom1 = (Inr (), d') \<and>
     node_at d' 1 = Some ((new_node ''div'')\<lparr>className := ''rcv_autoScaleImageContainer'', childNodes := [2],
                          style_height := ''300px'', style_width := ''200px''\<rparr>)"
  using onResizing_sets_size [where vp = demo_viewport and h = "Fin 300" and w = "Fin 200"
      and d = demo_dom1 and this = demo_visual
      and nd = "(new_node ''div'')\<lparr>className := ''rcv_autoScaleImageContainer'', childNodes := [2]\<rparr>"]
  by (simp add: demo_viewport_def demo_visual_def demo_dom1_def node_at_def demo_pos_rat)

text \<open>C11: Enumerating \<open>settings_model_params\<close> with a string seasonality yields two instances when it is \<open>manual\<close> (the second one carrying \<open>freq\<close>) and one otherwise.\<close>
lemma enumerate_model_params_count:
  assumes "get_prop options ''objectName'' = Inr (JString ''settings_model_params'')"
    "targetSeasonality (settings_model_params this) = JString s"
    "Visual_enumerateObjectInstances options this = Inr xs"
  shows "length xs = (if s = ''manual'' then 2 else 1)"
  using assms by (auto simp: Visual_enumerateObjectInstances_def enum_model_params_def split: if_splits)

lemma enumerate_model_params_count_witness:
  "length (projr (Visual_enumerateObjectInstances (demo_enum ''settings_model_params'') demo_updated)) = 2"
proof -
  have e: "Visual_enumerateObjectInstances (demo_enum ''settings_model_params'') demo_updated =
      Inr (projr (Visual_enumerateObjectInstances (demo_enum ''settings_model_params'') demo_updated))"
    by (simp add: Visual_enumerateObjectInstances_def enum_model_params_def demo_enum_def demo_updated_settings
      inMinMax_numbers)
  show ?thesis
    using enumerate_model_params_count [OF _ _ e, where s = "''manual''"]
    by (simp add: demo_enum_def demo_updated_settings)
qed

text \<open>C12: Enumerating any object name other than the four settings groups yields no instance.\<close>
lemma enumerate_unknown_empty:
  assumes "get_prop options ''objectName'' = Inr name"
    "name \<notin> JString ` {''settings_model_params'', ''settings_algo_params'', ''settings_plot_params'',
                         ''settings_extra_params''}"
  shows "Visual_enumerateObjectInstances options this = Inr []"
  using assms by (auto simp: Visual_enumerateObjectInstances_def)

lemma enumerate_unknown_empty_witness:
  "Visual_enumerateObjectInstances (demo_enum ''dataPoint'') demo_updated = Inr []"
  using enumerate_unknown_empty [where options = "demo_enum ''dataPoint''" and name = "JString ''dataPoint''"]
  by (simp add: demo_enum_def)

text \<open>C14: With a manual seasonality and a numeric \<open>freq\<close>, the enumeration returns the base instance and a \<open>freq\<close> instance whose value is \<open>freq\<close> clamped to [1, 10000].\<close>
lemma enumerate_freq_clamped:
  assumes "get_prop options ''objectName'' = Inr (JString ''settings_model_params'')"
    "targetSeasonality (settings_model_params this) = JString ''manual''"
    "freq (settings_model_params this) = JNumber (Fin f)"
  shows "Visual_enumerateObjectInstances options this = Inr
     [\<lparr>objectName = JString ''settings_model_params'',
       properties = [(''modelType'', modelType (settings_model_params this)),
                     (''targetSeasonality'', JString ''manual'')], selector = JNull\<rparr>,
      \<lparr>objectName = JString ''settings_model_params'',
       properties = [(''freq'', JNumber (Fin (max 1 (min 10000 f))))], selector = JNull\<rparr>]"
  using assms by (auto simp: Visual_enumerateObjectInstances_def enum_model_params_def inMinMax_numbers)

lemma enumerate_freq_clamped_witness:
  "Visual_enumerateObjectInstances (demo_enum ''settings_model_params'') demo_updated = Inr
     [\<lparr>objectName = JString ''settings_model_params'',
       properties = [(''modelType'', JString ''automatic''), (''targetSeasonality'', JString ''manual'')],
       selector = JNull\<rparr>,
      \<lparr>objectName = JString ''settings_model_params'', properties = [(''freq'', JNumber (Fin 7))],
       selector = JNull\<rparr>]"
  using enumerate_freq_clamped [where options = "demo_enum ''settings_model_params''" and this = demo_updated
      and f = 7]
  by (simp add: demo_enum_def demo_updated_settings max_def min_def)

text \<open>C16: Every clamped property of the enumeration (\<open>freq\<close>, \<open>percentile\<close>, plot \<open>weight\<close> and \<open>textSize\<close>, extra \<open>textSize\<close>) that is returned as a finite number lies within its bounds, whatever the type of the stored setting.\<close>
lemma enumerate_values_in_range:
  assumes "get_prop options ''objectName'' = Inr (JString g)"
    "Visual_enumerateObjectInstances options this = Inr xs" "x \<in> set xs"
    "(g, p, lo, hi) \<in> set clamp_bounds" "map_of (properties x) p = Some (JNumber (Fin v))"
  shows "lo \<le> v \<and> v \<le> hi"
  using assms
  by (auto simp: clamp_bounds_def Visual_enumerateObjectInstances_def enum_model_params_def
      enum_algo_params_def enum_plot_params_def enum_extra_params_def Let_def split: if_splits
      dest!: inMinMax_bounds)

lemma enumerate_values_in_range_witness:
  "map_of (properties (hd (projr (Visual_enumerateObjectInstances (demo_enum ''settings_plot_params'') demo_updated))))
     ''weight'' = Some (JNumber (Fin 50)) \<and> 1 \<le> (50::rat) \<and> (50::rat) \<le> 50"
proof -
  have e: "Visual_enumerateObjectInstances (demo_enum ''settings_plot_params'') demo_updated =
      Inr [\<lparr>objectName = JString ''settings_plot_params'',
            properties = [(''plotType'', JString ''all''), (''weight'', JNumber (Fin 50)),
                          (''lineCol'', JString ''red''), (''labelsCol'', JString ''orange''),
                          (''textSize'', JNumber (Fin 10))], selector = JNull\<rparr>]"
    by (simp add: Visual_enumerateObjectInstances_def enum_plot_params_def demo_enum_def
      demo_updated_settings inMinMax_numbers)
  show ?thesis
    using enumerate_values_in_range [OF _ e, where g = "''settings_plot_params''" and p = "''weight''"
        and lo = 1 and hi = 50 and v = 50]
    by (simp add: demo_enum_get clamp_bounds_def e)
qed

text \<open>C28: The guards of \<open>update\<close> never throw on an options object: every path through
  lines 105--119 reads only properties of values it has checked to be truthy.\<close>

lemma update_guard_total:
  assumes "\<not> is_nullish options"
  shows "\<exists>r. update_guard options = Inr r"
proof -
  obtain dvs where dvs: "get_prop options ''dataViews'' = Inr dvs"
    using get_prop_defined [OF assms] by blast
  show ?thesis
  proof (cases "truthy dvs")
    case True
    obtain len where len: "get_prop dvs ''length'' = Inr len" using truthy_get_prop [OF True] by blast
    obtain dv where dv: "get_member dvs (JNumber (Fin 0)) = Inr dv"
      using True truthy_get_prop [OF True, of "''0''"] by (auto simp: get_member_def truthy_not_nullish)
    show ?thesis
    proof (cases "truthy dv")
      case True
      obtain md where "get_prop dv ''metadata'' = Inr md" using truthy_get_prop [OF True] by blast
      with True \<open>truthy dvs\<close> dvs len dv show ?thesis
        by (simp add: update_guard_def truthy_not_nullish)
    next
      case False
      with \<open>truthy dvs\<close> dvs len dv show ?thesis
        by (simp add: update_guard_def truthy_not_nullish)
    qed
  next
    case False
    with dvs show ?thesis by (simp add: update_guard_def)
  qed
qed

lemma update_guard_total_witness: "\<exists>r. update_guard demo_options = Inr r"
  using update_guard_total [of demo_options] by (simp add: demo_options_def)

text \<open>C29: Type preservation: when every property the host sets has the type the settings
  interface declares (lines 29--53), every setting after \<open>update\<close> has its declared type,
  whatever the visual held before.\<close>

lemma update_types:
  assumes "update_guard options = Inr (Some dv)" "get_prop dv ''metadata'' = Inr md"
    "get_prop md ''objects'' = Inr objs" "objects_typed objs"
  shows "settings_typed (fst (snd (Visual_update options this d)))"
  using update_result_settings [OF assms(1-3)] settings_from_typed [OF assms(4)] by simp

lemma update_types_witness: "settings_typed (fst (snd (Visual_update demo_options demo_visual demo_dom1)))"
  using update_types [OF demo_guard demo_metadata, of demo_visual demo_dom1]
  by (simp add: objects_typed_def declared_types_def demo_objects_def)

text \<open>C35: \<open>targetSeasonality == "manual"\<close> (line 182) is a loose comparison: a seasonality
  held as a one-element array \<open>[s]\<close> of a string is compared through ToPrimitive, so it
  counts as manual, and the \<open>freq\<close> instance is enumerated, exactly when \<open>s\<close> is \<open>manual\<close>.\<close>

lemma enumerate_array_seasonality:
  assumes "get_prop options ''objectName'' = Inr (JString ''settings_model_params'')"
    "targetSeasonality (settings_model_params this) = JArray a [JString s]"
    "Visual_enumerateObjectInstances options this = Inr xs"
  shows "length xs = (if s = ''manual'' then 2 else 1)"
  using assms by (auto simp: Visual_enumerateObjectInstances_def enum_model_params_def loose_eq_object_string
     is_object_def to_primitive_def Let_def split: if_splits sum.splits)

lemma enumerate_array_seasonality_witness:
  "length (projr (Visual_enumerateObjectInstances (demo_enum ''settings_model_params'')
     (demo_visual\<lparr>settings_model_params := \<lparr>modelType = JString ''automatic'',
        targetSeasonality = JArray 9 [JString ''manual''], freq = JNumber (Fin 7)\<rparr>\<rparr>))) = 2"
proof -
  define v where "v = demo_visual\<lparr>settings_model_params := \<lparr>modelType = JString ''automatic'',
        targetSeasonality = JArray 9 [JString ''manual''], freq = JNumber (Fin 7)\<rparr>\<rparr>"
  have e: "Visual_enumerateObjectInstances (demo_enum ''settings_model_params'') v =
      Inr (projr (Visual_enumerateObjectInstances (demo_enum ''settings_model_params'') v))"
    by (simp add: v_def Visual_enumerateObjectInstances_def enum_model_params_def demo_enum_get
      loose_eq_object_string is_object_def to_primitive_def Let_def inMinMax_numbers)
  show ?thesis
    using enumerate_array_seasonality [OF _ _ e, where a = 9 and s = "''manual''"]
    by (simp add: v_def demo_enum_get)
qed

end
