(* ===== verification/Visual_Bundle.thy ===== *)
theory Visual_Bundle
  imports Visual_Properties
begin

text \<open>
  The code the host actually loads: the compiled bundle \<open>src/.tmp/drop/visual.js\<close>.
  Its first module (lines 8--161) defines the helpers and exports them as
  properties of the namespace object \<open>PBI_CV_CAD60C71_FAD5_4B59_A498_A7FB0DDC7A2B\<close>
  (\<open>bundle_ns\<close>; \<open>module_ns\<close> is that object after the module has run). The
  second module (lines 197--346) compiles the class of \<open>visual.ts\<close>: its
  constructor, the guards, the image and \<open>onResizing\<close> are the TypeScript code
  with the types erased, and are modelled by the same definitions; \<open>update\<close>
  and \<open>enumerateObjectInstances\<close> call \<open>getValue\<close> and \<open>inMinMax\<close> through the
  namespace object at the time of the call, so a missing export is a TypeError
  there (\<open>ns_getValue_call\<close>, \<open>ns_inMinMax_call\<close>). A class is the record of
  its four methods (\<open>visual_class\<close>); \<open>source_class\<close> is the TypeScript class,
  \<open>bundle_class ns\<close> the compiled one over a namespace.
\<close>

record bundle_ns =
  ns_getValue :: "(jsval \<Rightarrow> string \<Rightarrow> string \<Rightarrow> jsval \<Rightarrow> js_error + jsval) option"
  ns_getValueMinMax ::
    "(jsval \<Rightarrow> string \<Rightarrow> string \<Rightarrow> jsval \<Rightarrow> jsval \<Rightarrow> jsval \<Rightarrow> js_error + jsval) option"
  ns_getValueNumberMinMax ::
    "(jsval \<Rightarrow> string \<Rightarrow> string \<Rightarrow> jsval \<Rightarrow> jsval \<Rightarrow> jsval \<Rightarrow> js_error + jsval) option"
  ns_ifStringReturnString ::
    "(jsval \<Rightarrow> jsval \<Rightarrow> jsval \<Rightarrow> jsval \<Rightarrow> jsval \<Rightarrow> jsval \<Rightarrow> js_error + jsval) option"
  ns_ifStringReturnStringClustersMethod :: "(jsval \<Rightarrow> jsval \<Rightarrow> js_error + jsval) option"
  ns_inMinMax :: "(jsval \<Rightarrow> jsval \<Rightarrow> jsval \<Rightarrow> js_error + jsval) option"
  ns_getCategoricalObjectValue ::
    "(jsval \<Rightarrow> jsval \<Rightarrow> string \<Rightarrow> string \<Rightarrow> jsval \<Rightarrow> js_error + jsval) option"
  ns_getFillValue :: "(jsval \<Rightarrow> string \<Rightarrow> string \<Rightarrow> jsval \<Rightarrow> js_error + jsval) option"

text \<open>The namespace object as created, \<open>visual.PBI_CV_... || {}\<close> (line 161).\<close>

definition empty_ns :: bundle_ns where
  "empty_ns =
     \<lparr>ns_getValue = None, ns_getValueMinMax = None, ns_getValueNumberMinMax = None,
      ns_ifStringReturnString = None, ns_ifStringReturnStringClustersMethod = None,
      ns_inMinMax = None, ns_getCategoricalObjectValue = None, ns_getFillValue = None\<rparr>"

text \<open>After the exports of lines 30, 58, 86, 104, 112, 120, 147 and 160.\<close>

definition module_ns :: bundle_ns where
  "module_ns =
     empty_ns\<lparr>ns_getValue := Some getValue, ns_getValueMinMax := Some getValueMinMax,
              ns_getValueNumberMinMax := Some getValueNumberMinMax,
              ns_ifStringReturnString := Some ifStringReturnString,
              ns_ifStringReturnStringClustersMethod := Some ifStringReturnStringClustersMethod,
              ns_inMinMax := Some inMinMax, ns_getCategoricalObjectValue := Some getCategoricalObjectValue,
              ns_getFillValue := Some getFillValue\<rparr>"

text \<open>\<open>PBI_CV_....getValue(...)\<close>: read the export, then call it.\<close>

definition ns_getValue_call :: "bundle_ns \<Rightarrow> jsval \<Rightarrow> string \<Rightarrow> string \<Rightarrow> jsval \<Rightarrow> js_error + jsval" where
  "ns_getValue_call ns objects g p d =
     (case ns_getValue ns of Some f \<Rightarrow> f objects g p d | None \<Rightarrow> Inl TypeError_NotCallable)"

definition ns_inMinMax_call :: "bundle_ns \<Rightarrow> jsval \<Rightarrow> jsval \<Rightarrow> jsval \<Rightarrow> js_error + jsval" where
  "ns_inMinMax_call ns a mi ma =
     (case ns_inMinMax ns of Some f \<Rightarrow> f a mi ma | None \<Rightarrow> Inl TypeError_NotCallable)"

subsection \<open>The compiled \<open>update\<close>\<close>

definition read_model_params_js :: "bundle_ns \<Rightarrow> jsval \<Rightarrow> js_error + Visual_settings_model_params" where
  "read_model_params_js ns objects =
     js_bind (ns_getValue_call ns objects ''settings_model_params'' ''modelType'' (JString ''automatic'')) (\<lambda>mt.
     js_bind (ns_getValue_call ns objects ''settings_model_params'' ''targetSeasonality''
                (JString ''autodetect from date'')) (\<lambda>ts.
     js_bind (ns_getValue_call ns objects ''settings_model_params'' ''freq'' (JNumber (Fin 12))) (\<lambda>fr.
     Inr \<lparr>modelType = mt, targetSeasonality = ts, freq = fr\<rparr>)))"

definition read_algo_params_js :: "bundle_ns \<Rightarrow> jsval \<Rightarrow> js_error + Visual_settings_algo_params" where
  "read_algo_params_js ns objects =
     js_bind (ns_getValue_call ns objects ''settings_algo_params'' ''degree'' (JBool False)) (\<lambda>dg.
     js_bind (ns_getValue_call ns objects ''settings_algo_params'' ''robustToOutliers'' (JBool True)) (\<lambda>ro.
     js_bind (ns_getValue_call ns objects ''settings_algo_params'' ''percentile'' (JNumber (Fin 50))) (\<lambda>pc.
     Inr \<lparr>degree = dg, robustToOutliers = ro, percentile = pc\<rparr>)))"

definition read_plot_params_js :: "bundle_ns \<Rightarrow> jsval \<Rightarrow> js_error + Visual_settings_plot_params" where
  "read_plot_params_js ns objects =
     js_bind (ns_getValue_call ns objects ''settings_plot_params'' ''plotType'' (JString ''all'')) (\<lambda>pt.
     js_bind (ns_getValue_call ns objects ''settings_plot_params'' ''weight'' (JNumber (Fin 10))) (\<lambda>wt.
     js_bind (ns_getValue_call ns objects ''settings_plot_params'' ''lineCol'' (JString ''red'')) (\<lambda>lc.
     js_bind (ns_getValue_call ns objects ''settings_plot_params'' ''labelsCol'' (JString ''orange'')) (\<lambda>lb.
     js_bind (ns_getValue_call ns objects ''settings_plot_params'' ''textSize'' (JNumber (Fin 10))) (\<lambda>ts.
     Inr \<lparr>plotType = pt, weight = wt, lineCol = lc, labelsCol = lb, plot_textSize = ts\<rparr>)))))"

definition read_extra_params_js :: "bundle_ns \<Rightarrow> jsval \<Rightarrow> js_error + Visual_settings_extra_params" where
  "read_extra_params_js ns objects =
     js_bind (ns_getValue_call ns objects ''settings_extra_params'' ''show'' (JBool True)) (\<lambda>sh.
     js_bind (ns_getValue_call ns objects ''settings_extra_params'' ''textSize'' (JNumber (Fin 10))) (\<lambda>ts.
     js_bind (ns_getValue_call ns objects ''settings_extra_params'' ''infoCol'' (JString ''brown'')) (\<lambda>ic.
     Inr \<lparr>extra_show = sh, extra_textSize = ts, infoCol = ic\<rparr>)))"

definition update_settings_js :: "bundle_ns \<Rightarrow> jsval \<Rightarrow> Visual \<Rightarrow> (js_error + unit) \<times> Visual" where
  "update_settings_js ns dataView this =
     (case js_bind (get_prop dataView ''metadata'') (\<lambda>m. get_prop m ''objects'') of
        Inl e \<Rightarrow> (Inl e, this)
      | Inr objects \<Rightarrow>
      (case read_model_params_js ns objects of Inl e \<Rightarrow> (Inl e, this) | Inr mp \<Rightarrow>
       let this1 = this\<lparr>settings_model_params := mp\<rparr> in
       case read_algo_params_js ns objects of Inl e \<Rightarrow> (Inl e, this1) | Inr ap \<Rightarrow>
       let this2 = this1\<lparr>settings_algo_params := ap\<rparr> in
       case read_plot_params_js ns objects of Inl e \<Rightarrow> (Inl e, this2) | Inr pp \<Rightarrow>
       let this3 = this2\<lparr>settings_plot_params := pp\<rparr> in
       case read_extra_params_js ns objects of Inl e \<Rightarrow> (Inl e, this3) | Inr ep \<Rightarrow>
       (Inr (), this3\<lparr>settings_extra_params := ep\<rparr>)))"

definition Visual_update_js :: "bundle_ns \<Rightarrow> jsval \<Rightarrow> Visual \<Rightarrow> dom \<Rightarrow> (js_error + unit) \<times> Visual \<times> dom" where
  "Visual_update_js ns options this d =
     (case update_guard options of
        Inl e \<Rightarrow> (Inl e, this, d)
      | Inr None \<Rightarrow> (Inr (), this, d)
      | Inr (Some dataView) \<Rightarrow>
        (case update_settings_js ns dataView this of
           (Inl e, this1) \<Rightarrow> (Inl e, this1, d)
         | (Inr _, this1) \<Rightarrow>
           (case update_image dataView this1 d of
              (Inl e, d1) \<Rightarrow> (Inl e, this1, d1)
            | (Inr _, d1) \<Rightarrow>
              (case get_prop options ''viewport'' of
                 Inl e \<Rightarrow> (Inl e, this1, d1)
               | Inr viewport \<Rightarrow>
                 (case Visual_onResizing viewport this1 d1 of (r, d2) \<Rightarrow> (r, this1, d2))))))"

subsection \<open>The compiled \<open>enumerateObjectInstances\<close>\<close>

definition enum_model_params_js ::
  "bundle_ns \<Rightarrow> jsval \<Rightarrow> Visual_settings_model_params \<Rightarrow> js_error + VisualObjectInstance list" where
  "enum_model_params_js ns name mp =
     (let base = \<lparr>objectName = name,
                  properties = [(''modelType'', modelType mp), (''targetSeasonality'', targetSeasonality mp)],
                  selector = JNull\<rparr>
      in js_bind (js_loose_eq (targetSeasonality mp) (JString ''manual'')) (\<lambda>manual.
           if manual then
             js_bind (ns_inMinMax_call ns (freq mp) (JNumber (Fin 1)) (JNumber (Fin 10000))) (\<lambda>f.
               Inr [base, \<lparr>objectName = name, properties = [(''freq'', f)], selector = JNull\<rparr>])
           else Inr [base]))"

definition enum_algo_params_js ::
  "bundle_ns \<Rightarrow> jsval \<Rightarrow> Visual_settings_algo_params \<Rightarrow> js_error + VisualObjectInstance list" where
  "enum_algo_params_js ns name ap =
     js_bind (ns_inMinMax_call ns (percentile ap) (JNumber (Fin 1)) (JNumber (Fin 100))) (\<lambda>pc.
       Inr [\<lparr>objectName = name,
             properties = [(''degree'', degree ap), (''robustToOutliers'', robustToOutliers ap),
                           (''percentile'', pc)],
             selector = JNull\<rparr>])"

definition enum_plot_params_js ::
  "bundle_ns \<Rightarrow> jsval \<Rightarrow> Visual_settings_plot_params \<Rightarrow> js_error + VisualObjectInstance list" where
  "enum_plot_params_js ns name pp =
     js_bind (ns_inMinMax_call ns (weight pp) (JNumber (Fin 1)) (JNumber (Fin 50))) (\<lambda>wt.
     js_bind (ns_inMinMax_call ns (plot_textSize pp) (JNumber (Fin 8)) (JNumber (Fin 40))) (\<lambda>ts.
       Inr [\<lparr>objectName = name,
             properties = [(''plotType'', plotType pp), (''weight'', wt), (''lineCol'', lineCol pp),
                           (''labelsCol'', labelsCol pp), (''textSize'', ts)],
             selector = JNull\<rparr>]))"

definition enum_extra_params_js ::
  "bundle_ns \<Rightarrow> jsval \<Rightarrow> Visual_settings_extra_params \<Rightarrow> js_error + VisualObjectInstance list" where
  "enum_extra_params_js ns name ep =
     js_bind (ns_inMinMax_call ns (extra_textSize ep) (JNumber (Fin 8)) (JNumber (Fin 40))) (\<lambda>ts.
       Inr [\<lparr>objectName = name,
             properties = [(''show'', extra_show ep), (''textSize'', ts), (''infoCol'', infoCol ep)],
             selector = JNull\<rparr>])"

definition Visual_enumerateObjectInstances_js ::
  "bundle_ns \<Rightarrow> jsval \<Rightarrow> Visual \<Rightarrow> js_error + VisualObjectInstance list" where
  "Visual_enumerateObjectInstances_js ns options this =
     js_bind (get_prop options ''objectName'') (\<lambda>name.
       if js_strict_eq name (JString ''settings_model_params'') then
         enum_model_params_js ns name (settings_model_params this)
       else if js_strict_eq name (JString ''settings_algo_params'') then
         enum_algo_params_js ns name (settings_algo_params this)
       else if js_strict_eq name (JString ''settings_plot_params'') then
         enum_plot_params_js ns name (settings_plot_params this)
       else if js_strict_eq name (JString ''settings_extra_params'') then
         enum_extra_params_js ns name (settings_extra_params this)
       else Inr [])"

subsection \<open>The two classes\<close>

record visual_class =
  cls_constructor :: "nat \<Rightarrow> dom \<Rightarrow> js_error + Visual \<times> dom"
  cls_update :: "jsval \<Rightarrow> Visual \<Rightarrow> dom \<Rightarrow> (js_error + unit) \<times> Visual \<times> dom"
  cls_onResizing :: "jsval \<Rightarrow> Visual \<Rightarrow> dom \<Rightarrow> (js_error + unit) \<times> dom"
  cls_enumerate :: "jsval \<Rightarrow> Visual \<Rightarrow> js_error + VisualObjectInstance list"

definition source_class :: visual_class where
  "source_class =
     \<lparr>cls_constructor = Visual_constructor, cls_update = Visual_update,
      cls_onResizing = Visual_onResizing, cls_enumerate = Visual_enumerateObjectInstances\<rparr>"

definition bundle_class :: "bundle_ns \<Rightarrow> visual_class" where
  "bundle_class ns =
     \<lparr>cls_constructor = Visual_constructor, cls_update = Visual_update_js ns,
      cls_onResizing = Visual_onResizing, cls_enumerate = Visual_enumerateObjectInstances_js ns\<rparr>"

subsection \<open>Lemmas\<close>

lemma ns_calls_export:
  "ns_getValue ns = Some getValue \<Longrightarrow> ns_getValue_call ns = getValue"
  "ns_inMinMax ns = Some inMinMax \<Longrightarrow> ns_inMinMax_call ns = inMinMax"
  by (simp_all add: ns_getValue_call_def ns_inMinMax_call_def fun_eq_iff)

lemma module_ns_exports: "ns_getValue module_ns = Some getValue" "ns_inMinMax module_ns = Some inMinMax"
  by (simp_all add: module_ns_def)

lemma read_params_js:
  assumes "ns_getValue_call ns = getValue"
  shows "read_model_params_js ns = read_model_params" "read_algo_params_js ns = read_algo_params"
    "read_plot_params_js ns = read_plot_params" "read_extra_params_js ns = read_extra_params"
  using assms
  by (simp_all add: fun_eq_iff read_model_params_js_def read_model_params_def read_algo_params_js_def
      read_algo_params_def read_plot_params_js_def read_plot_params_def read_extra_params_js_def
      read_extra_params_def)

lemma Visual_update_js_eq:
  assumes "ns_getValue_call ns = getValue"
  shows "Visual_update_js ns = Visual_update"
proof -
  have u: "update_settings_js ns = update_settings"
    by (intro ext) (unfold update_settings_js_def update_settings_def read_params_js [OF assms], rule refl)
  show ?thesis
    by (intro ext) (unfold Visual_update_js_def Visual_update_def u, rule refl)
qed

lemma enumerate_js_eq:
  assumes "ns_inMinMax_call ns = inMinMax"
  shows "Visual_enumerateObjectInstances_js ns = Visual_enumerateObjectInstances"
proof -
  have e: "enum_model_params_js ns = enum_model_params" "enum_algo_params_js ns = enum_algo_params"
    "enum_plot_params_js ns = enum_plot_params" "enum_extra_params_js ns = enum_extra_params"
    unfolding enum_model_params_js_def [abs_def] enum_model_params_def [abs_def] enum_algo_params_js_def [abs_def]
      enum_algo_params_def [abs_def] enum_plot_params_js_def [abs_def] enum_plot_params_def [abs_def]
      enum_extra_params_js_def [abs_def] enum_extra_params_def [abs_def] assms
    by (rule refl)+
  show ?thesis
    by (intro ext) (unfold Visual_enumerateObjectInstances_js_def Visual_enumerateObjectInstances_def e, rule refl)
qed

end
