(* ===== verification/Visual_Lifecycle.thy ===== *)
theory Visual_Lifecycle
  imports Visual_Properties
begin

text \<open>
  The host side of the plugin contract. \<open>visualPlugin.ts\<close> registers a
  descriptor whose \<open>create\<close> runs the constructor on the host's mount node;
  afterwards the host calls the visual's lifecycle methods one at a time, each
  running to completion, and keeps the visual and the DOM they leave, also when
  a method throws. \<open>host_step\<close> is one such call, \<open>reachable\<close> the states a
  mount followed by any sequence of calls can produce. The invariants: every
  setting of a reachable visual is defined, and the DOM keeps the shape the
  constructor built (container inside the mount node, image inside the
  container, class names as set).
\<close>

record plugin_descriptor =
  plugin_name :: string
  displayName :: string
  plugin_class :: string
  version :: string
  apiVersion :: string
  create :: "nat \<Rightarrow> dom \<Rightarrow> js_error + Visual \<times> dom"
  custom :: bool

definition visualPlugin :: plugin_descriptor where
  "visualPlugin =
     \<lparr>plugin_name = ''PBI_CV_CAD60C71_FAD5_4B59_A498_A7FB0DDC7A2B'',
      displayName = ''Time series decomposition'',
      plugin_class = ''Visual'',
      version = ''1.0.1'',
      apiVersion = ''1.3.0'',
      create = Visual_constructor,
      custom = True\<rparr>"

datatype host_event = Update jsval | Resize jsval | Enumerate jsval

datatype host_reply = Done | Instances "VisualObjectInstance list"

fun host_step :: "host_event \<Rightarrow> Visual \<times> dom \<Rightarrow> (js_error + host_reply) \<times> Visual \<times> dom" where
  "host_step (Update options) (v, d) =
     (case Visual_update options v d of (r, v', d') \<Rightarrow> (js_bind r (\<lambda>_. Inr Done), v', d'))"
| "host_step (Resize vp) (v, d) =
     (case Visual_onResizing vp v d of (r, d') \<Rightarrow> (js_bind r (\<lambda>_. Inr Done), v, d'))"
| "host_step (Enumerate options) (v, d) =
     (js_bind (Visual_enumerateObjectInstances options v) (\<lambda>xs. Inr (Instances xs)), v, d)"

fun run_events :: "host_event list \<Rightarrow> Visual \<times> dom \<Rightarrow> (js_error + host_reply) list \<times> Visual \<times> dom" where
  "run_events [] s = ([], s)"
| "run_events (e # es) s =
     (case host_step e s of (r, s') \<Rightarrow> (case run_events es s' of (rs, s'') \<Rightarrow> (r # rs, s'')))"

inductive reachable :: "nat \<Rightarrow> dom \<Rightarrow> Visual \<times> dom \<Rightarrow> bool" for el d0 where
  mount: "create visualPlugin el d0 = Inr (v, d1) \<Longrightarrow> reachable el d0 (v, d1)"
| step: "reachable el d0 s \<Longrightarrow> reachable el d0 (snd (host_step e s))"

definition settings_defined :: "Visual \<Rightarrow> bool" where
  "settings_defined v \<longleftrightarrow> list_all (\<lambda>(_, x). x \<noteq> JUndefined) (settings_table v)"

definition shape :: "dom \<Rightarrow> nat \<Rightarrow> (string \<times> string \<times> nat list) option" where
  "shape d n = map_option (\<lambda>x. (tagName x, className x, childNodes x)) (node_at d n)"

definition mounted :: "nat \<Rightarrow> Visual \<Rightarrow> dom \<Rightarrow> bool" where
  "mounted el v d \<longleftrightarrow>
     dom_wf d \<and>
     shape d (imageDiv v) = Some (''div'', ''rcv_autoScaleImageContainer'', [imageElement v]) \<and>
     shape d (imageElement v) = Some (''img'', ''rcv_autoScaleImage'', []) \<and>
     (case shape d el of Some (_, _, cs) \<Rightarrow> imageDiv v \<in> set cs | None \<Rightarrow> False)"

text \<open>
  A host call whose update, if it reads settings at all, reads host objects of
  the declared types.
\<close>

definition host_typed :: "host_event \<Rightarrow> bool" where
  "host_typed e =
     (case e of
        Update options \<Rightarrow>
          (case update_guard options of
             Inr (Some dv) \<Rightarrow>
               (case js_bind (get_prop dv ''metadata'') (\<lambda>m. get_prop m ''objects'') of
                  Inr objs \<Rightarrow> objects_typed objs
                | Inl _ \<Rightarrow> True)
           | _ \<Rightarrow> True)
      | _ \<Rightarrow> True)"

text \<open>An update payload carrying the image \<open>p\<close>, with metadata and a viewport.\<close>

definition payload_options :: "string \<Rightarrow> jsval" where
  "payload_options p =
     JObject 0 [(''dataViews'', JArray 1 [JObject 2 [(''metadata'', JObject 3 []),
                                                (''scriptResult'', JObject 4 [(''payloadBase64'', JString p)])]]),
                (''viewport'', JObject 5 [(''height'', JNumber (Fin 1)), (''width'', JNumber (Fin 1))])]"

subsection \<open>Lemmas\<close>

lemma run_events_reachable: "reachable el d0 s \<Longrightarrow> reachable el d0 (snd (run_events es s))"
proof (induction es arbitrary: s)
  case (Cons e es)
  obtain r s' where h: "host_step e s = (r, s')" by (cases "host_step e s")
  have "reachable el d0 s'" using reachable.step [OF Cons.prems, of e] h by simp
  then have "reachable el d0 (snd (run_events es s'))" by (rule Cons.IH)
  with h show ?case by (cases "run_events es s'") simp
qed simp

lemma update_settings_cases:
  "update_settings dv this = (r, this1) \<Longrightarrow> this1 = this \<or> (\<exists>objs. this1 = settings_from objs this)"
  by (auto simp: update_settings_def read_model_params_def read_algo_params_def read_plot_params_def
      read_extra_params_def getValue_setting settings_from_def split: sum.splits)

lemma Visual_update_visual:
  "Visual_update options this d = (r, this', d') \<Longrightarrow> this' = this \<or> (\<exists>objs. this' = settings_from objs this)"
  by (auto simp: Visual_update_def split: sum.splits option.splits prod.splits dest!: update_settings_cases)

lemma setting_defined: "dflt \<noteq> JUndefined \<Longrightarrow> setting objs g p dflt \<noteq> JUndefined"
  using js_path_defined [of objs "[g, p]"]
  by (auto simp: setting_def simp del: js_path.simps split: option.splits)

lemma settings_from_defined: "settings_defined (settings_from objs this)"
  by (simp add: settings_defined_def settings_table_def settings_from_def setting_defined)

lemma host_step_settings_defined:
  "settings_defined (fst s) \<Longrightarrow> settings_defined (fst (snd (host_step e s)))"
  by (cases e; cases s) (auto split: prod.split dest!: Visual_update_visual simp: settings_from_defined)

lemma shape_setters [simp]:
  "shape (set_src n v d) = shape d" "shape (set_style_height n v d) = shape d"
  "shape (set_style_width n v d) = shape d"
  by (rule ext; simp add: shape_def dom_setters_def option.map_comp comp_def)+

lemma setters_wf [simp]:
  "dom_wf (set_src n v d) = dom_wf d" "dom_wf (set_style_height n v d) = dom_wf d"
  "dom_wf (set_style_width n v d) = dom_wf d"
  by (simp_all add: dom_setters_def)

lemma update_image_shape:
  "update_image dv this d = (r, d') \<Longrightarrow> shape d' = shape d \<and> dom_wf d' = dom_wf d"
  by (auto simp: update_image_def split: sum.splits)

lemma onResizing_shape:
  "Visual_onResizing vp this d = (r, d') \<Longrightarrow> shape d' = shape d \<and> dom_wf d' = dom_wf d"
  by (auto simp: Visual_onResizing_def Let_def split: sum.splits)

lemma Visual_update_shape:
  "Visual_update options this d = (r, this', d') \<Longrightarrow>
   shape d' = shape d \<and> dom_wf d' = dom_wf d \<and> imageDiv this' = imageDiv this \<and> imageElement this' = imageElement this"
  by (auto simp: Visual_update_def split: sum.splits option.splits prod.splits
      dest!: update_settings_nodes update_image_shape onResizing_shape)

lemma mounted_cong:
  "mounted el v d \<Longrightarrow> shape d' = shape d \<Longrightarrow> dom_wf d' = dom_wf d \<Longrightarrow>
   imageDiv v' = imageDiv v \<Longrightarrow> imageElement v' = imageElement v \<Longrightarrow> mounted el v' d'"
  by (auto simp: mounted_def split: option.splits)

lemma host_step_mounted:
  assumes "mounted el (fst s) (snd s)"
  shows "mounted el (fst (snd (host_step e s))) (snd (snd (host_step e s)))"
proof -
  obtain v d where s: "s = (v, d)" by (cases s)
  show ?thesis
  proof (cases e)
    case (Update options)
    obtain r v' d' where u: "Visual_update options v d = (r, v', d')" by (cases "Visual_update options v d")
    from Visual_update_shape [OF u] assms show ?thesis
      by (auto simp: s Update u intro: mounted_cong)
  next
    case (Resize vp)
    obtain r d' where u: "Visual_onResizing vp v d = (r, d')" by (cases "Visual_onResizing vp v d")
    from onResizing_shape [OF u] assms show ?thesis
      by (auto simp: s Resize u intro: mounted_cong)
  qed (use assms s in simp)
qed

lemma constructor_wf:
  "dom_wf d0 \<Longrightarrow> Visual_constructor el d0 = Inr (v, d1) \<Longrightarrow> dom_wf d1"
  by (auto simp: Visual_constructor_def createElement_def set_className_def dom_wf_alloc
      dest!: appendChild_wf)

lemma constructor_mounted:
  assumes "dom_wf d0" "node_at d0 el \<noteq> None" "Visual_constructor el d0 = Inr (v, d1)"
  shows "mounted el v d1"
proof -
  have "el < next_node d0" using assms(1,2) by (simp add: dom_wf_def)
  then have el: "el \<noteq> next_node d0" "next_node d0 \<noteq> el" "el \<noteq> Suc (next_node d0)"
    "Suc (next_node d0) \<noteq> el" by simp_all
  have fresh: "node_at d0 (next_node d0) = None" "node_at d0 (Suc (next_node d0)) = None"
    using assms(1) by (auto simp: dom_wf_def)
  show ?thesis
    using assms(2,3) el fresh constructor_wf [OF assms(1,3)]
    by (auto simp: Visual_constructor_def createElement_def appendChild_def set_className_def mounted_def
      shape_def new_node_def split: if_splits)
qed

lemma host_step_nodes:
  "imageDiv (fst (snd (host_step e s))) = imageDiv (fst s) \<and>
   imageElement (fst (snd (host_step e s))) = imageElement (fst s)"
  by (cases e; cases s) (auto split: prod.split dest!: Visual_update_shape)

lemma Visual_update_settings_cases:
  assumes "Visual_update options this d = (r, this', d')"
  shows "this' = this \<or> (\<exists>dv md objs. update_guard options = Inr (Some dv) \<and>
           get_prop dv ''metadata'' = Inr md \<and> get_prop md ''objects'' = Inr objs \<and>
           this' = settings_from objs this)"
proof (cases "update_guard options")
  case (Inr g)
  show ?thesis
  proof (cases g)
    case (Some dv)
    then obtain md objs where m: "get_prop dv ''metadata'' = Inr md" "get_prop md ''objects'' = Inr objs"
      using update_guard_Some Inr by blast
    with update_result_settings [OF _ m, of options this d] Inr Some assms show ?thesis by auto
  qed (use Inr assms in \<open>simp add: Visual_update_def\<close>)
qed (use assms in \<open>simp add: Visual_update_def\<close>)

lemma host_step_typed:
  assumes "settings_typed (fst s)" "host_typed e"
  shows "settings_typed (fst (snd (host_step e s)))"
proof -
  obtain v d where s: "s = (v, d)" by (cases s)
  show ?thesis
  proof (cases e)
    case (Update options)
    obtain r v' d' where u: "Visual_update options v d = (r, v', d')" by (cases "Visual_update options v d")
    from Visual_update_settings_cases [OF u] assms show ?thesis
      by (auto simp: s Update u host_typed_def settings_from_typed)
  qed (use assms s in \<open>auto split: prod.split\<close>)
qed

lemma run_events_typed:
  "settings_typed (fst s) \<Longrightarrow> list_all host_typed es \<Longrightarrow> settings_typed (fst (snd (run_events es s)))"
proof (induction es arbitrary: s)
  case (Cons e es)
  obtain r s' where h: "host_step e s = (r, s')" by (cases "host_step e s")
  have "settings_typed (fst s')" using host_step_typed [OF Cons.prems(1), of e] Cons.prems(2) h by simp
  with Cons.IH [of s'] Cons.prems(2) h show ?case by (cases "run_events es s'") simp
qed simp

lemma constructor_typed: "Visual_constructor el d0 = Inr (v, d1) \<Longrightarrow> settings_typed v"
  using constructor_result [of el d0 v d1]
  by (simp add: settings_typed_def defaults_table_def declared_types_def)

lemma update_payload_src:
  assumes "node_at d (imageElement v) \<noteq> None" "p \<noteq> []"
  shows "node_src (snd (snd (Visual_update (payload_options p) v d))) (imageElement v) =
           Some (Some (''data:image/png;base64,'' @ p))"
proof -
  have g: "update_guard (payload_options p) =
      Inr (Some (JObject 2 [(''metadata'', JObject 3 []), (''scriptResult'', JObject 4 [(''payloadBase64'', JString p)])]))"
    by (simp add: update_guard_array_Cons payload_options_def has_metadata_def)
  have u: "image_url (JObject 2 [(''metadata'', JObject 3 []), (''scriptResult'', JObject 4 [(''payloadBase64'', JString p)])]) =
      Inr (JString (''data:image/png;base64,'' @ p))"
    using assms(2) by (simp add: image_url_def)
  obtain r v' d' where x: "Visual_update (payload_options p) v d = (r, v', d')"
    by (cases "Visual_update (payload_options p) v d")
  have "node_src d' (imageElement v) =
      node_src (set_src (imageElement v) (''data:image/png;base64,'' @ p) d) (imageElement v)"
    using update_src_after_image [OF g u _ x] by simp
  with assms(1) x show ?thesis by auto
qed

lemma run_events_append:
  "snd (run_events (es @ [e]) s) = snd (host_step e (snd (run_events es s)))"
proof (induction es arbitrary: s)
  case Nil
  then show ?case by (cases "host_step e s") simp
next
  case (Cons a es)
  obtain r s' where h: "host_step a s = (r, s')" by (cases "host_step a s")
  have c: "snd (run_events (a # xs) s) = snd (run_events xs s')" for xs
    using h by (cases "run_events xs s'") simp
  show ?case using Cons.IH [of s'] by (simp only: c append_Cons)
qed

lemma run_events_mounted:
  "mounted el (fst s) (snd s) \<Longrightarrow> mounted el (fst (snd (run_events es s))) (snd (snd (run_events es s)))"
proof (induction es arbitrary: s)
  case (Cons e es)
  obtain r s' where h: "host_step e s = (r, s')" by (cases "host_step e s")
  have "mounted el (fst s') (snd s')" using host_step_mounted [OF Cons.prems, of e] h by simp
  with Cons.IH [of s'] h show ?case by (cases "run_events es s'") simp
qed simp

lemma run_events_nodes:
  "imageElement (fst (snd (run_events es s))) = imageElement (fst s)"
proof (induction es arbitrary: s)
  case (Cons e es)
  obtain r s' where h: "host_step e s = (r, s')" by (cases "host_step e s")
  with Cons.IH [of s'] host_step_nodes [of e s] show ?case by (cases "run_events es s'") simp
qed simp

lemma host_step_Update_state: "snd (host_step (Update options) (v, d)) = snd (Visual_update options v d)"
  by (cases "Visual_update options v d") simp

lemma mounted_image: "mounted el v d \<Longrightarrow> node_at d (imageElement v) \<noteq> None"
  by (auto simp: mounted_def shape_def)

lemma demo_create: "create visualPlugin 0 demo_dom = Inr (demo_visual, demo_dom1)"
  by (simp add: visualPlugin_def demo_mount)

lemma demo_dom_wf: "dom_wf demo_dom"
  by (simp add: dom_wf_def demo_dom_def node_at_def)

lemma demo_dom_root: "node_at demo_dom 0 \<noteq> None"
  by (simp add: demo_dom_def node_at_def)

subsection \<open>Properties\<close>

text \<open>C4: In every state the host can reach (a mount, then any sequence of updates, resizes and
  enumerations, each possibly throwing), every one of the fourteen settings is defined: no
  setting is ever \<open>undefined\<close>.\<close>

lemma reachable_settings_defined:
  "reachable el d0 s \<Longrightarrow> settings_defined (fst s)"
proof (induction rule: reachable.induct)
  case (mount v d1)
  then show ?case
    using constructor_result [of el d0 v d1]
    by (simp add: visualPlugin_def settings_defined_def defaults_table_def)
next
  case (step s e)
  from step.IH show ?case by (rule host_step_settings_defined)
qed

lemma reachable_settings_defined_witness:
  "settings_defined (fst (snd (host_step (Update demo_options) (demo_visual, demo_dom1))))"
  by (rule reachable_settings_defined [OF reachable.step [OF reachable.mount [OF demo_create]]])

text \<open>C5: In every reachable state over a well-formed DOM with an existing mount node, the
  DOM has the shape the constructor built: the container (class
  \<open>rcv_autoScaleImageContainer\<close>) is a child of the mount node and has the image
  (class \<open>rcv_autoScaleImage\<close>) as its only child, and the store stays well formed.\<close>

lemma reachable_dom_shape:
  assumes "dom_wf d0" "node_at d0 el \<noteq> None" "reachable el d0 s"
  shows "mounted el (fst s) (snd s)"
  using assms(3)
proof (induction rule: reachable.induct)
  case (mount v d1)
  then show ?case
    using constructor_mounted [OF assms(1,2)] by (simp add: visualPlugin_def)
next
  case (step s e)
  from step.IH show ?case by (rule host_step_mounted)
qed

lemma reachable_dom_shape_witness:
  "mounted 0 (fst (snd (host_step (Resize demo_viewport) (demo_visual, demo_dom1))))
     (snd (snd (host_step (Resize demo_viewport) (demo_visual, demo_dom1))))"
  using reachable_dom_shape [OF demo_dom_wf demo_dom_root
      reachable.step [OF reachable.mount [OF demo_create], of "Resize demo_viewport"]]
  by simp

text \<open>C30: The visual never rebinds its nodes: in every reachable state the container and
  the image are the two nodes the constructor allocated, at the store's first free
  addresses at mount time.\<close>

lemma reachable_node_ids:
  "reachable el d0 s \<Longrightarrow> imageDiv (fst s) = next_node d0 \<and> imageElement (fst s) = Suc (next_node d0)"
proof (induction rule: reachable.induct)
  case (mount v d1)
  then show ?case using constructor_result [of el d0 v d1] by (simp add: visualPlugin_def)
next
  case (step s e)
  then show ?case using host_step_nodes [of e s] by simp
qed

lemma reachable_node_ids_witness:
  "imageDiv (fst (snd (host_step (Update demo_options) (demo_visual, demo_dom1)))) = 1 \<and>
   imageElement (fst (snd (host_step (Update demo_options) (demo_visual, demo_dom1)))) = 2"
  using reachable_node_ids [OF reachable.step [OF reachable.mount [OF demo_create], of "Update demo_options"]]
  by (simp add: demo_dom_def)

text \<open>C31: Type safety of the lifecycle: after mounting, any sequence of host calls whose
  updates carry host objects of the declared types leaves every setting with the type its
  interface declares, whatever the calls throw.\<close>

theorem run_events_settings_typed:
  "create visualPlugin el d0 = Inr (v, d1) \<Longrightarrow> list_all host_typed es \<Longrightarrow>
   settings_typed (fst (snd (run_events es (v, d1))))"
  using run_events_typed constructor_typed by (simp add: visualPlugin_def)

lemma run_events_settings_typed_witness:
  "settings_typed (fst (snd (run_events [Update demo_options, Resize demo_viewport,
      Enumerate (demo_enum ''settings_model_params'')] (demo_visual, demo_dom1))))"
  using run_events_settings_typed [OF demo_create, of "[Update demo_options, Resize demo_viewport,
      Enumerate (demo_enum ''settings_model_params'')]"]
  by (simp add: host_typed_def demo_guard demo_metadata objects_typed_def declared_types_def demo_objects_def)

text \<open>C32: The visual can always be brought to show any image: after a mount and any
  sequence of host calls (whatever they threw), one update carrying a non-empty payload
  makes the image element's source that payload's data URI.\<close>

theorem any_image_reachable:
  assumes "dom_wf d0" "node_at d0 el \<noteq> None" "create visualPlugin el d0 = Inr (v, d1)" "p \<noteq> []"
  shows "node_src (snd (snd (run_events (es @ [Update (payload_options p)]) (v, d1)))) (imageElement v) =
           Some (Some (''data:image/png;base64,'' @ p))"
proof -
  obtain v' d' where s: "snd (run_events es (v, d1)) = (v', d')" by (cases "snd (run_events es (v, d1))")
  have "mounted el v d1" using constructor_mounted [OF assms(1,2)] assms(3) by (simp add: visualPlugin_def)
  from run_events_mounted [of el "(v, d1)" es, OF _] this s have "mounted el v' d'" by simp
  moreover have "imageElement v' = imageElement v" using run_events_nodes [of es "(v, d1)"] s by simp
  ultimately have nd: "node_at d' (imageElement v') \<noteq> None" and ie: "imageElement v' = imageElement v"
    using mounted_image by blast+
  have "snd (run_events (es @ [Update (payload_options p)]) (v, d1)) = snd (Visual_update (payload_options p) v' d')"
    by (simp only: run_events_append s host_step_Update_state)
  then show ?thesis
    using update_payload_src [OF nd assms(4)] ie by simp
qed

lemma any_image_reachable_witness:
  "node_src (snd (snd (run_events ([Resize demo_viewport] @ [Update (payload_options ''AAAA'')])
     (demo_visual, demo_dom1)))) 2 = Some (Some ''data:image/png;base64,AAAA'')"
  using any_image_reachable [OF demo_dom_wf demo_dom_root demo_create, of "''AAAA''" "[Resize demo_viewport]"]
  by (simp add: demo_visual_def)

end
