(* ===== verification/Module_Loader.thy ===== *)
theory Module_Loader
  imports JS_Heap Visual_Bundle Visual_Lifecycle
begin

text \<open>
  The module wrappers of \<open>src/.tmp/drop/visual.js\<close>: the file is three scripts
  that run one after the other in the page's global scope and meet only through
  the objects they find there. Each script enters a namespace path with the idiom
  \<open>x = p.x || (p.x = {})\<close> (\<open>ns_merge\<close>, \<open>enter_path\<close>): the helper module
  (\<open>load_utils\<close>, lines 1--164) and the class module (\<open>load_class\<close>, lines
  190--349) both enter \<open>powerbi.extensibility.visual.PBI_CV_...\<close>, the plugin
  module (\<open>load_plugin\<close>, lines 350--367) enters \<open>powerbi.visuals.plugins\<close> and
  registers the descriptor there. At call time the class reads its helpers from
  the namespace object it captured (\<open>bundle_ns_of\<close>) and the descriptor's
  \<open>create\<close> resolves the class from the global object (\<open>plugin_create\<close>).
\<close>

definition visual_ns_path :: "string list" where
  "visual_ns_path = [''powerbi'', ''extensibility'', ''visual'', ''PBI_CV_CAD60C71_FAD5_4B59_A498_A7FB0DDC7A2B'']"

definition plugins_path :: "string list" where
  "plugins_path = [''powerbi'', ''visuals'', ''plugins'']"

text \<open>The helpers the first module declares and exports, in the order of the source.\<close>

definition helper_names :: "string list" where
  "helper_names =
     [''getValue'', ''getValueMinMax'', ''getValueNumberMinMax'', ''ifStringReturnString'',
      ''ifStringReturnStringClustersMethod'', ''inMinMax'', ''getCategoricalObjectValue'', ''getFillValue'']"

text \<open>
  \<open>p.name || (p.name = {})\<close>: the argument of each wrapper function (lines 161--164,
  346--349, 365--367), evaluated before the wrapper's body.
\<close>

definition ns_merge :: "hval \<Rightarrow> string \<Rightarrow> heap \<Rightarrow> js_error + hval \<times> heap" where
  "ns_merge parent name h =
     js_bind (get_field parent name h) (\<lambda>v.
       if h_truthy v then Inr (v, h)
       else (case alloc None h of (r, h1) \<Rightarrow>
               js_bind (set_field parent name (HRef r) h1) (\<lambda>h2. Inr (HRef r, h2))))"

primrec enter_path :: "hval \<Rightarrow> string list \<Rightarrow> heap \<Rightarrow> js_error + hval \<times> heap" where
  "enter_path p [] h = Inr (p, h)"
| "enter_path p (n # ns) h = js_bind (ns_merge p n h) (\<lambda>(q, h1). enter_path q ns h1)"

text \<open>Function declarations, hoisted to the start of their scope: one function object each.\<close>

primrec alloc_functions :: "string list \<Rightarrow> heap \<Rightarrow> (string \<times> hval) list \<times> heap" where
  "alloc_functions [] h = ([], h)"
| "alloc_functions (n # ns) h =
     (case alloc (Some n) h of (r, h1) \<Rightarrow>
        (case alloc_functions ns h1 of (fs, h2) \<Rightarrow> ((n, HRef r) # fs, h2)))"

text \<open>Assignments \<open>p.n1 = x1; p.n2 = x2; ...\<close> in order.\<close>

primrec set_fields :: "hval \<Rightarrow> (string \<times> hval) list \<Rightarrow> heap \<Rightarrow> js_error + heap" where
  "set_fields p [] h = Inr h"
| "set_fields p (nx # nxs) h = js_bind (set_field p (fst nx) (snd nx) h) (set_fields p nxs)"

text \<open>Lines 1--164: enter the namespace, declare the eight helpers, export them (lines 30--160).\<close>

definition load_utils :: "heap \<Rightarrow> js_error + heap" where
  "load_utils h =
     js_bind (enter_path (HRef 0) visual_ns_path h) (\<lambda>(ns, h1).
       case alloc_functions helper_names h1 of (fs, h2) \<Rightarrow> set_fields ns fs h2)"

text \<open>
  \<open>function Visual(options) {...}\<close> (line 199): a function object with a fresh
  prototype object whose \<open>constructor\<close> is the function; and
  \<open>Visual.prototype.m = function (...) {...}\<close> (lines 229, 276, 280).
\<close>

definition new_class :: "string \<Rightarrow> heap \<Rightarrow> js_error + hval \<times> heap" where
  "new_class c h =
     (case alloc (Some c) h of (f, h1) \<Rightarrow>
      case alloc None h1 of (p, h2) \<Rightarrow>
      js_bind (set_field (HRef f) ''prototype'' (HRef p) h2) (\<lambda>h3.
      js_bind (set_field (HRef p) ''constructor'' (HRef f) h3) (\<lambda>h4. Inr (HRef f, h4))))"

definition def_method :: "hval \<Rightarrow> string \<Rightarrow> string \<Rightarrow> heap \<Rightarrow> js_error + heap" where
  "def_method cls m c h =
     js_bind (get_field cls ''prototype'' h) (\<lambda>proto.
       case alloc (Some c) h of (f, h1) \<Rightarrow> set_field proto m (HRef f) h1)"

text \<open>
  Lines 190--349: enter the namespace, build the class (lines 198--344), export it
  (line 345). The result keeps the namespace object the class's methods captured.
\<close>

definition load_class :: "heap \<Rightarrow> js_error + hval \<times> heap" where
  "load_class h =
     js_bind (enter_path (HRef 0) visual_ns_path h) (\<lambda>(ns, h1).
     js_bind (new_class ''Visual'' h1) (\<lambda>(cls, h2).
     js_bind (def_method cls ''update'' ''Visual.update'' h2) (\<lambda>h3.
     js_bind (def_method cls ''onResizing'' ''Visual.onResizing'' h3) (\<lambda>h4.
     js_bind (def_method cls ''enumerateObjectInstances'' ''Visual.enumerateObjectInstances'' h4) (\<lambda>h5.
     js_bind (set_field ns ''Visual'' cls h5) (\<lambda>h6. Inr (ns, h6)))))))"

text \<open>Lines 356--364: the descriptor literal, its properties evaluated in order.\<close>

definition plugin_literal :: "heap \<Rightarrow> js_error + hval \<times> heap" where
  "plugin_literal h =
     (case alloc None h of (d, h1) \<Rightarrow>
      js_bind (set_fields (HRef d)
        [(''name'', HStr ''PBI_CV_CAD60C71_FAD5_4B59_A498_A7FB0DDC7A2B''),
         (''displayName'', HStr ''Time series decomposition''), (''class'', HStr ''Visual''),
         (''version'', HStr ''1.0.1''), (''apiVersion'', HStr ''1.3.0'')] h1) (\<lambda>h2.
      case alloc (Some ''create'') h2 of (c, h3) \<Rightarrow>
      js_bind (set_fields (HRef d) [(''create'', HRef c), (''custom'', HBool True)] h3) (\<lambda>h4.
      Inr (HRef d, h4))))"

text \<open>
  Lines 350--367: enter \<open>powerbi.visuals.plugins\<close>, then
  \<open>plugins.PBI_CV_... = {...}\<close>: the target object is evaluated before the literal.
\<close>

definition load_plugin :: "heap \<Rightarrow> js_error + heap" where
  "load_plugin h =
     js_bind (enter_path (HRef 0) plugins_path h) (\<lambda>(pl, h1).
     js_bind (plugin_literal h1) (\<lambda>(d, h2).
     set_field pl ''PBI_CV_CAD60C71_FAD5_4B59_A498_A7FB0DDC7A2B'' d h2))"

text \<open>The whole file, in order; the result keeps the class's namespace object.\<close>

definition load_bundle :: "heap \<Rightarrow> js_error + hval \<times> heap" where
  "load_bundle h =
     js_bind (load_utils h) (\<lambda>h1.
     js_bind (load_class h1) (\<lambda>(ns, h2).
     js_bind (load_plugin h2) (\<lambda>h3. Inr (ns, h3))))"

text \<open>
  At call time: an export is usable when the namespace property holds the function
  object of that helper; any value that is not a function makes the call a
  TypeError. (A property holding some other function would run other code, which
  is not modelled.)
\<close>

definition export_of :: "heap \<Rightarrow> hval \<Rightarrow> string \<Rightarrow> 'f \<Rightarrow> 'f option" where
  "export_of h ns n f = (if fun_at h ns n = Some n then Some f else None)"

definition bundle_ns_of :: "heap \<Rightarrow> hval \<Rightarrow> bundle_ns" where
  "bundle_ns_of h ns =
     \<lparr>ns_getValue = export_of h ns ''getValue'' getValue,
      ns_getValueMinMax = export_of h ns ''getValueMinMax'' getValueMinMax,
      ns_getValueNumberMinMax = export_of h ns ''getValueNumberMinMax'' getValueNumberMinMax,
      ns_ifStringReturnString = export_of h ns ''ifStringReturnString'' ifStringReturnString,
      ns_ifStringReturnStringClustersMethod =
        export_of h ns ''ifStringReturnStringClustersMethod'' ifStringReturnStringClustersMethod,
      ns_inMinMax = export_of h ns ''inMinMax'' inMinMax,
      ns_getCategoricalObjectValue = export_of h ns ''getCategoricalObjectValue'' getCategoricalObjectValue,
      ns_getFillValue = export_of h ns ''getFillValue'' getFillValue\<rparr>"

text \<open>
  Line 362: \<open>new powerbi.extensibility.visual.PBI_CV_....Visual(options)\<close>, the
  path read from the global object when the host calls \<open>create\<close>; \<open>new\<close> on a
  value that is not the class is a TypeError.
\<close>

definition plugin_create :: "heap \<Rightarrow> nat \<Rightarrow> dom \<Rightarrow> js_error + Visual \<times> dom" where
  "plugin_create h el d =
     js_bind (read_path (HRef 0) (visual_ns_path @ [''Visual'']) h) (\<lambda>c.
       case c of
         HRef f \<Rightarrow> if fcode (obj_at h f) = Some ''Visual'' then Visual_constructor el d
                   else Inl TypeError_NotCallable
       | _ \<Rightarrow> Inl TypeError_NotCallable)"

text \<open>The descriptor the host finds at \<open>powerbi.visuals.plugins.PBI_CV_...\<close>.\<close>

definition str_at :: "heap \<Rightarrow> hval \<Rightarrow> string \<Rightarrow> string option" where
  "str_at h v n = (case get_field v n h of Inr (HStr s) \<Rightarrow> Some s | _ \<Rightarrow> None)"

definition descriptor_at :: "heap \<Rightarrow> hval \<Rightarrow> plugin_descriptor option" where
  "descriptor_at h d =
     (case (str_at h d ''name'', str_at h d ''displayName'', str_at h d ''class'',
            str_at h d ''version'', str_at h d ''apiVersion'', get_field d ''custom'' h) of
        (Some n, Some dn, Some c, Some v, Some a, Inr (HBool cu)) \<Rightarrow>
          if fun_at h d ''create'' = Some ''create'' then
            Some \<lparr>plugin_name = n, displayName = dn, plugin_class = c, version = v,
                  apiVersion = a, create = plugin_create h, custom = cu\<rparr>
          else None
      | _ \<Rightarrow> None)"

definition registered_plugin :: "heap \<Rightarrow> plugin_descriptor option" where
  "registered_plugin h =
     (case read_path (HRef 0) (plugins_path @ [''PBI_CV_CAD60C71_FAD5_4B59_A498_A7FB0DDC7A2B'']) h of
        Inr d \<Rightarrow> descriptor_at h d
      | Inl _ \<Rightarrow> None)"

text \<open>
  The host has not made \<open>powerbi.visuals.plugins\<close> the same object as
  \<open>powerbi.extensibility.visual\<close>, where registering the plugin would overwrite
  the namespace object; a page the bundle can load into also has a well-formed
  heap and both namespace paths clear.
\<close>

definition paths_apart :: "heap \<Rightarrow> bool" where
  "paths_apart h \<longleftrightarrow>
     (case (read_path (HRef 0) (butlast visual_ns_path) h, read_path (HRef 0) plugins_path h) of
        (Inr (HRef v), Inr (HRef p)) \<Rightarrow> v \<noteq> p
      | _ \<Rightarrow> True)"

text \<open>The property names the bundle assigns, on any object.\<close>

definition loader_names :: "string set" where
  "loader_names =
     set visual_ns_path \<union> set plugins_path \<union> set helper_names \<union>
     {''prototype'', ''constructor'', ''update'', ''onResizing'', ''enumerateObjectInstances'', ''Visual'',
      ''name'', ''displayName'', ''class'', ''version'', ''apiVersion'', ''create'', ''custom''}"

definition page_ok :: "heap \<Rightarrow> bool" where
  "page_ok h \<longleftrightarrow>
     heap_wf h \<and> path_clear (HRef 0) visual_ns_path h \<and> path_clear (HRef 0) plugins_path h \<and> paths_apart h"


subsection \<open>Example pages\<close>

text \<open>
  A page with only the host's global object; a page where the host already has
  \<open>powerbi.visuals.plugins\<close> with another plugin registered and an empty
  \<open>powerbi.extensibility\<close>; and a page whose \<open>powerbi.visuals.plugins\<close> is the
  object \<open>powerbi.extensibility.visual\<close>.
\<close>

definition blank_page :: heap where
  "blank_page = [\<lparr>props = [(''document'', HStr ''page'')], fcode = None\<rparr>]"

definition host_page :: heap where
  "host_page =
     [\<lparr>props = [(''document'', HStr ''page''), (''powerbi'', HRef 1)], fcode = None\<rparr>,
      \<lparr>props = [(''visuals'', HRef 2), (''extensibility'', HRef 4)], fcode = None\<rparr>,
      \<lparr>props = [(''plugins'', HRef 3)], fcode = None\<rparr>,
      \<lparr>props = [(''OTHER_VISUAL'', HStr ''registered'')], fcode = None\<rparr>,
      \<lparr>props = [], fcode = None\<rparr>]"

definition alias_page :: heap where
  "alias_page =
     [\<lparr>props = [(''powerbi'', HRef 1)], fcode = None\<rparr>,
      \<lparr>props = [(''extensibility'', HRef 2), (''visuals'', HRef 3)], fcode = None\<rparr>,
      \<lparr>props = [(''visual'', HRef 4)], fcode = None\<rparr>,
      \<lparr>props = [(''plugins'', HRef 4)], fcode = None\<rparr>,
      \<lparr>props = [], fcode = None\<rparr>]"

subsection \<open>Lemmas\<close>

lemma ns_merge_clear:
  assumes wf: "heap_wf h" and r: "r < length h" and clear: "path_clear (HRef r) (n # ns) h"
  shows "\<exists>q h1. ns_merge (HRef r) n h = Inr (HRef q, h1) \<and> heap_wf h1 \<and> heap_ext {n} h h1 \<and>
           get_field (HRef r) n h1 = Inr (HRef q) \<and> q < length h1 \<and>
           (get_field (HRef r) n h = Inr (HRef q) \<and> h1 = h \<or> length h \<le> q)"
proof -
  obtain v where v: "get_field (HRef r) n h = Inr v" by simp
  show ?thesis
  proof (cases "h_truthy v")
    case True
    with clear v obtain q where q: "v = HRef q" by (cases v) auto
    have "ref_ok h v" using wf v by (rule get_field_ref_ok)
    with True v q wf show ?thesis by (auto simp: ns_merge_def)
  next
    case False
    obtain h1 where a: "alloc None h = (length h, h1)" and h1: "h1 = h @ [\<lparr>props = [], fcode = None\<rparr>]"
      by (simp add: alloc_def)
    have wf1: "heap_wf h1" using wf a by (rule heap_wf_alloc)
    obtain h2 where s: "set_field (HRef r) n (HRef (length h)) h1 = Inr h2" by simp
    have wf2: "heap_wf h2" using wf1 _ s by (rule heap_wf_set_field) (simp add: h1)
    have ext: "heap_ext {n} h h2"
      using heap_ext_trans [OF heap_ext_alloc [OF a] heap_ext_set_field [OF s]] by simp
    have g: "get_field (HRef r) n h2 = Inr (HRef (length h))"
      using _ s by (rule get_field_set_same) (use r in \<open>simp add: h1\<close>)
    have "length h2 = Suc (length h)" using length_set_field [OF s] h1 by simp
    with False v a s wf2 ext g show ?thesis by (auto simp: ns_merge_def)
  qed
qed

lemma enter_path_clear:
  "heap_wf h \<Longrightarrow> r < length h \<Longrightarrow> path_clear (HRef r) ns h \<Longrightarrow> distinct ns \<Longrightarrow>
   \<exists>q h'. enter_path (HRef r) ns h = Inr (HRef q, h') \<and> heap_wf h' \<and> heap_ext (set ns) h h' \<and>
     read_path (HRef r) ns h' = Inr (HRef q) \<and> q < length h' \<and>
     (read_path (HRef r) ns h = Inr (HRef q) \<and> h' = h \<or> length h \<le> q)"
proof (induction ns arbitrary: r h)
  case Nil
  then show ?case by auto
next
  case (Cons n ns)
  obtain q1 h1 where m: "ns_merge (HRef r) n h = Inr (HRef q1, h1)" and wf1: "heap_wf h1"
    and ext1: "heap_ext {n} h h1" and g1: "get_field (HRef r) n h1 = Inr (HRef q1)" and q1: "q1 < length h1"
    and st1: "get_field (HRef r) n h = Inr (HRef q1) \<and> h1 = h \<or> length h \<le> q1"
    using ns_merge_clear [OF Cons.prems(1-3)] by blast
  have n: "n \<notin> set ns" using Cons.prems(4) by simp
  have clear1: "path_clear (HRef q1) ns h1"
    using st1 Cons.prems(3) path_clear_fresh [OF ext1, of q1 ns] n by auto
  obtain q h' where e: "enter_path (HRef q1) ns h1 = Inr (HRef q, h')" and wf': "heap_wf h'"
    and ext: "heap_ext (set ns) h1 h'" and rd: "read_path (HRef q1) ns h' = Inr (HRef q)"
    and q: "q < length h'" and st: "read_path (HRef q1) ns h1 = Inr (HRef q) \<and> h' = h1 \<or> length h1 \<le> q"
    using Cons.IH [OF wf1 q1 clear1] Cons.prems(4) by auto
  have g': "get_field (HRef r) n h' = Inr (HRef q1)"
    using get_field_ext [OF ext n] g1 by simp
  have len: "length h \<le> length h1" using ext1 by (simp add: heap_ext_def)
  have fresh_read: "length h \<le> q1 \<Longrightarrow> read_path (HRef q1) ns h1 = Inr (HRef q) \<Longrightarrow> ns = []"
    using read_path_fresh [OF ext1, of q1] n by (cases ns) auto
  have "read_path (HRef r) (n # ns) h = Inr (HRef q) \<and> h' = h \<or> length h \<le> q"
  proof (cases "length h \<le> q1")
    case True
    show ?thesis
    proof (cases "length h1 \<le> q")
      case False
      with st have "read_path (HRef q1) ns h1 = Inr (HRef q)" by simp
      with fresh_read [OF True] have "q = q1" by simp
      with True show ?thesis by simp
    qed (use len in simp)
  next
    case False
    with st1 have old: "get_field (HRef r) n h = Inr (HRef q1)" "h1 = h" by simp_all
    from st show ?thesis
    proof
      assume "read_path (HRef q1) ns h1 = Inr (HRef q) \<and> h' = h1"
      with old show ?thesis by simp
    qed (use len in simp)
  qed
  moreover have "heap_ext (set (n # ns)) h h'"
    using heap_ext_trans [OF ext1 ext] by simp
  moreover have "enter_path (HRef r) (n # ns) h = Inr (HRef q, h')" using m e by simp
  moreover have "read_path (HRef r) (n # ns) h' = Inr (HRef q)" using g' rd by simp
  ultimately show ?case using wf' q by blast
qed

lemma enter_path_resolved: "read_path p ns h = Inr (HRef q) \<Longrightarrow> enter_path p ns h = Inr (HRef q, h)"
proof (induction ns arbitrary: p)
  case (Cons n ns)
  then obtain v where v: "get_field p n h = Inr v" "read_path v ns h = Inr (HRef q)" by auto
  have "h_truthy v" using v(2) by (rule read_path_truthy)
  with v Cons.IH [OF v(2)] show ?case by (simp add: ns_merge_def)
qed simp

lemma enter_path_append:
  "enter_path p (xs @ ys) h = js_bind (enter_path p xs h) (\<lambda>(q, h1). enter_path q ys h1)"
  by (induction xs arbitrary: p h) (simp_all add: js_bind_assoc split_def)

lemma path_clear_prefix: "path_clear p (xs @ ys) h \<Longrightarrow> path_clear p xs h"
  by (induction xs arbitrary: p) (auto split: sum.splits hval.splits)

lemma alloc_functions_spec:
  "alloc_functions ns h = (fs, h') \<Longrightarrow>
   map fst fs = ns \<and> heap_ext {} h h' \<and> (heap_wf h \<longrightarrow> heap_wf h') \<and>
   (\<forall>nv \<in> set fs. \<exists>f. snd nv = HRef f \<and> length h \<le> f \<and> f < length h' \<and> fcode (obj_at h' f) = Some (fst nv))"
proof (induction ns arbitrary: h fs h')
  case (Cons n ns)
  obtain h1 where a: "alloc (Some n) h = (length h, h1)" and h1: "h1 = h @ [\<lparr>props = [], fcode = Some n\<rparr>]"
    by (simp add: alloc_def)
  obtain fs' where r: "alloc_functions ns h1 = (fs', h')" and fs: "fs = (n, HRef (length h)) # fs'"
    using Cons.prems a by (auto split: prod.splits)
  note IH = Cons.IH [OF r]
  have ext1: "heap_ext {} h h1" using a by (rule heap_ext_alloc)
  have "\<forall>s < length h1. fcode (obj_at h' s) = fcode (obj_at h1 s)"
    using IH by (simp add: heap_ext_def)
  then have "fcode (obj_at h' (length h)) = fcode (obj_at h1 (length h))" using h1 by simp
  also have "\<dots> = Some n" using h1 by (simp add: obj_at_def)
  finally have "fcode (obj_at h' (length h)) = Some n" .
  moreover have "length h1 \<le> length h'" using IH by (simp add: heap_ext_def)
  ultimately show ?case
    using IH fs h1 heap_ext_trans [OF ext1] heap_wf_alloc [OF _ a] by force
qed auto

lemma set_fields_spec:
  "heap_wf h \<Longrightarrow> r < length h \<Longrightarrow> \<forall>nv \<in> set fs. ref_ok h (snd nv) \<Longrightarrow> distinct (map fst fs) \<Longrightarrow>
   \<exists>h'. set_fields (HRef r) fs h = Inr h' \<and> heap_wf h' \<and> heap_ext (fst ` set fs) h h' \<and>
     length h' = length h \<and> (\<forall>nv \<in> set fs. get_field (HRef r) (fst nv) h' = Inr (snd nv))"
proof (induction fs arbitrary: h)
  case (Cons nx fs)
  obtain n x where nx: "nx = (n, x)" by force
  obtain h1 where s: "set_field (HRef r) n x h = Inr h1" by simp
  have len1: "length h1 = length h" using s by (rule length_set_field)
  have wf1: "heap_wf h1" using Cons.prems(1) _ s by (rule heap_wf_set_field) (use Cons.prems(3) nx in simp)
  have g1: "get_field (HRef r) n h1 = Inr x" using Cons.prems(2) s by (rule get_field_set_same)
  have "\<forall>nv \<in> set fs. ref_ok h1 (snd nv)" using Cons.prems(3) by (simp add: ref_ok_cong [OF len1])
  then obtain h' where s': "set_fields (HRef r) fs h1 = Inr h'" and wf': "heap_wf h'"
    and ext: "heap_ext (fst ` set fs) h1 h'" and len: "length h' = length h1"
    and gs: "\<forall>nv \<in> set fs. get_field (HRef r) (fst nv) h' = Inr (snd nv)"
    using Cons.IH [OF wf1] Cons.prems(2,4) len1 by auto
  have "n \<notin> fst ` set fs" using Cons.prems(4) nx by simp
  then have "get_field (HRef r) n h' = Inr x" using get_field_ext [OF ext, of n "HRef r"] g1 by argo
  moreover have "heap_ext (fst ` set (nx # fs)) h h'"
    using heap_ext_trans [OF heap_ext_set_field [OF s] ext] nx by simp
  ultimately show ?case using s s' wf' len len1 gs nx by auto
qed auto

lemma set_fields_ext: "set_fields p fs h = Inr h' \<Longrightarrow> heap_ext (fst ` set fs) h h'"
proof (induction fs arbitrary: h)
  case (Cons nx fs)
  then obtain h1 where s: "set_field p (fst nx) (snd nx) h = Inr h1" and r: "set_fields p fs h1 = Inr h'"
    by (auto split: sum.splits)
  show ?case using heap_ext_trans [OF heap_ext_set_field [OF s] Cons.IH [OF r]] by simp
qed auto

lemma heap_keep_set_fields_fresh:
  "heap_keep E h h1 \<Longrightarrow> set_fields (HRef r) fs h1 = Inr h2 \<Longrightarrow> length h \<le> r \<Longrightarrow> heap_keep E h h2"
proof (induction fs arbitrary: h1)
  case (Cons nx fs)
  then obtain h3 where s: "set_field (HRef r) (fst nx) (snd nx) h1 = Inr h3" and t: "set_fields (HRef r) fs h3 = Inr h2"
    by (auto split: sum.splits)
  show ?case using Cons.IH [OF heap_keep_set_fresh [OF Cons.prems(1) s Cons.prems(3)] t Cons.prems(3)] .
qed auto

lemma ns_merge_keep: "ns_merge p n h = Inr (q, h') \<Longrightarrow> heap_keep {} h h'"
proof -
  assume m: "ns_merge p n h = Inr (q, h')"
  obtain v where g: "get_field p n h = Inr v"
    using m by (cases "get_field p n h") (auto simp: ns_merge_def)
  show ?thesis
  proof (cases "h_truthy v")
    case True
    with m g show ?thesis by (simp add: ns_merge_def heap_keep_def)
  next
    case False
    obtain h1 where a: "alloc None h = (length h, h1)" by (simp add: alloc_def)
    with m g False have s: "set_field p n (HRef (length h)) h1 = Inr h'"
      by (auto simp: ns_merge_def split: sum.splits)
    have ext1: "heap_ext {} h h1" using a by (rule heap_ext_alloc)
    have "heap_keep {} h1 h'"
    proof (cases p)
      case (HRef r)
      have "prop_of (obj_at h1 r) n = v" using g ext1 HRef by (simp add: heap_ext_def)
      with False s HRef show ?thesis by (simp add: heap_keep_set_falsy)
    qed (use s length_set_field in \<open>auto simp: heap_keep_def\<close>)
    then show ?thesis using heap_keep_trans [OF heap_keep_of_ext [OF ext1]] by simp
  qed
qed

lemma enter_path_keep: "enter_path p ns h = Inr (q, h') \<Longrightarrow> heap_keep {} h h'"
proof (induction ns arbitrary: p h)
  case Nil
  then show ?case by (simp add: heap_keep_def)
next
  case (Cons n ns)
  then obtain q1 h1 where m: "ns_merge p n h = Inr (q1, h1)" and e: "enter_path q1 ns h1 = Inr (q, h')"
    by (auto split: sum.splits)
  show ?case using heap_keep_trans [OF ns_merge_keep [OF m] Cons.IH [OF e]] by simp
qed

lemma merge_powerbi:
  assumes "page_ok h"
  shows "\<exists>B hA. ns_merge (HRef 0) ''powerbi'' h = Inr (HRef B, hA) \<and> heap_wf hA \<and>
     heap_ext {''powerbi''} h hA \<and> get_field (HRef 0) ''powerbi'' hA = Inr (HRef B) \<and> B < length hA \<and>
     path_clear (HRef B) (tl visual_ns_path) hA \<and> path_clear (HRef B) (tl plugins_path) hA \<and>
     (\<forall>P V. read_path (HRef B) (tl plugins_path) hA = Inr (HRef P) \<longrightarrow>
        (read_path (HRef B) (butlast (tl visual_ns_path)) hA = Inr (HRef V) \<or> length hA \<le> V) \<longrightarrow> V \<noteq> P)"
proof -
  have wf: "heap_wf h" and cv: "path_clear (HRef 0) (''powerbi'' # tl visual_ns_path) h"
    and cp: "path_clear (HRef 0) (''powerbi'' # tl plugins_path) h" and ap: "paths_apart h"
    using assms by (simp_all add: page_ok_def visual_ns_path_def plugins_path_def)
  have h0: "0 < length h" using wf by (simp add: heap_wf_def)
  obtain B hA where m: "ns_merge (HRef 0) ''powerbi'' h = Inr (HRef B, hA)" and wfA: "heap_wf hA"
    and ext: "heap_ext {''powerbi''} h hA" and g: "get_field (HRef 0) ''powerbi'' hA = Inr (HRef B)"
    and B: "B < length hA" and st: "get_field (HRef 0) ''powerbi'' h = Inr (HRef B) \<and> hA = h \<or> length h \<le> B"
    using ns_merge_clear [OF wf h0 cv] by blast
  have names: "set (tl visual_ns_path) \<inter> {''powerbi''} = {}" "set (tl plugins_path) \<inter> {''powerbi''} = {}"
    by (simp_all add: visual_ns_path_def plugins_path_def)
  show ?thesis
  proof (cases "length h \<le> B")
    case True
    have "read_path (HRef B) (tl plugins_path) hA \<noteq> Inr (HRef P)" for P
      unfolding plugins_path_def list.sel by (rule read_path_fresh [OF ext True]) simp
    with m wfA ext g B path_clear_fresh [OF ext True names(1)] path_clear_fresh [OF ext True names(2)]
    show ?thesis by blast
  next
    case False
    with st have old: "get_field (HRef 0) ''powerbi'' h = Inr (HRef B)" "hA = h" by simp_all
    have "\<forall>P V. read_path (HRef B) (tl plugins_path) hA = Inr (HRef P) \<longrightarrow>
        (read_path (HRef B) (butlast (tl visual_ns_path)) hA = Inr (HRef V) \<or> length hA \<le> V) \<longrightarrow> V \<noteq> P"
      unfolding old(2)
    proof (intro allI impI)
      fix P V
      assume p: "read_path (HRef B) (tl plugins_path) h = Inr (HRef P)"
        and v: "read_path (HRef B) (butlast (tl visual_ns_path)) h = Inr (HRef V) \<or> length h \<le> V"
      have rp: "read_path (HRef 0) plugins_path h = Inr (HRef P)"
        using p old by (simp add: plugins_path_def)
      have "ref_ok h (HRef 0)" using h0 by simp
      from read_path_ref_ok [OF wf this rp] have "ref_ok h (HRef P)" .
      from v show "V \<noteq> P"
      proof
        assume "read_path (HRef B) (butlast (tl visual_ns_path)) h = Inr (HRef V)"
        then have "read_path (HRef 0) (butlast visual_ns_path) h = Inr (HRef V)"
          using old by (simp add: visual_ns_path_def)
        with rp ap show "V \<noteq> P" by (simp add: paths_apart_def)
      qed (use \<open>ref_ok h (HRef P)\<close> in simp)
    qed
    moreover have "path_clear (HRef B) (tl visual_ns_path) hA" "path_clear (HRef B) (tl plugins_path) hA"
      using cv cp old by simp_all
    ultimately show ?thesis using m wfA ext g B by blast
  qed
qed

lemma visual_ns_path_split:
  "visual_ns_path = ''powerbi'' # [''extensibility'', ''visual''] @ [''PBI_CV_CAD60C71_FAD5_4B59_A498_A7FB0DDC7A2B'']"
  "tl visual_ns_path = [''extensibility'', ''visual''] @ [''PBI_CV_CAD60C71_FAD5_4B59_A498_A7FB0DDC7A2B'']"
  "butlast visual_ns_path = ''powerbi'' # [''extensibility'', ''visual'']"
  "butlast (tl visual_ns_path) = [''extensibility'', ''visual'']"
  by (simp_all add: visual_ns_path_def)

lemma enter_visual_ns:
  assumes "page_ok h"
  shows "\<exists>Q h1. enter_path (HRef 0) visual_ns_path h = Inr (HRef Q, h1) \<and> heap_wf h1 \<and>
     heap_ext (set visual_ns_path) h h1 \<and> read_path (HRef 0) visual_ns_path h1 = Inr (HRef Q) \<and>
     Q < length h1 \<and> path_clear (HRef 0) plugins_path h1 \<and> paths_apart h1"
proof -
  define vs where "vs = [''extensibility'', ''visual'']"
  define us where "us = [''PBI_CV_CAD60C71_FAD5_4B59_A498_A7FB0DDC7A2B'']"
  obtain B hA where m: "ns_merge (HRef 0) ''powerbi'' h = Inr (HRef B, hA)" and wfA: "heap_wf hA"
    and extA: "heap_ext {''powerbi''} h hA" and gA: "get_field (HRef 0) ''powerbi'' hA = Inr (HRef B)"
    and B: "B < length hA" and cA: "path_clear (HRef B) (vs @ us) hA"
    and cP: "path_clear (HRef B) (tl plugins_path) hA"
    and ap: "\<forall>P V. read_path (HRef B) (tl plugins_path) hA = Inr (HRef P) \<longrightarrow>
        (read_path (HRef B) vs hA = Inr (HRef V) \<or> length hA \<le> V) \<longrightarrow> V \<noteq> P"
    using merge_powerbi [OF assms] unfolding visual_ns_path_split(2) butlast_snoc vs_def us_def by blast
  obtain V hB where eB: "enter_path (HRef B) vs hA = Inr (HRef V, hB)" and wfB: "heap_wf hB"
    and extB: "heap_ext (set vs) hA hB" and rB: "read_path (HRef B) vs hB = Inr (HRef V)"
    and V: "V < length hB" and stB: "read_path (HRef B) vs hA = Inr (HRef V) \<and> hB = hA \<or> length hA \<le> V"
    using enter_path_clear [OF wfA B path_clear_prefix [OF cA]] by (auto simp: vs_def)
  have cV: "path_clear (HRef V) us hB"
    using stB path_clear_append [OF cA] path_clear_fresh [OF extB, of V us] by (auto simp: vs_def us_def)
  obtain Q hC where eC: "enter_path (HRef V) us hB = Inr (HRef Q, hC)" and wfC: "heap_wf hC"
    and extC: "heap_ext (set us) hB hC" and rC: "read_path (HRef V) us hC = Inr (HRef Q)"
    and Q: "Q < length hC"
    using enter_path_clear [OF wfB V cV] by (auto simp: us_def)
  have extAC: "heap_ext (set vs \<union> set us) hA hC" by (rule heap_ext_trans [OF extB extC])
  have disj: "set (tl plugins_path) \<inter> (set vs \<union> set us) = {}" "''powerbi'' \<notin> set vs \<union> set us"
    "set vs \<inter> set us = {}"
    by (auto simp: plugins_path_def vs_def us_def)
  have g: "get_field (HRef 0) ''powerbi'' hC = Inr (HRef B)"
    using get_field_ext [OF extAC disj(2)] gA by simp
  have rV: "read_path (HRef B) vs hC = Inr (HRef V)"
    using read_path_ext [OF extC disj(3)] rB by simp
  have rP: "read_path (HRef B) (tl plugins_path) hC = read_path (HRef B) (tl plugins_path) hA"
    using read_path_ext [OF extAC disj(1)] .
  have vp: "visual_ns_path = ''powerbi'' # vs @ us" by (simp add: vs_def us_def visual_ns_path_def)
  have "enter_path (HRef 0) visual_ns_path h = Inr (HRef Q, hC)"
    unfolding vp using m eB eC by (simp add: enter_path_append)
  moreover have "heap_ext (set visual_ns_path) h hC"
    using heap_ext_trans [OF extA extAC] by (simp add: visual_ns_path_def vs_def us_def insert_commute)
  moreover have rd: "read_path (HRef 0) visual_ns_path hC = Inr (HRef Q)"
    unfolding vp using g rV rC by (simp add: read_path_append)
  have pp: "plugins_path = ''powerbi'' # tl plugins_path" by (simp add: plugins_path_def)
  have bv: "butlast visual_ns_path = ''powerbi'' # vs" by (simp add: visual_ns_path_def vs_def)
  have "path_clear (HRef B) (tl plugins_path) hC" using path_clear_ext [OF extAC disj(1)] cP by simp
  then have "path_clear (HRef 0) plugins_path hC" by (subst pp) (simp add: g del: get_field.simps)
  moreover have "paths_apart hC"
  proof -
    have rp0: "read_path (HRef 0) plugins_path hC = read_path (HRef B) (tl plugins_path) hA"
      by (subst pp) (simp add: g rP del: get_field.simps)
    have rv0: "read_path (HRef 0) (butlast visual_ns_path) hC = Inr (HRef V)"
      unfolding bv using g rV by (simp del: get_field.simps)
    show ?thesis
      unfolding paths_apart_def rp0 rv0 using ap stB by (auto split: sum.split hval.split)
  qed
  ultimately show ?thesis using wfC Q rd by blast
qed


lemma paths_apart_ext:
  "heap_ext W h h' \<Longrightarrow> set visual_ns_path \<inter> W = {} \<Longrightarrow> set plugins_path \<inter> W = {} \<Longrightarrow>
   paths_apart h' = paths_apart h"
proof -
  assume ext: "heap_ext W h h'" and v: "set visual_ns_path \<inter> W = {}" and p: "set plugins_path \<inter> W = {}"
  have "set (butlast visual_ns_path) \<inter> W = {}" using v in_set_butlastD by fast
  then show ?thesis
    unfolding paths_apart_def by (simp only: read_path_ext [OF ext] read_path_ext [OF ext p])
qed

lemma helper_names_apart:
  "set visual_ns_path \<inter> set helper_names = {}" "set plugins_path \<inter> set helper_names = {}"
  "distinct helper_names"
  by (simp_all add: visual_ns_path_def plugins_path_def helper_names_def)

lemma load_utils_spec:
  assumes "page_ok h"
  shows "\<exists>Q h1. load_utils h = Inr h1 \<and> heap_wf h1 \<and> heap_ext (set visual_ns_path \<union> set helper_names) h h1 \<and>
     read_path (HRef 0) visual_ns_path h1 = Inr (HRef Q) \<and> Q < length h1 \<and>
     (\<forall>n \<in> set helper_names. fun_at h1 (HRef Q) n = Some n) \<and>
     path_clear (HRef 0) plugins_path h1 \<and> paths_apart h1"
proof -
  obtain Q hC where e: "enter_path (HRef 0) visual_ns_path h = Inr (HRef Q, hC)" and wfC: "heap_wf hC"
    and extC: "heap_ext (set visual_ns_path) h hC" and rC: "read_path (HRef 0) visual_ns_path hC = Inr (HRef Q)"
    and Q: "Q < length hC" and cP: "path_clear (HRef 0) plugins_path hC" and ap: "paths_apart hC"
    using enter_visual_ns [OF assms] by blast
  obtain fs hF where a: "alloc_functions helper_names hC = (fs, hF)" by fastforce
  have names: "map fst fs = helper_names" and extF: "heap_ext {} hC hF" and wfF: "heap_wf hF"
    and funs: "\<forall>nv \<in> set fs. \<exists>f. snd nv = HRef f \<and> length hC \<le> f \<and> f < length hF \<and> fcode (obj_at hF f) = Some (fst nv)"
    using alloc_functions_spec [OF a] wfC by auto
  have QF: "Q < length hF" using Q extF by (simp add: heap_ext_def)
  have refs: "\<forall>nv \<in> set fs. ref_ok hF (snd nv)" using funs by fastforce
  obtain h1 where s: "set_fields (HRef Q) fs hF = Inr h1" and wf1: "heap_wf h1"
    and ext1: "heap_ext (fst ` set fs) hF h1" and len1: "length h1 = length hF"
    and gs: "\<forall>nv \<in> set fs. get_field (HRef Q) (fst nv) h1 = Inr (snd nv)"
    using set_fields_spec [OF wfF QF refs] names helper_names_apart(3) by auto
  have W: "fst ` set fs = set helper_names" using names by (metis set_map)
  have extF1: "heap_ext (set helper_names) hC h1" using heap_ext_trans [OF extF ext1] W by simp
  have "fun_at h1 (HRef Q) n = Some n" if n: "n \<in> set helper_names" for n
  proof -
    obtain nv where nv: "nv \<in> set fs" "fst nv = n" using n W by force
    then obtain f where f: "snd nv = HRef f" "f < length hF" "fcode (obj_at hF f) = Some n" using funs by blast
    have "fcode (obj_at h1 f) = fcode (obj_at hF f)" using ext1 f(2) by (simp add: heap_ext_def)
    moreover have "get_field (HRef Q) n h1 = Inr (HRef f)" using gs nv f(1) by auto
    ultimately show ?thesis using f(3) by (simp add: fun_at_def del: get_field.simps)
  qed
  moreover have "load_utils h = Inr h1" using e a s by (simp add: load_utils_def)
  moreover have "heap_ext (set visual_ns_path \<union> set helper_names) h h1" by (rule heap_ext_trans [OF extC extF1])
  moreover have "read_path (HRef 0) visual_ns_path h1 = Inr (HRef Q)"
    using read_path_ext [OF extF1 helper_names_apart(1)] rC by simp
  moreover have "path_clear (HRef 0) plugins_path h1"
    using path_clear_ext [OF extF1 helper_names_apart(2)] cP by simp
  moreover have "paths_apart h1"
    using paths_apart_ext [OF extF1 helper_names_apart(1,2)] ap by simp
  ultimately show ?thesis using wf1 Q len1 extF by (auto simp: heap_ext_def)
qed

lemma new_class_spec:
  assumes wf: "heap_wf h"
  shows "\<exists>f p h'. new_class c h = Inr (HRef f, h') \<and> heap_wf h' \<and>
     heap_ext {''prototype'', ''constructor''} h h' \<and> f < length h' \<and> fcode (obj_at h' f) = Some c \<and>
     get_field (HRef f) ''prototype'' h' = Inr (HRef p) \<and> p < length h'"
proof -
  obtain h1 where a1: "alloc (Some c) h = (length h, h1)" and h1: "h1 = h @ [\<lparr>props = [], fcode = Some c\<rparr>]"
    by (simp add: alloc_def)
  obtain h2 where a2: "alloc None h1 = (length h1, h2)" and h2: "h2 = h1 @ [\<lparr>props = [], fcode = None\<rparr>]"
    by (simp add: alloc_def)
  obtain h3 where s3: "set_field (HRef (length h)) ''prototype'' (HRef (length h1)) h2 = Inr h3" by simp
  obtain h4 where s4: "set_field (HRef (length h1)) ''constructor'' (HRef (length h)) h3 = Inr h4" by simp
  have len: "length h3 = length h2" "length h4 = length h3"
    using length_set_field [OF s3] length_set_field [OF s4] by simp_all
  have wf2: "heap_wf h2" using heap_wf_alloc [OF heap_wf_alloc [OF wf a1] a2] .
  have wf3: "heap_wf h3" by (rule heap_wf_set_field [OF wf2 _ s3]) (simp add: h1 h2)
  have wf4: "heap_wf h4" by (rule heap_wf_set_field [OF wf3 _ s4]) (simp add: len h1 h2)
  have ext: "heap_ext {''prototype'', ''constructor''} h h4"
    using heap_ext_trans [OF heap_ext_trans [OF heap_ext_alloc [OF a1] heap_ext_alloc [OF a2]]
        heap_ext_trans [OF heap_ext_set_field [OF s3] heap_ext_set_field [OF s4]]] by (simp add: insert_commute)
  have "fcode (obj_at h4 (length h)) = fcode (obj_at h2 (length h))"
    using fcode_set_field [OF s3] fcode_set_field [OF s4] by simp
  also have "\<dots> = Some c" using obj_at_alloc [OF a2] obj_at_alloc [OF a1] h1 by simp
  finally have fc: "fcode (obj_at h4 (length h)) = Some c" .
  have "get_field (HRef (length h)) ''prototype'' h3 = Inr (HRef (length h1))"
    using _ s3 by (rule get_field_set_same) (simp add: h1 h2)
  then have g: "get_field (HRef (length h)) ''prototype'' h4 = Inr (HRef (length h1))"
    using get_field_set_field [OF s4, of "''prototype''" "HRef (length h)"] by simp
  have "new_class c h = Inr (HRef (length h), h4)" using a1 a2 s3 s4 by (simp add: new_class_def)
  then show ?thesis using wf4 ext fc g len h1 h2 by auto
qed

lemma def_method_spec:
  assumes "heap_wf h" "get_field cls ''prototype'' h = Inr (HRef p)" "p < length h"
  shows "\<exists>h'. def_method cls m c h = Inr h' \<and> heap_wf h' \<and> heap_ext {m} h h'"
proof -
  obtain h1 where a: "alloc (Some c) h = (length h, h1)" and h1: "h1 = h @ [\<lparr>props = [], fcode = Some c\<rparr>]"
    by (simp add: alloc_def)
  obtain h2 where s: "set_field (HRef p) m (HRef (length h)) h1 = Inr h2" by simp
  have "heap_wf h2" by (rule heap_wf_set_field [OF heap_wf_alloc [OF assms(1) a] _ s]) (simp add: h1)
  moreover have "heap_ext {m} h h2" using heap_ext_trans [OF heap_ext_alloc [OF a] heap_ext_set_field [OF s]] by simp
  moreover have "def_method cls m c h = Inr h2" using assms(2) a s by (simp add: def_method_def)
  ultimately show ?thesis by blast
qed

lemma load_class_spec:
  assumes wf: "heap_wf h" and r: "read_path (HRef 0) visual_ns_path h = Inr (HRef Q)" and Q: "Q < length h"
  shows "\<exists>h'. load_class h = Inr (HRef Q, h') \<and> heap_wf h' \<and>
     heap_ext {''prototype'', ''constructor'', ''update'', ''onResizing'', ''enumerateObjectInstances'', ''Visual''} h h' \<and>
     fun_at h' (HRef Q) ''Visual'' = Some ''Visual''"
proof -
  obtain f p ha where nc: "new_class ''Visual'' h = Inr (HRef f, ha)" and wfa: "heap_wf ha"
    and exta: "heap_ext {''prototype'', ''constructor''} h ha" and f: "f < length ha"
    and fc: "fcode (obj_at ha f) = Some ''Visual''" and pa: "get_field (HRef f) ''prototype'' ha = Inr (HRef p)"
    and p: "p < length ha"
    using new_class_spec [OF wf] by blast
  obtain hb where db: "def_method (HRef f) ''update'' ''Visual.update'' ha = Inr hb" and wfb: "heap_wf hb"
    and extb: "heap_ext {''update''} ha hb"
    using def_method_spec [OF wfa pa p] by blast
  have pb: "get_field (HRef f) ''prototype'' hb = Inr (HRef p)" "p < length hb"
    using get_field_ext [OF extb, of "''prototype''"] pa p extb by (auto simp: heap_ext_def)
  obtain hc where dc: "def_method (HRef f) ''onResizing'' ''Visual.onResizing'' hb = Inr hc" and wfc: "heap_wf hc"
    and extc: "heap_ext {''onResizing''} hb hc"
    using def_method_spec [OF wfb pb] by blast
  have pc: "get_field (HRef f) ''prototype'' hc = Inr (HRef p)" "p < length hc"
    using get_field_ext [OF extc, of "''prototype''"] pb extc by (auto simp: heap_ext_def)
  obtain hd where dd: "def_method (HRef f) ''enumerateObjectInstances'' ''Visual.enumerateObjectInstances'' hc = Inr hd"
    and wfd: "heap_wf hd" and extd: "heap_ext {''enumerateObjectInstances''} hc hd"
    using def_method_spec [OF wfc pc] by blast
  have extad: "heap_ext {''update'', ''onResizing'', ''enumerateObjectInstances''} ha hd"
    using heap_ext_trans [OF heap_ext_trans [OF extb extc] extd] by (simp add: insert_commute)
  have lens: "length h \<le> length hd" "f < length hd"
    using exta extad f by (auto simp: heap_ext_def)
  obtain he where se: "set_field (HRef Q) ''Visual'' (HRef f) hd = Inr he" by simp
  have wfe: "heap_wf he" by (rule heap_wf_set_field [OF wfd _ se]) (simp add: lens)
  have "fcode (obj_at he f) = Some ''Visual''"
    using fcode_set_field [OF se] extad f fc by (simp add: heap_ext_def)
  moreover have "get_field (HRef Q) ''Visual'' he = Inr (HRef f)"
    using Q lens by (intro get_field_set_same [OF _ se]) simp
  ultimately have "fun_at he (HRef Q) ''Visual'' = Some ''Visual''"
    by (simp add: fun_at_def del: get_field.simps)
  moreover have "load_class h = Inr (HRef Q, he)"
    using enter_path_resolved [OF r] nc db dc dd se by (simp add: load_class_def)
  moreover have "heap_ext {''prototype'', ''constructor'', ''update'', ''onResizing'', ''enumerateObjectInstances'', ''Visual''} h he"
    using heap_ext_trans [OF heap_ext_trans [OF exta extad] heap_ext_set_field [OF se]]
    by (simp add: insert_commute)
  ultimately show ?thesis using wfe by blast
qed

lemma descriptor_at_fields:
  assumes "\<forall>nv \<in> set [(''name'', HStr ''PBI_CV_CAD60C71_FAD5_4B59_A498_A7FB0DDC7A2B''),
         (''displayName'', HStr ''Time series decomposition''), (''class'', HStr ''Visual''),
         (''version'', HStr ''1.0.1''), (''apiVersion'', HStr ''1.3.0''), (''custom'', HBool True)].
       get_field d (fst nv) h = Inr (snd nv)"
    "fun_at h d ''create'' = Some ''create''"
  shows "descriptor_at h d = Some (visualPlugin\<lparr>create := plugin_create h\<rparr>)"
  using assms by (simp add: descriptor_at_def str_at_def visualPlugin_def)

lemma plugin_literal_spec:
  assumes wf: "heap_wf h"
  shows "\<exists>d h'. plugin_literal h = Inr (HRef d, h') \<and> heap_wf h' \<and>
     heap_ext {''name'', ''displayName'', ''class'', ''version'', ''apiVersion'', ''create'', ''custom''} h h' \<and>
     length h \<le> d \<and> d < length h' \<and>
     (\<forall>nv \<in> set [(''name'', HStr ''PBI_CV_CAD60C71_FAD5_4B59_A498_A7FB0DDC7A2B''),
         (''displayName'', HStr ''Time series decomposition''), (''class'', HStr ''Visual''),
         (''version'', HStr ''1.0.1''), (''apiVersion'', HStr ''1.3.0''), (''custom'', HBool True)].
       get_field (HRef d) (fst nv) h' = Inr (snd nv)) \<and>
     fun_at h' (HRef d) ''create'' = Some ''create''"
proof -
  define lit where "lit = [(''name'', HStr ''PBI_CV_CAD60C71_FAD5_4B59_A498_A7FB0DDC7A2B''),
         (''displayName'', HStr ''Time series decomposition''), (''class'', HStr ''Visual''),
         (''version'', HStr ''1.0.1''), (''apiVersion'', HStr ''1.3.0'')]"
  obtain h1 where a1: "alloc None h = (length h, h1)" and h1: "h1 = h @ [\<lparr>props = [], fcode = None\<rparr>]"
    by (simp add: alloc_def)
  have wf1: "heap_wf h1" using wf a1 by (rule heap_wf_alloc)
  obtain h2 where s2: "set_fields (HRef (length h)) lit h1 = Inr h2" and wf2: "heap_wf h2"
    and ext2: "heap_ext (fst ` set lit) h1 h2" and len2: "length h2 = length h1"
    and g2: "\<forall>nv \<in> set lit. get_field (HRef (length h)) (fst nv) h2 = Inr (snd nv)"
    using set_fields_spec [OF wf1, of "length h" lit] h1 by (auto simp: lit_def)
  obtain h3 where a3: "alloc (Some ''create'') h2 = (length h2, h3)" and h3: "h3 = h2 @ [\<lparr>props = [], fcode = Some ''create''\<rparr>]"
    by (simp add: alloc_def)
  have wf3: "heap_wf h3" using wf2 a3 by (rule heap_wf_alloc)
  obtain h4 where s4: "set_fields (HRef (length h)) [(''create'', HRef (length h2)), (''custom'', HBool True)] h3 = Inr h4"
    and wf4: "heap_wf h4" and ext4: "heap_ext {''create'', ''custom''} h3 h4" and len4: "length h4 = length h3"
    and g4: "get_field (HRef (length h)) ''create'' h4 = Inr (HRef (length h2))"
      "get_field (HRef (length h)) ''custom'' h4 = Inr (HBool True)"
    using set_fields_spec [OF wf3, of "length h" "[(''create'', HRef (length h2)), (''custom'', HBool True)]"]
      h1 h3 len2 by auto
  have ext24: "heap_ext {''create'', ''custom''} h2 h4" using heap_ext_trans [OF heap_ext_alloc [OF a3] ext4] by simp
  have str: "get_field (HRef (length h)) (fst nv) h4 = Inr (snd nv)" if "nv \<in> set lit" for nv
    using that g2 get_field_ext [OF ext24, of "fst nv" "HRef (length h)"] by (auto simp: lit_def)
  have "\<forall>s < length h3. fcode (obj_at h4 s) = fcode (obj_at h3 s)" using ext4 by (simp add: heap_ext_def)
  then have "fcode (obj_at h4 (length h2)) = fcode (obj_at h3 (length h2))" using h3 by simp
  also have "\<dots> = Some ''create''" using h3 by (simp add: obj_at_def)
  finally have "fun_at h4 (HRef (length h)) ''create'' = Some ''create''"
    using g4(1) by (simp add: fun_at_def del: get_field.simps)
  moreover have "\<forall>nv \<in> set (lit @ [(''custom'', HBool True)]). get_field (HRef (length h)) (fst nv) h4 = Inr (snd nv)"
    using str g4(2) by auto
  moreover have "plugin_literal h = Inr (HRef (length h), h4)"
    using a1 s2 a3 s4 by (simp add: plugin_literal_def lit_def)
  moreover have "heap_ext {''name'', ''displayName'', ''class'', ''version'', ''apiVersion'', ''create'', ''custom''} h h4"
    by (rule heap_ext_mono [OF heap_ext_trans [OF heap_ext_trans [OF heap_ext_alloc [OF a1] ext2] ext24]])
       (auto simp: lit_def)
  ultimately show ?thesis using wf4 len4 len2 h1 h3 unfolding lit_def by auto
qed

lemma enter_plugins:
  assumes wf: "heap_wf h" and cP: "path_clear (HRef 0) plugins_path h" and ap: "paths_apart h"
    and rQ: "read_path (HRef 0) visual_ns_path h = Inr (HRef Q)"
  shows "\<exists>B V P hA. enter_path (HRef 0) plugins_path h = Inr (HRef P, hA) \<and> heap_wf hA \<and>
     heap_ext (set (tl plugins_path)) h hA \<and> get_field (HRef 0) ''powerbi'' h = Inr (HRef B) \<and>
     read_path (HRef B) (tl plugins_path) hA = Inr (HRef P) \<and> P < length hA \<and>
     read_path (HRef 0) (butlast visual_ns_path) h = Inr (HRef V) \<and>
     get_field (HRef V) ''PBI_CV_CAD60C71_FAD5_4B59_A498_A7FB0DDC7A2B'' h = Inr (HRef Q) \<and> V \<noteq> P"
proof -
  have h0: "ref_ok h (HRef 0)" using wf by (simp add: heap_wf_def)
  have vs: "visual_ns_path = butlast visual_ns_path @ [''PBI_CV_CAD60C71_FAD5_4B59_A498_A7FB0DDC7A2B'']"
    by (simp add: visual_ns_path_def)
  obtain v where rv: "read_path (HRef 0) (butlast visual_ns_path) h = Inr v"
    and r1: "read_path v [''PBI_CV_CAD60C71_FAD5_4B59_A498_A7FB0DDC7A2B''] h = Inr (HRef Q)"
    using rQ by (subst (asm) vs) (auto simp only: read_path_append js_bind_Inr_iff)
  obtain V where V: "v = HRef V" using read_path_Cons_ref [OF r1] by blast
  have rV: "read_path (HRef 0) (butlast visual_ns_path) h = Inr (HRef V)" using rv V by simp
  have gV: "get_field (HRef V) ''PBI_CV_CAD60C71_FAD5_4B59_A498_A7FB0DDC7A2B'' h = Inr (HRef Q)"
    using r1 V by (simp del: get_field.simps)
  obtain b where rb: "get_field (HRef 0) ''powerbi'' h = Inr b"
    and r2: "read_path b [''extensibility'', ''visual''] h = Inr (HRef V)"
    using rV unfolding visual_ns_path_split(3) by (subst (asm) read_path.simps(2)) (auto simp only: js_bind_Inr_iff)
  obtain B where "b = HRef B" using read_path_Cons_ref [OF r2] by blast
  with rb have gB: "get_field (HRef 0) ''powerbi'' h = Inr (HRef B)" by simp
  have B: "B < length h" using get_field_ref_ok [OF wf gB] by simp
  have pp: "plugins_path = ''powerbi'' # tl plugins_path" by (simp add: plugins_path_def)
  have cB: "path_clear (HRef B) (tl plugins_path) h" using cP gB by (subst (asm) pp) (simp del: get_field.simps)
  have e0: "enter_path (HRef 0) plugins_path h = enter_path (HRef B) (tl plugins_path) h"
    by (subst pp) (simp add: ns_merge_def gB del: get_field.simps)
  obtain P hA where eA: "enter_path (HRef B) (tl plugins_path) h = Inr (HRef P, hA)" and wfA: "heap_wf hA"
    and extA: "heap_ext (set (tl plugins_path)) h hA" and rA: "read_path (HRef B) (tl plugins_path) hA = Inr (HRef P)"
    and P: "P < length hA" and st: "read_path (HRef B) (tl plugins_path) h = Inr (HRef P) \<and> hA = h \<or> length h \<le> P"
    using enter_path_clear [OF wf B cB] by (auto simp: plugins_path_def)
  have "V \<noteq> P"
  proof (cases "length h \<le> P")
    case True
    have "ref_ok h (HRef V)" by (rule read_path_ref_ok [OF wf h0 rV])
    with True show ?thesis by simp
  next
    case False
    with st have "read_path (HRef 0) plugins_path h = Inr (HRef P)" by (subst pp) (simp add: gB del: get_field.simps)
    with rV ap show ?thesis by (simp add: paths_apart_def)
  qed
  then show ?thesis using e0 eA wfA extA gB rA P rV gV by auto
qed

lemma load_plugin_spec:
  assumes wf: "heap_wf h" and cP: "path_clear (HRef 0) plugins_path h" and ap: "paths_apart h"
    and rQ: "read_path (HRef 0) visual_ns_path h = Inr (HRef Q)"
  shows "\<exists>h'. load_plugin h = Inr h' \<and> heap_wf h' \<and>
     heap_ext {''visuals'', ''plugins'', ''PBI_CV_CAD60C71_FAD5_4B59_A498_A7FB0DDC7A2B'', ''name'', ''displayName'',
               ''class'', ''version'', ''apiVersion'', ''create'', ''custom''} h h' \<and>
     read_path (HRef 0) visual_ns_path h' = Inr (HRef Q) \<and>
     registered_plugin h' = Some (visualPlugin\<lparr>create := plugin_create h'\<rparr>)"
proof -
  define pbi where "pbi = ''PBI_CV_CAD60C71_FAD5_4B59_A498_A7FB0DDC7A2B''"
  define D where "D = {''name'', ''displayName'', ''class'', ''version'', ''apiVersion'', ''create'', ''custom''}"
  obtain B V P hA where eA: "enter_path (HRef 0) plugins_path h = Inr (HRef P, hA)" and wfA: "heap_wf hA"
    and extA: "heap_ext (set (tl plugins_path)) h hA" and gB: "get_field (HRef 0) ''powerbi'' h = Inr (HRef B)"
    and rP: "read_path (HRef B) (tl plugins_path) hA = Inr (HRef P)" and P: "P < length hA"
    and rV: "read_path (HRef 0) (butlast visual_ns_path) h = Inr (HRef V)"
    and gV: "get_field (HRef V) pbi h = Inr (HRef Q)" and VP: "V \<noteq> P"
    using enter_plugins [OF assms] unfolding pbi_def by blast
  obtain d hB where lit: "plugin_literal hA = Inr (HRef d, hB)" and wfB: "heap_wf hB"
    and extB: "heap_ext D hA hB" and d: "d < length hB"
    and fB: "\<forall>nv \<in> set [(''name'', HStr ''PBI_CV_CAD60C71_FAD5_4B59_A498_A7FB0DDC7A2B''),
         (''displayName'', HStr ''Time series decomposition''), (''class'', HStr ''Visual''),
         (''version'', HStr ''1.0.1''), (''apiVersion'', HStr ''1.3.0''), (''custom'', HBool True)].
       get_field (HRef d) (fst nv) hB = Inr (snd nv)"
    and cB: "fun_at hB (HRef d) ''create'' = Some ''create''"
    using plugin_literal_spec [OF wfA] unfolding D_def by blast
  have PB: "P < length hB" using P extB by (simp add: heap_ext_def)
  obtain h' where s: "set_field (HRef P) pbi (HRef d) hB = Inr h'" by simp
  have wf': "heap_wf h'" by (rule heap_wf_set_field [OF wfB _ s]) (simp add: d)
  have hAB: "heap_ext (set (tl plugins_path) \<union> D) h hB" by (rule heap_ext_trans [OF extA extB])
  have names: "set (butlast visual_ns_path) \<inter> (set (tl plugins_path) \<union> D) = {}" "pbi \<notin> set (tl plugins_path) \<union> D"
    "''powerbi'' \<notin> set (tl plugins_path) \<union> D \<union> {pbi}" "pbi \<notin> set (butlast visual_ns_path)"
    "set (tl plugins_path) \<inter> D = {}" "pbi \<notin> set (tl plugins_path)"
    by (auto simp: visual_ns_path_def plugins_path_def D_def pbi_def)
  have ext': "heap_ext (set (tl plugins_path) \<union> D \<union> {pbi}) h h'"
    by (rule heap_ext_trans [OF hAB heap_ext_set_field [OF s]])
  have "read_path (HRef 0) (butlast visual_ns_path) h' = Inr (HRef V)"
    using read_path_set_field [OF s names(4)] read_path_ext [OF hAB names(1)] rV by simp
  moreover have "get_field (HRef V) pbi h' = Inr (HRef Q)"
    using get_field_set_other [OF s VP, of pbi] get_field_ext [OF hAB names(2), of "HRef V"] gV by argo
  ultimately have vis: "read_path (HRef 0) visual_ns_path h' = Inr (HRef Q)"
  proof -
    have vs: "visual_ns_path = butlast visual_ns_path @ [pbi]" by (simp add: visual_ns_path_def pbi_def)
    assume "read_path (HRef 0) (butlast visual_ns_path) h' = Inr (HRef V)" "get_field (HRef V) pbi h' = Inr (HRef Q)"
    then show ?thesis by (subst vs) (simp add: read_path_append del: get_field.simps)
  qed
  have "read_path (HRef B) (tl plugins_path) h' = Inr (HRef P)"
    using read_path_set_field [OF s names(6)] read_path_ext [OF extB names(5)] rP by simp
  moreover have "get_field (HRef 0) ''powerbi'' h' = Inr (HRef B)" using get_field_ext [OF ext' names(3)] gB by simp
  moreover have "get_field (HRef P) pbi h' = Inr (HRef d)" using PB s by (rule get_field_set_same)
  ultimately have "read_path (HRef 0) (plugins_path @ [pbi]) h' = Inr (HRef d)"
  proof -
    have pp2: "plugins_path @ [pbi] = ''powerbi'' # (tl plugins_path @ [pbi])" by (simp add: plugins_path_def)
    assume "read_path (HRef B) (tl plugins_path) h' = Inr (HRef P)" "get_field (HRef 0) ''powerbi'' h' = Inr (HRef B)"
      "get_field (HRef P) pbi h' = Inr (HRef d)"
    then show ?thesis by (subst pp2) (simp add: read_path_append del: get_field.simps)
  qed
  moreover have "descriptor_at h' (HRef d) = Some (visualPlugin\<lparr>create := plugin_create h'\<rparr>)"
  proof (rule descriptor_at_fields)
    show "fun_at h' (HRef d) ''create'' = Some ''create''"
      using fun_at_ext [OF wfB heap_ext_set_field [OF s]] cB by (simp add: pbi_def)
  next
    have fr: "n \<noteq> pbi \<Longrightarrow> get_field (HRef d) n h' = get_field (HRef d) n hB" for n
      using get_field_set_field [OF s] by blast
    show "\<forall>nv \<in> set [(''name'', HStr ''PBI_CV_CAD60C71_FAD5_4B59_A498_A7FB0DDC7A2B''),
         (''displayName'', HStr ''Time series decomposition''), (''class'', HStr ''Visual''),
         (''version'', HStr ''1.0.1''), (''apiVersion'', HStr ''1.3.0''), (''custom'', HBool True)].
       get_field (HRef d) (fst nv) h' = Inr (snd nv)"
      using fB by (simp add: fr pbi_def del: get_field.simps)
  qed
  moreover have "load_plugin h = Inr h'" using eA lit s by (simp add: load_plugin_def pbi_def)
  moreover have "heap_ext {''visuals'', ''plugins'', pbi, ''name'', ''displayName'',
               ''class'', ''version'', ''apiVersion'', ''create'', ''custom''} h h'"
    by (rule heap_ext_mono [OF ext']) (auto simp: plugins_path_def D_def)
  ultimately show ?thesis using wf' vis unfolding pbi_def by (simp add: registered_plugin_def)
qed

lemma fun_at_SomeD: "fun_at h v n = Some c \<Longrightarrow> \<exists>f. get_field v n h = Inr (HRef f) \<and> fcode (obj_at h f) = Some c"
  by (auto simp: fun_at_def split: sum.splits hval.splits simp del: get_field.simps)

lemma load_bundle_spec:
  assumes "page_ok h"
  shows "\<exists>Q h'. load_bundle h = Inr (HRef Q, h') \<and> heap_wf h' \<and> heap_ext loader_names h h' \<and>
     (\<forall>n \<in> set helper_names. fun_at h' (HRef Q) n = Some n) \<and>
     read_path (HRef 0) visual_ns_path h' = Inr (HRef Q) \<and> fun_at h' (HRef Q) ''Visual'' = Some ''Visual'' \<and>
     registered_plugin h' = Some (visualPlugin\<lparr>create := plugin_create h'\<rparr>)"
proof -
  define W2 where "W2 = {''prototype'', ''constructor'', ''update'', ''onResizing'', ''enumerateObjectInstances'', ''Visual''}"
  define W3 where "W3 = {''visuals'', ''plugins'', ''PBI_CV_CAD60C71_FAD5_4B59_A498_A7FB0DDC7A2B'', ''name'', ''displayName'',
               ''class'', ''version'', ''apiVersion'', ''create'', ''custom''}"
  obtain Q h1 where l1: "load_utils h = Inr h1" and wf1: "heap_wf h1"
    and ext1: "heap_ext (set visual_ns_path \<union> set helper_names) h h1"
    and r1: "read_path (HRef 0) visual_ns_path h1 = Inr (HRef Q)" and Q: "Q < length h1"
    and f1: "\<forall>n \<in> set helper_names. fun_at h1 (HRef Q) n = Some n"
    and c1: "path_clear (HRef 0) plugins_path h1" and a1: "paths_apart h1"
    using load_utils_spec [OF assms] by blast
  obtain h2 where l2: "load_class h1 = Inr (HRef Q, h2)" and wf2: "heap_wf h2" and ext2: "heap_ext W2 h1 h2"
    and v2: "fun_at h2 (HRef Q) ''Visual'' = Some ''Visual''"
    using load_class_spec [OF wf1 r1 Q] unfolding W2_def by blast
  have d2: "set visual_ns_path \<inter> W2 = {}" "set plugins_path \<inter> W2 = {}" "set helper_names \<inter> W2 = {}"
    by (auto simp: W2_def visual_ns_path_def plugins_path_def helper_names_def)
  have r2: "read_path (HRef 0) visual_ns_path h2 = Inr (HRef Q)" using read_path_ext [OF ext2 d2(1)] r1 by simp
  have c2: "path_clear (HRef 0) plugins_path h2" using path_clear_ext [OF ext2 d2(2)] c1 by simp
  have a2: "paths_apart h2" using paths_apart_ext [OF ext2 d2(1,2)] a1 by simp
  obtain h3 where l3: "load_plugin h2 = Inr h3" and wf3: "heap_wf h3" and ext3: "heap_ext W3 h2 h3"
    and r3: "read_path (HRef 0) visual_ns_path h3 = Inr (HRef Q)"
    and p3: "registered_plugin h3 = Some (visualPlugin\<lparr>create := plugin_create h3\<rparr>)"
    using load_plugin_spec [OF wf2 c2 a2 r2] unfolding W3_def by blast
  have d3: "set helper_names \<inter> W3 = {}" "''Visual'' \<notin> W3"
    by (auto simp: W3_def helper_names_def)
  have "fun_at h3 (HRef Q) n = Some n" if n: "n \<in> set helper_names" for n
  proof -
    have "n \<notin> W2" "n \<notin> W3" using n d2(3) d3(1) by auto
    then show ?thesis
      using n f1 fun_at_ext [OF wf1 ext2, of n "HRef Q"] fun_at_ext [OF wf2 ext3, of n "HRef Q"] by simp
  qed
  moreover have "fun_at h3 (HRef Q) ''Visual'' = Some ''Visual''" using fun_at_ext [OF wf2 ext3 d3(2)] v2 by simp
  moreover have "heap_ext loader_names h h3"
    by (rule heap_ext_mono [OF heap_ext_trans [OF heap_ext_trans [OF ext1 ext2] ext3]])
       (auto simp: loader_names_def W2_def W3_def plugins_path_def visual_ns_path_def)
  moreover have "load_bundle h = Inr (HRef Q, h3)" using l1 l2 l3 by (simp add: load_bundle_def)
  ultimately show ?thesis using wf3 r3 p3 by blast
qed

lemma plugin_create_loaded:
  assumes "read_path (HRef 0) visual_ns_path h = Inr (HRef Q)" "fun_at h (HRef Q) ''Visual'' = Some ''Visual''"
  shows "plugin_create h = Visual_constructor"
proof -
  obtain f where "get_field (HRef Q) ''Visual'' h = Inr (HRef f)" "fcode (obj_at h f) = Some ''Visual''"
    using fun_at_SomeD [OF assms(2)] by blast
  with assms(1) show ?thesis
    by (intro ext) (simp add: plugin_create_def read_path_append del: get_field.simps)
qed


lemma page_ok_host: "page_ok host_page"
  by (simp add: page_ok_def host_page_def heap_wf_def paths_apart_def visual_ns_path_def plugins_path_def
      obj_at_def prop_of_def)

lemma page_ok_blank: "page_ok blank_page"
  by (simp add: page_ok_def blank_page_def heap_wf_def paths_apart_def visual_ns_path_def plugins_path_def
      obj_at_def prop_of_def)

lemma not_page_ok_alias: "\<not> page_ok alias_page"
  by (simp add: page_ok_def alias_page_def heap_wf_def paths_apart_def visual_ns_path_def plugins_path_def
      obj_at_def prop_of_def)

lemma bundle_class_loaded:
  assumes "fun_at h ns ''getValue'' = Some ''getValue''" "fun_at h ns ''inMinMax'' = Some ''inMinMax''"
  shows "bundle_class (bundle_ns_of h ns) = source_class"
proof -
  have "ns_getValue (bundle_ns_of h ns) = Some getValue" "ns_inMinMax (bundle_ns_of h ns) = Some inMinMax"
    using assms by (simp_all add: bundle_ns_of_def export_of_def)
  then show ?thesis
    using Visual_update_js_eq [OF ns_calls_export(1)] enumerate_js_eq [OF ns_calls_export(2)]
    by (simp add: bundle_class_def source_class_def)
qed

lemma load_utils_keep: "load_utils h = Inr h' \<Longrightarrow> heap_keep (set helper_names) h h'"
proof -
  assume l: "load_utils h = Inr h'"
  then obtain ns h1 where e: "enter_path (HRef 0) visual_ns_path h = Inr (ns, h1)"
    and r: "(case alloc_functions helper_names h1 of (fs, h2) \<Rightarrow> set_fields ns fs h2) = Inr h'"
    by (auto simp: load_utils_def split: sum.splits)
  obtain fs h2 where a: "alloc_functions helper_names h1 = (fs, h2)" by fastforce
  with r have s: "set_fields ns fs h2 = Inr h'" by simp
  have "map fst fs = helper_names" "heap_ext {} h1 h2" using alloc_functions_spec [OF a] by simp_all
  then have "heap_ext (set helper_names) h1 h'"
    using heap_ext_trans [OF _ set_fields_ext [OF s]] by (metis empty_iff image_set subsetI sup_bot_left)
  then show ?thesis using heap_keep_trans [OF enter_path_keep [OF e] heap_keep_of_ext] by simp
qed

lemma new_class_keep:
  assumes "new_class c h = Inr (cls, h')"
  shows "cls = HRef (length h) \<and> get_field cls ''prototype'' h' = Inr (HRef (Suc (length h))) \<and> heap_keep {} h h'"
proof -
  obtain h1 where a1: "alloc (Some c) h = (length h, h1)" and h1: "h1 = h @ [\<lparr>props = [], fcode = Some c\<rparr>]"
    by (simp add: alloc_def)
  obtain h2 where a2: "alloc None h1 = (Suc (length h), h2)" and h2: "h2 = h1 @ [\<lparr>props = [], fcode = None\<rparr>]"
    using h1 by (simp add: alloc_def)
  obtain h3 where s3: "set_field (HRef (length h)) ''prototype'' (HRef (Suc (length h))) h2 = Inr h3" by simp
  obtain h4 where s4: "set_field (HRef (Suc (length h))) ''constructor'' (HRef (length h)) h3 = Inr h4" by simp
  have r: "cls = HRef (length h)" "h' = h4"
    using assms by (simp_all add: new_class_def a1 a2 s3 s4 del: set_field.simps)
  have "get_field (HRef (length h)) ''prototype'' h3 = Inr (HRef (Suc (length h)))"
    using get_field_set_same [OF _ s3] h1 h2 by simp
  then have "get_field (HRef (length h)) ''prototype'' h4 = Inr (HRef (Suc (length h)))"
    using get_field_set_field [OF s4, of "''prototype''"] by simp
  moreover have "heap_keep {} h h2" by (rule heap_keep_alloc [OF a2 heap_keep_alloc [OF a1 heap_keep_refl]])
  then have "heap_keep {} h h4"
    by (intro heap_keep_set_fresh [OF heap_keep_set_fresh [OF _ s3] s4]) simp_all
  ultimately show ?thesis using r by simp
qed

lemma def_method_keep:
  assumes k: "heap_keep E h0 h" and g: "get_field cls ''prototype'' h = Inr (HRef p)" and p: "length h0 \<le> p"
    and d: "def_method cls m c h = Inr h'" and m: "m \<noteq> ''prototype''"
  shows "heap_keep E h0 h' \<and> get_field cls ''prototype'' h' = Inr (HRef p)"
proof -
  obtain h1 where a: "alloc (Some c) h = (length h, h1)" by (simp add: alloc_def)
  with d g have s: "set_field (HRef p) m (HRef (length h)) h1 = Inr h'" by (simp add: def_method_def)
  have "heap_keep E h0 h'" using heap_keep_set_fresh [OF heap_keep_alloc [OF a k] s p] .
  moreover have "get_field cls ''prototype'' h' = get_field cls ''prototype'' h"
    using get_field_set_field [OF s, of "''prototype''" cls] m get_field_ext [OF heap_ext_alloc [OF a], of "''prototype''" cls]
    by simp
  ultimately show ?thesis using g by simp
qed

lemma load_class_keep: "load_class h = Inr (ns, h') \<Longrightarrow> heap_keep {''Visual''} h h'"
proof -
  assume l: "load_class h = Inr (ns, h')"
  obtain ns0 h1 cls h2 h3 h4 h5 where e: "enter_path (HRef 0) visual_ns_path h = Inr (ns0, h1)"
    and c: "new_class ''Visual'' h1 = Inr (cls, h2)"
    and d3: "def_method cls ''update'' ''Visual.update'' h2 = Inr h3"
    and d4: "def_method cls ''onResizing'' ''Visual.onResizing'' h3 = Inr h4"
    and d5: "def_method cls ''enumerateObjectInstances'' ''Visual.enumerateObjectInstances'' h4 = Inr h5"
    and s: "set_field ns0 ''Visual'' cls h5 = Inr h'"
    using l by (auto simp: load_class_def simp del: set_field.simps)
  have k1: "heap_keep {} h h1" using e by (rule enter_path_keep)
  have g2: "get_field cls ''prototype'' h2 = Inr (HRef (Suc (length h1)))" and k2: "heap_keep {} h1 h2"
    using new_class_keep [OF c] by blast+
  have k2': "heap_keep {} h h2" using heap_keep_trans [OF k1 k2] by simp
  have p: "length h \<le> Suc (length h1)" using k1 by (simp add: heap_keep_def)
  obtain "heap_keep {} h h3" "get_field cls ''prototype'' h3 = Inr (HRef (Suc (length h1)))"
    using def_method_keep [OF k2' g2 p d3] by simp
  then obtain "heap_keep {} h h4" "get_field cls ''prototype'' h4 = Inr (HRef (Suc (length h1)))"
    using def_method_keep [OF _ _ p d4] by simp
  then have "heap_keep {} h h5" using def_method_keep [OF _ _ p d5] by simp
  then show ?thesis using heap_keep_trans [OF _ heap_keep_of_ext [OF heap_ext_set_field [OF s]]] by simp
qed

lemma plugin_literal_keep: "plugin_literal h = Inr (d, h') \<Longrightarrow> heap_keep {} h h'"
proof -
  assume l: "plugin_literal h = Inr (d, h')"
  obtain h1 where a1: "alloc None h = (length h, h1)" by (simp add: alloc_def)
  define fs1 where "fs1 = [(''name'', HStr ''PBI_CV_CAD60C71_FAD5_4B59_A498_A7FB0DDC7A2B''),
         (''displayName'', HStr ''Time series decomposition''), (''class'', HStr ''Visual''),
         (''version'', HStr ''1.0.1''), (''apiVersion'', HStr ''1.3.0'')]"
  obtain h2 where s1: "set_fields (HRef (length h)) fs1 h1 = Inr h2"
    and r: "(case alloc (Some ''create'') h2 of (c, h3) \<Rightarrow>
      js_bind (set_fields (HRef (length h)) [(''create'', HRef c), (''custom'', HBool True)] h3) (\<lambda>h4.
      Inr (HRef (length h), h4))) = Inr (d, h')"
    using l a1 unfolding plugin_literal_def fs1_def by auto
  obtain h3 where a2: "alloc (Some ''create'') h2 = (length h2, h3)" by (simp add: alloc_def)
  with r have s2: "set_fields (HRef (length h)) [(''create'', HRef (length h2)), (''custom'', HBool True)] h3 = Inr h'"
    by auto
  have "heap_keep {} h h2" using heap_keep_set_fields_fresh [OF heap_keep_alloc [OF a1 heap_keep_refl] s1] by simp
  then show ?thesis using heap_keep_set_fields_fresh [OF heap_keep_alloc [OF a2] s2] by simp
qed

lemma load_plugin_keep:
  "load_plugin h = Inr h' \<Longrightarrow> heap_keep {''PBI_CV_CAD60C71_FAD5_4B59_A498_A7FB0DDC7A2B''} h h'"
proof -
  assume l: "load_plugin h = Inr h'"
  obtain pl h1 d h2 where e: "enter_path (HRef 0) plugins_path h = Inr (pl, h1)"
    and p: "plugin_literal h1 = Inr (d, h2)"
    and s: "set_field pl ''PBI_CV_CAD60C71_FAD5_4B59_A498_A7FB0DDC7A2B'' d h2 = Inr h'"
    using l by (auto simp: load_plugin_def simp del: set_field.simps)
  show ?thesis
    using heap_keep_trans [OF heap_keep_trans [OF enter_path_keep [OF e] plugin_literal_keep [OF p]]
        heap_keep_of_ext [OF heap_ext_set_field [OF s]]] by simp
qed

lemma load_bundle_keep:
  "load_bundle h = Inr (ns, h') \<Longrightarrow>
   heap_keep (set helper_names \<union> {''Visual'', ''PBI_CV_CAD60C71_FAD5_4B59_A498_A7FB0DDC7A2B''}) h h'"
proof -
  assume l: "load_bundle h = Inr (ns, h')"
  obtain h1 h2 where u: "load_utils h = Inr h1" and c: "load_class h1 = Inr (ns, h2)" and p: "load_plugin h2 = Inr h'"
    using l by (auto simp: load_bundle_def)
  show ?thesis
    using heap_keep_trans [OF heap_keep_trans [OF load_utils_keep [OF u] load_class_keep [OF c]] load_plugin_keep [OF p]]
    by (simp add: insert_commute)
qed

lemmas load_defs = load_bundle_def load_utils_def load_class_def load_plugin_def plugin_literal_def
  visual_ns_path_def plugins_path_def helper_names_def ns_merge_def alloc_def obj_at_def prop_of_def
  new_class_def def_method_def


subsection \<open>Properties\<close>

text \<open>C33: Composition of the three scripts: on any page whose namespace paths can be
  entered and are kept apart, loading \<open>visual.js\<close> succeeds, the class the host can
  instantiate resolves its helpers through the namespace object the helper module filled
  (so its methods are those of \<open>visual.ts\<close>), and \<open>powerbi.visuals.plugins\<close> holds the
  descriptor of \<open>visualPlugin.ts\<close>, whose \<open>create\<close> runs the constructor.\<close>

theorem load_bundle_registers_source:
  assumes "page_ok h"
  shows "\<exists>ns h'. load_bundle h = Inr (ns, h') \<and> bundle_class (bundle_ns_of h' ns) = source_class \<and>
           registered_plugin h' = Some visualPlugin"
proof -
  obtain Q h' where l: "load_bundle h = Inr (HRef Q, h')"
    and f: "\<forall>n \<in> set helper_names. fun_at h' (HRef Q) n = Some n"
    and r: "read_path (HRef 0) visual_ns_path h' = Inr (HRef Q)" and v: "fun_at h' (HRef Q) ''Visual'' = Some ''Visual''"
    and p: "registered_plugin h' = Some (visualPlugin\<lparr>create := plugin_create h'\<rparr>)"
    using load_bundle_spec [OF assms] by blast
  have "bundle_class (bundle_ns_of h' (HRef Q)) = source_class"
    using f by (intro bundle_class_loaded) (simp_all add: helper_names_def)
  moreover have "registered_plugin h' = Some visualPlugin"
    using p plugin_create_loaded [OF r v] by (simp add: visualPlugin_def)
  ultimately show ?thesis using l by blast
qed

theorem load_bundle_registers_source_witness:
  "page_ok host_page \<and> (\<exists>ns h'. load_bundle host_page = Inr (ns, h') \<and>
     bundle_class (bundle_ns_of h' ns) = source_class \<and> registered_plugin h' = Some visualPlugin)"
  using load_bundle_registers_source [OF page_ok_host] page_ok_host by blast

text \<open>C34: Frame of the bundle: loading never changes a property that held a truthy
  value on an object of the page, unless it is one of the names the bundle exports (the
  eight helpers, \<open>Visual\<close>, the plugin's GUID): the idiom \<open>x = p.x || (p.x = {})\<close>
  only fills missing slots, so the host's \<open>powerbi.visuals.plugins\<close> object, the other
  plugins registered there and every other namespace survive.\<close>

theorem load_bundle_keeps_set_properties:
  assumes "load_bundle h = Inr (ns, h')" "r < length h" "h_truthy (prop_of (obj_at h r) n)"
    "n \<notin> set helper_names" "n \<notin> {''Visual'', ''PBI_CV_CAD60C71_FAD5_4B59_A498_A7FB0DDC7A2B''}"
  shows "get_field (HRef r) n h' = get_field (HRef r) n h"
  using load_bundle_keep [OF assms(1)] assms(2-5) by (simp add: heap_keep_def)

theorem load_bundle_keeps_set_properties_witness:
  "\<exists>ns h'. load_bundle host_page = Inr (ns, h') \<and>
     get_field (HRef 2) ''plugins'' h' = Inr (HRef 3) \<and>
     get_field (HRef 3) ''OTHER_VISUAL'' h' = Inr (HStr ''registered'') \<and>
     get_field (HRef 1) ''extensibility'' h' = Inr (HRef 4)"
proof -
  obtain ns h' where l: "load_bundle host_page = Inr (ns, h')"
    using load_bundle_spec [OF page_ok_host] by blast
  have names: "''plugins'' \<notin> set helper_names" "''OTHER_VISUAL'' \<notin> set helper_names"
    "''extensibility'' \<notin> set helper_names" by (simp_all add: helper_names_def)
  show ?thesis
    using l load_bundle_keeps_set_properties [OF l, of 2 "''plugins''"]
      load_bundle_keeps_set_properties [OF l, of 3 "''OTHER_VISUAL''"]
      load_bundle_keeps_set_properties [OF l, of 1 "''extensibility''"] names
    by (simp add: host_page_def obj_at_def prop_of_def)
qed
text \<open>The aliasing hazard the hypothesis of C33 excludes: when the host's
  \<open>powerbi.visuals.plugins\<close> is the object \<open>powerbi.extensibility.visual\<close>, the plugin
  module overwrites the namespace object with the descriptor; the bundle still loads and
  its class is intact, but \<open>create\<close> resolves \<open>Visual\<close> on the descriptor and throws.\<close>

theorem alias_page_create_fails:
  "\<exists>ns h'. load_bundle alias_page = Inr (ns, h') \<and> bundle_class (bundle_ns_of h' ns) = source_class \<and>
     (\<forall>el d. plugin_create h' el d = Inl TypeError_NotCallable)"
  by (simp add: load_defs alias_page_def bundle_class_loaded fun_at_def plugin_create_def)

end
