(* ===== verification/Spec2Isabelle.thy ===== *)
theory Spec2Isabelle
  imports Module_Loader
begin

text \<open>
  \<^bold>\<open>Time series decomposition visual: a verification development.\<close>

  The program is a Power BI custom visual: a thin adapter between the host's
  plugin interface and the DOM. Its parts and the theories that model them:

  \<^item> \<open>JS_Prelude\<close>, \<open>JS_Numbers\<close>, \<open>JS_Values\<close>: the part of ECMAScript the
    code relies on. Values (\<open>jsval\<close>: undefined, null, booleans, numbers,
    strings, objects and arrays with an identity), ToBoolean (\<open>truthy\<close>),
    ToPrimitive, ToString (\<open>js_to_string\<close>, with Number::toString as
    \<open>number_to_string\<close>), ToNumber (\<open>js_to_number\<close>, with StringToNumber
    as \<open>string_to_number\<close>), \<open>===\<close> (\<open>js_strict_eq\<close>), \<open>==\<close>
    (\<open>js_loose_eq\<close>, IsLooselyEqual with its ToPrimitive and ToNumber
    steps), \<open><\<close> and \<open>>\<close> (\<open>js_lt\<close>, \<open>js_gt\<close>), \<open>+\<close> (\<open>js_add\<close>) and
    property reads (\<open>get_prop\<close>, \<open>get_member\<close>: a TypeError on undefined
    and null). A step that may throw returns \<open>js_error + 'a\<close>, sequenced by
    \<open>js_bind\<close>. Numbers are exact rationals with NaN and the infinities:
    the code only compares, clamps and prints small integers, where IEEE
    doubles are exact. Number::toString prints a natural number below
    \<open>10^21\<close> as its decimal digits and StringToNumber reads them back
    (\<open>number_to_string_nat\<close>, \<open>string_to_number_nat_to_dec\<close>); array
    reads by a numeric index use this.
  \<^item> \<open>Object_Utils\<close>: the helpers of \<open>src/.tmp/drop/visual.js\<close>, lines
    18--160 (\<open>getValue\<close>, \<open>getValueMinMax\<close>, \<open>getValueNumberMinMax\<close>,
    \<open>ifStringReturnString\<close>, \<open>ifStringReturnStringClustersMethod\<close>,
    \<open>inMinMax\<close>, \<open>getCategoricalObjectValue\<close>, \<open>getFillValue\<close>), one
    definition each, line by line.
  \<^item> \<open>Host_DOM\<close>: the DOM calls the visual makes (\<open>createElement\<close>, the
    \<open>className\<close>, \<open>style\<close> and \<open>src\<close> setters, \<open>appendChild\<close>) on a
    store of nodes addressed by numbers.
  \<^item> \<open>Visual\<close>: \<open>src/src/visual.ts\<close>. The four settings interfaces and the
    class fields are records; the constructor is \<open>Visual_constructor\<close>;
    \<open>update\<close> is \<open>Visual_update\<close>, composed of \<open>update_guard\<close> (lines
    105--119), \<open>update_settings\<close> with \<open>read_model_params\<close> ...
    \<open>read_extra_params\<close> (122--146), \<open>image_url\<close> and \<open>update_image\<close>
    (148--157) and \<open>Visual_onResizing\<close> (159, 162--165);
    \<open>enumerateObjectInstances\<close> is \<open>Visual_enumerateObjectInstances\<close> with
    one \<open>enum_\<close> definition per \<open>switch\<close> case. The methods take the
    visual and the DOM and return them; a method that throws returns the
    exception with the state reached, since JavaScript keeps assignments
    made before a throw. The theory also holds the contract of \<open>update\<close>
    (\<open>settings_table\<close>, \<open>defaults_table\<close>, \<open>overlay\<close>,
    \<open>settings_from\<close>) and the declared types of the settings
    (\<open>declared_types\<close>, \<open>settings_typed\<close>, \<open>objects_typed\<close>).
  \<^item> \<open>Visual_Properties\<close>: example host inputs (a page with one mount node,
    the visual mounted on it, update and enumeration payloads) and the
    properties of the visual's methods, each with a witness on them.
  \<^item> \<open>Visual_Bundle\<close>: the compiled class of \<open>src/.tmp/drop/visual.js\<close>
    (lines 198--344). Its \<open>update\<close> and \<open>enumerateObjectInstances\<close> read
    \<open>getValue\<close> and \<open>inMinMax\<close> from the namespace object of the helper module at
    each call (\<open>bundle_ns\<close>, \<open>ns_getValue_call\<close>, \<open>ns_inMinMax_call\<close>,
    \<open>Visual_update_js\<close>, \<open>Visual_enumerateObjectInstances_js\<close> and their
    \<open>_js\<close> parts); the rest of the class is the code of \<open>visual.ts\<close> with the
    types erased and is modelled by the same definitions. A class is the record of
    its constructor and methods (\<open>visual_class\<close>): \<open>source_class\<close> for
    \<open>visual.ts\<close>, \<open>bundle_class ns\<close> for the bundle over a namespace object.
  \<^item> \<open>JS_Heap\<close> and \<open>Module_Loader\<close>: the module wrappers of \<open>visual.js\<close>.
    The file is three scripts that meet only through the objects of the page, so
    they run on an explicit heap (objects with own properties, function objects
    with the name of their code, object 0 the global object). \<open>ns_merge\<close> and
    \<open>enter_path\<close> are the idiom \<open>x = p.x || (p.x = {})\<close>; \<open>load_utils\<close>
    (lines 1--164) declares and exports the helpers, \<open>load_class\<close> (190--349)
    builds the class with \<open>new_class\<close> and \<open>def_method\<close>, \<open>load_plugin\<close>
    (350--367) registers \<open>plugin_literal\<close>; \<open>load_bundle\<close> runs all three.
    At call time the class sees \<open>bundle_ns_of\<close> of the namespace it captured and
    the descriptor's \<open>create\<close> resolves the class from the global object
    (\<open>plugin_create\<close>); \<open>registered_plugin\<close> is what the host finds in
    \<open>powerbi.visuals.plugins\<close>. \<open>heap_ext W\<close> is the frame of a run that
    writes only properties named in \<open>W\<close>; \<open>heap_keep E\<close> is the frame of a run
    that overwrites no truthy property of an existing object outside the names
    in \<open>E\<close>.
  \<^item> \<open>Visual_Lifecycle\<close>: the plugin descriptor of
    \<open>src/.tmp/precompile/visualPlugin.ts\<close> (\<open>visualPlugin\<close>), and the host
    contract of the specification: the host creates the visual once and then
    calls its methods one at a time (\<open>host_step\<close>, \<open>run_events\<close>);
    \<open>reachable\<close> is the set of states this produces.

  What the lemmas show. Object_Utils: \<open>getValue\<close> never throws and is a
  nested lookup with a default; \<open>inMinMax\<close> clamps numbers and lets values
  whose ToNumber is NaN through; the two range-checked lookups agree for
  ordered bounds, and for inverted ones return opposite bounds exactly on the
  values strictly between them; \<open>getFillValue\<close> throws on a
  null fill; \<open>getCategoricalObjectValue\<close> is \<open>getValue\<close> on the indexed
  entry but throws on a null category. Visual_Properties: \<open>update\<close> refines its contract on the settings
  (\<open>settings_table\<close> after the update is \<open>overlay objects defaults_table\<close>);
  the defaults of update and constructor agree; the early returns leave
  everything unchanged; the image source after an update, including the
  string \<open>null\<close>; the TypeError on a missing viewport; the frame of
  \<open>update\<close> in the DOM; \<open>onResizing\<close> sets the size to the viewport's in px; the
  enumeration's instances, its clamps and its bounds; the two \<open>== null\<close>
  tests are redundant; the guards never throw; update keeps the settings at their declared
  types when the host's values have them; loose \<open>==\<close> makes a seasonality held
  as a one-element array \<open>[s]\<close> count as manual exactly when \<open>s\<close> is
  \<open>manual\<close>. Visual_Lifecycle: every reachable state
  has all settings defined, the DOM shape the constructor built and the
  same two nodes; any sequence of host calls with well-typed objects keeps
  the settings well typed; and from every such state one update with a
  payload makes the image show it. Visual_Bundle: over any namespace object
  exporting the module's \<open>getValue\<close> and \<open>inMinMax\<close> the compiled methods equal
  those of the TypeScript class (\<open>Visual_update_js_eq\<close>, \<open>enumerate_js_eq\<close>),
  which Module_Loader applies to the namespace the bundle builds. Module_Loader: on a page whose namespace
  paths can be entered and are kept apart, loading \<open>visual.js\<close> registers the
  descriptor of \<open>visualPlugin.ts\<close> whose \<open>create\<close> is the constructor, with a
  class equal to \<open>source_class\<close>; whenever loading succeeds it overwrites no
  property that held a truthy value on an object of the page, except the helper
  exports, \<open>Visual\<close> and the plugin's GUID, so the host's plugin registry and
  other namespaces survive; and on a page where \<open>powerbi.visuals.plugins\<close> is
  \<open>powerbi.extensibility.visual\<close> the registration overwrites the namespace
  and \<open>create\<close> throws (\<open>alias_page_create_fails\<close>). This theory:
  a setting written by the host comes back unchanged from the enumeration
  when it is in range.

  Bounds and fuel: every definition is total and structurally recursive or
  has a measure (\<open>js_loose_eq\<close> decreases \<open>eq_rank\<close>; \<open>pmult\<close> and
  \<open>strip10\<close> decrease their argument), so no fuel is used. Each lifecycle
  method runs a bounded number of steps. The bound \<open>10^21\<close> on integer
  printing is the one of Number::toString, above which it switches to
  exponent notation.

  Not modelled: the host's rendering and property pane, the R engine that
  produces the image (its payload is an opaque string), the CSS parser's
  validation of style values (a style holds the text last assigned), the
  DOM's hierarchy checks in \<open>appendChild\<close>, properties inherited from
  \<open>Object.prototype\<close>. In the heap of the module wrappers, a page property
  holding a number is not modelled (the values are those the wrappers store:
  undefined, null, booleans, strings, references), and a namespace property
  holding a function other than the bundle's own would run code outside the
  repository, so a call through it is not modelled: \<open>export_of\<close> treats
  every value but the helper's own function object as not callable, which is
  exact for the pages of the theorems, where the helper module has just run. The browser
  runs the three scripts of \<open>visual.js\<close> to completion, in file order.
\<close>

text \<open>C13: A round trip through the host: after an update whose objects set a manual
  seasonality and a frequency \<open>f\<close> within [1, 10000], enumerating the model parameters gives
  back the seasonality and exactly \<open>f\<close>.\<close>

theorem update_enumerate_roundtrip:
  assumes "update_guard options = Inr (Some dv)" "get_prop dv ''metadata'' = Inr md"
    "get_prop md ''objects'' = Inr objs"
    "js_path objs [''settings_model_params'', ''targetSeasonality''] = Some (JString ''manual'')"
    "js_path objs [''settings_model_params'', ''freq''] = Some (JNumber (Fin f))" "1 \<le> f" "f \<le> 10000"
    "get_prop eo ''objectName'' = Inr (JString ''settings_model_params'')"
  shows "Visual_enumerateObjectInstances eo (fst (snd (Visual_update options this d))) = Inr
     [\<lparr>objectName = JString ''settings_model_params'',
       properties = [(''modelType'', setting objs ''settings_model_params'' ''modelType'' (JString ''automatic'')),
                     (''targetSeasonality'', JString ''manual'')], selector = JNull\<rparr>,
      \<lparr>objectName = JString ''settings_model_params'', properties = [(''freq'', JNumber (Fin f))],
       selector = JNull\<rparr>]"
  using update_result_settings [OF assms(1-3)] assms(4-8)
  by (simp add: settings_from_def setting_def Visual_enumerateObjectInstances_def enum_model_params_def
      inMinMax_numbers)

theorem update_enumerate_roundtrip_witness:
  "Visual_enumerateObjectInstances (demo_enum ''settings_model_params'')
     (fst (snd (Visual_update demo_options demo_visual demo_dom1))) = Inr
     [\<lparr>objectName = JString ''settings_model_params'',
       properties = [(''modelType'', JString ''automatic''), (''targetSeasonality'', JString ''manual'')],
       selector = JNull\<rparr>,
      \<lparr>objectName = JString ''settings_model_params'', properties = [(''freq'', JNumber (Fin 7))],
       selector = JNull\<rparr>]"
  using update_enumerate_roundtrip [OF demo_guard demo_metadata, where f = 7
      and eo = "demo_enum ''settings_model_params''" and this = demo_visual and d = demo_dom1]
  by (simp add: demo_objects_def demo_enum_get setting_def)

end
